theory Spec2Isabelle
  imports Complex_Main "HOL-Library.Word" "HOL-Library.Multiset"
begin

section \<open>Points and voxel keys\<close>

text \<open>
  Doubles are modelled as reals: rounding, infinities and NaN are outside the model.
  A 3-vector is a triple, a 3x3 matrix a triple of rows.
\<close>

type_synonym vec3 = "real \<times> real \<times> real"
type_synonym mat3 = "vec3 \<times> vec3 \<times> vec3"

text \<open>\<^verbatim>\<open>steam::IMUData\<close> as \<^verbatim>\<open>DataFrame\<close> and \<^verbatim>\<open>icp\<close> read it.\<close>

record IMUData =
  timestamp :: real
  lin_acc :: vec3
  ang_vel :: vec3

text \<open>\<^verbatim>\<open>Point3D\<close>: the fields of the struct, in its order.\<close>

record Point3D =
  raw_pt :: vec3
  pt :: vec3
  radial_velocity :: real
  alpha_timestamp :: real
  timestamp :: real
  beam_id :: int

text \<open>
  \<^verbatim>\<open>static_cast<short>(x)\<close> on a double: the fractional part is discarded (truncation
  towards zero). The conversion is undefined in C++ when the truncated value does not
  fit a short; the model keeps the low 16 bits there (\<open>sint\<close> reads the key back as a
  signed value).
\<close>

definition trunc :: "real \<Rightarrow> int" where
  "trunc x = (if 0 \<le> x then \<lfloor>x\<rfloor> else - \<lfloor>- x\<rfloor>)"

type_synonym short = "16 word"

definition cast_short :: "real \<Rightarrow> short" where
  "cast_short x = word_of_int (trunc x)"

datatype Voxel = Voxel (vx: short) (vy: short) (vz: short)

definition voxel_key :: "real \<Rightarrow> Point3D \<Rightarrow> Voxel" where
  "voxel_key size_voxel p =
     (case pt p of (x, y, z) \<Rightarrow>
        Voxel (cast_short (x / size_voxel)) (cast_short (y / size_voxel))
              (cast_short (z / size_voxel)))"

section \<open>Frame subsampling\<close>

text \<open>
  \<^verbatim>\<open>grid[Voxel(kx, ky, kz)].push_back(frame[i])\<close>: the grid is kept as an association
  list in order of first insertion; a new key gets an empty vector that the point is
  pushed onto, an existing key has the point appended to its vector.
\<close>

fun grid_push :: "'k \<Rightarrow> 'a \<Rightarrow> ('k \<times> 'a list) list \<Rightarrow> ('k \<times> 'a list) list" where
  "grid_push k p [] = [(k, [p])]"
| "grid_push k p ((k', ps) # g) =
     (if k' = k then (k', ps @ [p]) # g else (k', ps) # grid_push k p g)"

fun build_grid :: "('a \<Rightarrow> 'k) \<Rightarrow> 'a list \<Rightarrow> ('k \<times> 'a list) list \<Rightarrow> ('k \<times> 'a list) list" where
  "build_grid key [] g = g"
| "build_grid key (p # ps) g = build_grid key ps (grid_push (key p) p g)"

text \<open>
  The second loop of \<^verbatim>\<open>sub_sample_frame\<close>: every non-empty bucket contributes its
  element 0. The buckets are visited in the iteration order of the
  \<^verbatim>\<open>std::unordered_map\<close>, which the language leaves to the implementation: it is the
  parameter \<open>hash_order\<close>, applied to the grid.
\<close>

fun emit_first :: "('k \<times> 'a list) list \<Rightarrow> 'a list" where
  "emit_first [] = []"
| "emit_first ((k, ps) # g) =
     (if length ps > 0 then ps ! 0 # emit_first g else emit_first g)"

definition sub_sample_by ::
  "(('k \<times> 'a list) list \<Rightarrow> ('k \<times> 'a list) list) \<Rightarrow> ('a \<Rightarrow> 'k) \<Rightarrow> 'a list \<Rightarrow> 'a list" where
  "sub_sample_by hash_order key frame = emit_first (hash_order (build_grid key frame []))"

definition sub_sample_frame ::
  "((Voxel \<times> Point3D list) list \<Rightarrow> (Voxel \<times> Point3D list) list) \<Rightarrow>
     Point3D list \<Rightarrow> real \<Rightarrow> Point3D list" where
  "sub_sample_frame hash_order frame size_voxel =
     sub_sample_by hash_order (voxel_key size_voxel) frame"

text \<open>\<^verbatim>\<open>grid_sampling\<close> copies the frame, subsamples the copy and copies it to the keypoints.\<close>

definition grid_sampling ::
  "((Voxel \<times> Point3D list) list \<Rightarrow> (Voxel \<times> Point3D list) list) \<Rightarrow>
     Point3D list \<Rightarrow> real \<Rightarrow> Point3D list" where
  "grid_sampling hash_order frame size_voxel_subsampling =
     sub_sample_frame hash_order frame size_voxel_subsampling"

section \<open>Linear algebra on triples\<close>

definition vsub :: "vec3 \<Rightarrow> vec3 \<Rightarrow> vec3" where
  "vsub a b = (case a of (a0, a1, a2) \<Rightarrow> case b of (b0, b1, b2) \<Rightarrow> (a0 - b0, a1 - b1, a2 - b2))"

definition vadd :: "vec3 \<Rightarrow> vec3 \<Rightarrow> vec3" where
  "vadd a b = (case a of (a0, a1, a2) \<Rightarrow> case b of (b0, b1, b2) \<Rightarrow> (a0 + b0, a1 + b1, a2 + b2))"

definition vscale :: "real \<Rightarrow> vec3 \<Rightarrow> vec3" where
  "vscale c a = (case a of (a0, a1, a2) \<Rightarrow> (c * a0, c * a1, c * a2))"

definition dot :: "vec3 \<Rightarrow> vec3 \<Rightarrow> real" where
  "dot a b = (case a of (a0, a1, a2) \<Rightarrow> case b of (b0, b1, b2) \<Rightarrow> a0 * b0 + a1 * b1 + a2 * b2)"

definition vnorm :: "vec3 \<Rightarrow> real" where
  "vnorm a = sqrt (dot a a)"

definition mat_vec :: "mat3 \<Rightarrow> vec3 \<Rightarrow> vec3" where
  "mat_vec m v = (case m of (r0, r1, r2) \<Rightarrow> (dot r0 v, dot r1 v, dot r2 v))"

definition mat_transpose :: "mat3 \<Rightarrow> mat3" where
  "mat_transpose m =
     (case m of ((a, b, c), (d, e, f), (g, h, i)) \<Rightarrow> ((a, d, g), (b, e, h), (c, f, i)))"

definition mat_mul :: "mat3 \<Rightarrow> mat3 \<Rightarrow> mat3" where
  "mat_mul m n =
     (case m of (r0, r1, r2) \<Rightarrow> case mat_transpose n of (c0, c1, c2) \<Rightarrow>
        ((dot r0 c0, dot r0 c1, dot r0 c2),
         (dot r1 c0, dot r1 c1, dot r1 c2),
         (dot r2 c0, dot r2 c1, dot r2 c2)))"

definition mat_trace :: "mat3 \<Rightarrow> real" where
  "mat_trace m = (case m of ((a, b, c), (d, e, f), (g, h, i)) \<Rightarrow> a + e + i)"

definition mat_identity :: mat3 where
  "mat_identity = ((1, 0, 0), (0, 1, 0), (0, 0, 1))"

text \<open>
  \<^verbatim>\<open>AngularDistance\<close>: the rotation angle of \<open>rota * rotb\<^sup>T\<close>, in degrees.
\<close>

definition AngularDistance :: "mat3 \<Rightarrow> mat3 \<Rightarrow> real" where
  "AngularDistance rota rotb =
     (let norm = (mat_trace (mat_mul rota (mat_transpose rotb)) - 1) / 2
      in arccos norm * 180 / pi)"

section \<open>Frames, knots and options\<close>

text \<open>
  What the code throws or runs into: \<^verbatim>\<open>std::runtime_error\<close> with its message,
  \<^verbatim>\<open>std::out_of_range\<close> of a \<^verbatim>\<open>vector::at\<close>, and the read of a vector element
  past its end with \<^verbatim>\<open>operator[]\<close> or \<^verbatim>\<open>back()\<close> (undefined behaviour in C++:
  the model stops there and names the vector and the index).
\<close>

datatype fault =
    runtime_error string
  | out_of_range string
  | out_of_bounds string int

text \<open>Checked reads: \<^verbatim>\<open>v.at(i)\<close> and \<^verbatim>\<open>v[i]\<close> with an \<^verbatim>\<open>int\<close> index.\<close>

definition vec_at :: "string \<Rightarrow> 'a list \<Rightarrow> int \<Rightarrow> fault + 'a" where
  "vec_at name xs i =
     (if 0 \<le> i \<and> i < int (length xs) then Inr (xs ! nat i) else Inl (out_of_range name))"

definition vec_index :: "string \<Rightarrow> 'a list \<Rightarrow> int \<Rightarrow> fault + 'a" where
  "vec_index name xs i =
     (if 0 \<le> i \<and> i < int (length xs) then Inr (xs ! nat i) else Inl (out_of_bounds name i))"

text \<open>
  One element of \<^verbatim>\<open>trajectory_\<close>: the time stamps, the begin and end pose of the
  scan, the pose at the evaluation time and the points. The fields that only record
  solver output for plotting (velocities, bias, covariances) are left out.
\<close>

record TrajectoryFrame =
  begin_timestamp :: real
  end_timestamp :: real
  eval_time :: real
  begin_R :: mat3
  begin_t :: vec3
  end_R :: mat3
  end_t :: vec3
  mid_pose :: "mat3 \<times> vec3"
  points :: "Point3D list"

text \<open>
  One element of \<^verbatim>\<open>trajectory_vars_\<close>. The C++ struct holds the knot time and shared
  pointers to five state variables; every knot is built from variables made for it, so
  a variable is identified by the knot's index in \<^verbatim>\<open>trajectory_vars_\<close> and the field.
  The record holds the variables' current values (\<open>'v\<close>: a transformation or a
  6-vector) and the \<^verbatim>\<open>locked()\<close> flag of the \<^verbatim>\<open>T_mi\<close> variable, the only one of
  the five that the code ever locks. \<^verbatim>\<open>steam::traj::Time\<close> is taken as exact seconds.
\<close>

record 'v TrajectoryVar =
  time :: real
  T_rm :: 'v
  w_mr_inr :: 'v
  dw_mr_inr :: 'v
  imu_biases :: 'v
  T_mi :: 'v
  T_mi_locked :: bool

datatype var_field = F_T_rm | F_w_mr_inr | F_dw_mr_inr | F_imu_biases | F_T_mi

type_synonym var_ref = "nat \<times> var_field"

datatype STEAM_LOSS_FUNC = L2 | DCS | CAUCHY | GM

record Options =
  init_num_frames :: int
  init_voxel_size :: real
  voxel_size :: real
  init_sample_voxel_size :: real
  sample_voxel_size :: real
  size_voxel_map :: real
  min_distance_points :: real
  max_num_points_in_voxel :: int
  max_distance :: real
  min_number_neighbors :: int
  max_number_neighbors :: int
  num_iters_icp :: int
  max_iterations :: int
  min_number_keypoints :: int
  threshold_orientation_norm :: real
  threshold_translation_norm :: real
  power_planarity :: real
  p2p_max_dist :: real
  p2p_loss_func :: STEAM_LOSS_FUNC
  p2p_loss_sigma :: real
  num_extra_states :: int
  delay_adding_points :: int
  use_imu :: bool
  T_mi_init_only :: bool
  r_imu_acc :: vec3
  r_imu_ang :: vec3
  q_imu :: real
  p0_imu :: real
  qg_diag :: "real list"
  debug_print :: bool

section \<open>The neighbourhood fit\<close>

text \<open>
  The quotient of two doubles where the divisor can be zero: a non-zero number divided
  by (positive) zero is an infinity with the sign of the number, and zero divided by
  zero is NaN, for which there is no value.
\<close>

datatype quotient = Finite real | PlusInfinity | MinusInfinity

definition double_div :: "real \<Rightarrow> real \<Rightarrow> quotient option" where
  "double_div a b =
     (if b \<noteq> 0 then Some (Finite (a / b))
      else if a = 0 then None
      else if 0 < a then Some PlusInfinity else Some MinusInfinity)"

record Neighborhood =
  center :: vec3
  normal :: vec3
  covariance :: mat3
  a2D :: quotient

definition vdiv :: "vec3 \<Rightarrow> real \<Rightarrow> vec3" where
  "vdiv a c = (case a of (a0, a1, a2) \<Rightarrow> (a0 / c, a1 / c, a2 / c))"

definition mat_zero :: mat3 where
  "mat_zero = ((0, 0, 0), (0, 0, 0), (0, 0, 0))"

text \<open>
  One round of the loop that fills the upper triangle of \<^verbatim>\<open>covariance_Matrix\<close>,
  and the three assignments after it that mirror the upper triangle into the lower.
\<close>

definition scatter_step :: "vec3 \<Rightarrow> vec3 \<Rightarrow> mat3 \<Rightarrow> mat3" where
  "scatter_step barycenter point m =
     (case m of ((m00, m01, m02), (m10, m11, m12), (m20, m21, m22)) \<Rightarrow>
      case vsub point barycenter of (x, y, z) \<Rightarrow>
        ((m00 + x * x, m01 + x * y, m02 + x * z),
         (m10, m11 + y * y, m12 + y * z),
         (m20, m21, m22 + z * z)))"

definition mirror_upper :: "mat3 \<Rightarrow> mat3" where
  "mirror_upper m =
     (case m of ((m00, m01, m02), (m10, m11, m12), (m20, m21, m22)) \<Rightarrow>
        ((m00, m01, m02), (m01, m11, m12), (m02, m12, m22)))"

definition mat_col :: "nat \<Rightarrow> mat3 \<Rightarrow> vec3" where
  "mat_col k m =
     (case m of ((m00, m01, m02), (m10, m11, m12), (m20, m21, m22)) \<Rightarrow>
        if k = 0 then (m00, m10, m20) else if k = 1 then (m01, m11, m21) else (m02, m12, m22))"

text \<open>Eigen's \<^verbatim>\<open>normalized()\<close>: the vector divided by its norm, unless the norm is zero.\<close>

definition normalized :: "vec3 \<Rightarrow> vec3" where
  "normalized v = (if 0 < vnorm v then vdiv v (vnorm v) else v)"

text \<open>
  \<^verbatim>\<open>compute_neighborhood_distribution\<close>. Eigen's self-adjoint eigen solver is the
  parameter \<open>eigen_solver\<close>: for a matrix it gives the eigenvalues, in ascending
  order, and the matrix whose columns are the eigenvectors. The test
  \<^verbatim>\<open>a2D != a2D\<close> is true of NaN only. On an empty list the barycenter of the
  source is 0/0 in every coordinate and the matrix is the zero matrix, whose
  eigenvalues are zero: the function raises.
\<close>

definition compute_neighborhood_distribution ::
  "(mat3 \<Rightarrow> vec3 \<times> mat3) \<Rightarrow> vec3 list \<Rightarrow> fault + Neighborhood" where
  "compute_neighborhood_distribution eigen_solver pts =
     (let barycenter = vdiv (fold (\<lambda>point b. vadd b point) pts (0, 0, 0))
                         (real (length pts));
          covariance_Matrix = mirror_upper (fold (scatter_step barycenter) pts mat_zero);
          es = eigen_solver covariance_Matrix;
          normal = normalized (mat_col 0 (snd es))
      in case fst es of (ev0, ev1, ev2) \<Rightarrow>
           (let sigma_1 = sqrt \<bar>ev2\<bar>;
                sigma_2 = sqrt \<bar>ev1\<bar>;
                sigma_3 = sqrt \<bar>ev0\<bar>
            in case double_div (sigma_2 - sigma_3) sigma_1 of
                 None \<Rightarrow> Inl (runtime_error ''error'')
               | Some q \<Rightarrow>
                  Inr \<lparr>center = barycenter, normal = normal,
                       covariance = covariance_Matrix, a2D = q\<rparr>))"

subsection \<open>The fit as the specification words it\<close>

text \<open>
  The arithmetic mean of the points, and their centred scatter matrix: the entry
  \<open>(k, l)\<close> is the sum, over the points, of the product of the \<open>k\<close>-th and the
  \<open>l\<close>-th coordinate of the point minus the centre.
\<close>

definition coord :: "nat \<Rightarrow> vec3 \<Rightarrow> real" where
  "coord k v = (case v of (a0, a1, a2) \<Rightarrow> if k = 0 then a0 else if k = 1 then a1 else a2)"

definition mean :: "vec3 list \<Rightarrow> vec3" where
  "mean ps =
     (sum_list (map (coord 0) ps) / real (length ps),
      sum_list (map (coord 1) ps) / real (length ps),
      sum_list (map (coord 2) ps) / real (length ps))"

definition scatter_entry :: "vec3 \<Rightarrow> vec3 list \<Rightarrow> nat \<Rightarrow> nat \<Rightarrow> real" where
  "scatter_entry c ps k l =
     sum_list (map (\<lambda>p. (coord k p - coord k c) * (coord l p - coord l c)) ps)"

definition scatter_matrix :: "vec3 list \<Rightarrow> mat3" where
  "scatter_matrix ps =
     (let c = mean ps
      in ((scatter_entry c ps 0 0, scatter_entry c ps 0 1, scatter_entry c ps 0 2),
          (scatter_entry c ps 1 0, scatter_entry c ps 1 1, scatter_entry c ps 1 2),
          (scatter_entry c ps 2 0, scatter_entry c ps 2 1, scatter_entry c ps 2 2)))"

text \<open>
  What Eigen documents of \<^verbatim>\<open>SelfAdjointEigenSolver\<close> on a matrix \<open>m\<close>: the eigenvalues
  come in ascending order, and the columns of the second component are orthonormal
  eigenvectors of \<open>m\<close>, the \<open>k\<close>-th for the \<open>k\<close>-th eigenvalue.
\<close>

definition unit_eigenvector :: "mat3 \<Rightarrow> real \<Rightarrow> vec3 \<Rightarrow> bool" where
  "unit_eigenvector m l v \<longleftrightarrow> mat_vec m v = vscale l v \<and> vnorm v = 1"

definition eigen_contract :: "(mat3 \<Rightarrow> vec3 \<times> mat3) \<Rightarrow> mat3 \<Rightarrow> bool" where
  "eigen_contract solver m =
     (case solver m of ((l0, l1, l2), V) \<Rightarrow>
        l0 \<le> l1 \<and> l1 \<le> l2 \<and>
        unit_eigenvector m l0 (mat_col 0 V) \<and>
        unit_eigenvector m l1 (mat_col 1 V) \<and>
        unit_eigenvector m l2 (mat_col 2 V) \<and>
        dot (mat_col 0 V) (mat_col 1 V) = 0 \<and>
        dot (mat_col 0 V) (mat_col 2 V) = 0 \<and>
        dot (mat_col 1 V) (mat_col 2 V) = 0)"

section \<open>Cost terms, the sliding-window filter and the trajectory interface\<close>

text \<open>
  A cost term is kept as the code builds it: the error function with the variables and
  measurements handed to it, the noise model and the loss function. What the error
  functions compute is inside the solver library.
\<close>

datatype loss_func =
    L2LossFunc | L1LossFunc | DcsLossFunc real | CauchyLossFunc real | GemanMcClureLossFunc real

datatype noise_model =
    Covariance_diag "real list"
  | Covariance_scaled real
  | Information mat3

datatype error_func =
    GyroError real var_ref vec3
  | p2pError real vec3 vec3
  | vspace_error var_ref
  | bias_difference var_ref var_ref
  | se3_error var_ref
  | se3_error_compose_rinv var_ref var_ref

datatype cost_term =
    WeightedLeastSqCostTerm error_func noise_model loss_func
  | PosePrior real real
  | VelocityPrior real real
  | AccelerationPrior real real
  | KnotPrior nat nat

text \<open>
  Modelled from the spec: the sliding-window filter of the solver library, which is not
  part of the sources. It holds the active variables, in the groups in which
  \<^verbatim>\<open>addStateVariable\<close> enrolled them, and the active cost terms;
  \<^verbatim>\<open>marginalizeVariable\<close> takes variables out of the active ones and absorbs the cost
  terms that involve them into its prior (which cost terms involve a variable is the
  library's knowledge: the parameter \<open>involves\<close>).
\<close>

record SlidingWindowFilter =
  variables :: "var_ref list list"
  cost_terms :: "cost_term list"

definition addStateVariable :: "var_ref list \<Rightarrow> SlidingWindowFilter \<Rightarrow> SlidingWindowFilter" where
  "addStateVariable vars f = f\<lparr>variables := variables f @ [vars]\<rparr>"

definition addCostTerm :: "cost_term \<Rightarrow> SlidingWindowFilter \<Rightarrow> SlidingWindowFilter" where
  "addCostTerm c f = f\<lparr>cost_terms := cost_terms f @ [c]\<rparr>"

definition addCostTerms :: "cost_term list \<Rightarrow> SlidingWindowFilter \<Rightarrow> SlidingWindowFilter" where
  "addCostTerms cs f = fold addCostTerm cs f"

definition marginalizeVariable ::
  "(cost_term \<Rightarrow> var_ref \<Rightarrow> bool) \<Rightarrow> var_ref list \<Rightarrow> SlidingWindowFilter \<Rightarrow> SlidingWindowFilter" where
  "marginalizeVariable involves vars f =
     f\<lparr>variables := filter (\<lambda>g. g \<noteq> []) (map (filter (\<lambda>v. v \<notin> set vars)) (variables f)),
       cost_terms := filter (\<lambda>c. \<not> list_ex (involves c) vars) (cost_terms f)\<rparr>"

definition getNumberOfVariables :: "SlidingWindowFilter \<Rightarrow> nat" where
  "getNumberOfVariables f = length (variables f)"

definition getNumberOfCostTerms :: "SlidingWindowFilter \<Rightarrow> nat" where
  "getNumberOfCostTerms f = length (cost_terms f)"

text \<open>
  Modelled from the spec: the trajectory interface of the solver library. It knows the
  knots added to it (here by their index in \<^verbatim>\<open>trajectory_vars_\<close>) and the priors put
  on them; \<^verbatim>\<open>addPriorCostTerms\<close> emits those priors and one factor between every two
  consecutive knots.
\<close>

record SteamTrajectory =
  knot_ids :: "nat list"
  state_priors :: "cost_term list"

definition trajectory_add :: "nat \<Rightarrow> SteamTrajectory \<Rightarrow> SteamTrajectory" where
  "trajectory_add i st = st\<lparr>knot_ids := knot_ids st @ [i]\<rparr>"

definition prior_cost_terms_of :: "SteamTrajectory \<Rightarrow> cost_term list" where
  "prior_cost_terms_of st =
     state_priors st @ map (\<lambda>(i, j). KnotPrior i j) (zip (knot_ids st) (tl (knot_ids st)))"

section \<open>The engine state and its external collaborators\<close>

text \<open>
  The state of \<^verbatim>\<open>SteamLioOdometry\<close>. \<open>optimize_log\<close> is not a member of the class:
  it records, in order, every outer ICP iteration that completes (its number, with
  \<^verbatim>\<open>diff_trans\<close> and \<^verbatim>\<open>diff_rot\<close> as computed after the solve) and the final
  sliding-window solve, so that statements can speak about which solves happened.
  \<open>solved_problems\<close> is not a member either: it records, in order, every
  optimization problem handed to a solver (the snapshot of the filter that an ICP
  iteration solves, and the filter itself at the sliding-window solve).
\<close>

datatype optimize_event = icp_iteration nat real real | sliding_window_solve

record ('v, 'm) SteamLioOdometry =
  trajectory :: "TrajectoryFrame list"
  trajectory_vars :: "'v TrajectoryVar list"
  to_marginalize :: nat
  sliding_window_filter :: SlidingWindowFilter
  map_m :: 'm
  optimize_log :: "optimize_event list"
  solved_problems :: "SlidingWindowFilter list"

text \<open>
  Everything the engine calls that is not in its sources, as parameters: the hash
  map's iteration order, the random shuffle, matrix inversion and quaternion
  interpolation, the ground-truth pose table and the transformation built from it,
  the update of an SE(3) variable, the trajectory's interpolators (a function of the
  knots added to it and the query time), the voxel map, Eigen's eigen solver for
  self-adjoint matrices, the power function of the C++ library, the Gauss-Newton
  solver (given the cost terms, the iteration bound and the current values, it
  proposes a value for every variable) and the library's knowledge of which cost
  terms involve a variable.
\<close>

record ('v, 'm) Ext =
  hash_order :: "(Voxel \<times> Point3D list) list \<Rightarrow> (Voxel \<times> Point3D list) list"
  shuffle :: "nat \<Rightarrow> Point3D list \<Rightarrow> Point3D list"
  T_rs :: "mat3 \<times> vec3"
  mat_inverse :: "mat3 \<Rightarrow> mat3"
  slerp :: "mat3 \<Rightarrow> mat3 \<Rightarrow> real \<Rightarrow> mat3"
  T_identity :: 'v
  zero6 :: 'v
  T_i_r_gt_poses :: "int \<Rightarrow> 'v"
  T_mi_gt_of :: "'v \<Rightarrow> 'v \<Rightarrow> 'v"
  se3_update :: "'v \<Rightarrow> 'v \<Rightarrow> 'v"
  interp_T_rm :: "'v TrajectoryVar list \<Rightarrow> real \<Rightarrow> 'v"
  interp_w_mr_inr :: "'v TrajectoryVar list \<Rightarrow> real \<Rightarrow> 'v"
  interp_dw_mr_inr :: "'v TrajectoryVar list \<Rightarrow> real \<Rightarrow> 'v"
  T_ms_of :: "'v \<Rightarrow> mat3 \<times> vec3"
  searchNeighbors :: "'m \<Rightarrow> vec3 \<Rightarrow> int \<Rightarrow> real \<Rightarrow> int \<Rightarrow> vec3 list"
  SelfAdjointEigenSolver :: "mat3 \<Rightarrow> vec3 \<times> mat3"
  pow :: "quotient \<Rightarrow> real \<Rightarrow> real"
  gauss_newton :: "cost_term list \<Rightarrow> int \<Rightarrow> 'v TrajectoryVar list \<Rightarrow> var_ref \<Rightarrow> 'v"
  involves :: "cost_term \<Rightarrow> var_ref \<Rightarrow> bool"
  map_add :: "Point3D list \<Rightarrow> real \<Rightarrow> int \<Rightarrow> real \<Rightarrow> 'm \<Rightarrow> 'm"
  map_remove :: "vec3 \<Rightarrow> real \<Rightarrow> 'm \<Rightarrow> 'm"

section \<open>Frame ingress\<close>

text \<open>
  \<^verbatim>\<open>std::numeric_limits<double>::max()\<close> is the largest finite double and
  \<^verbatim>\<open>std::numeric_limits<double>::min()\<close> the smallest positive normalised double.
\<close>

definition DBL_MAX :: real where
  "DBL_MAX = 2 ^ 1024 - 2 ^ 971"

definition DBL_MIN :: real where
  "DBL_MIN = 1 / 2 ^ 1022"

text \<open>The loop of \<^verbatim>\<open>initializeTimestamp\<close>, on the pair of the running minimum and maximum.\<close>

fun scan_timestamps :: "Point3D list \<Rightarrow> real \<times> real \<Rightarrow> real \<times> real" where
  "scan_timestamps [] mm = mm"
| "scan_timestamps (point # rest) (min_timestamp, max_timestamp) =
     scan_timestamps rest
       (if Point3D.timestamp point < min_timestamp then Point3D.timestamp point else min_timestamp,
        if Point3D.timestamp point > max_timestamp then Point3D.timestamp point else max_timestamp)"

type_synonym const_frame = "real \<times> Point3D list \<times> IMUData list"

definition update_frame ::
  "nat \<Rightarrow> (TrajectoryFrame \<Rightarrow> TrajectoryFrame) \<Rightarrow> ('v, 'm) SteamLioOdometry \<Rightarrow> ('v, 'm) SteamLioOdometry" where
  "update_frame i f s = s\<lparr>trajectory := (trajectory s)[i := f (trajectory s ! i)]\<rparr>"

definition initializeTimestamp ::
  "nat \<Rightarrow> const_frame \<Rightarrow> ('v, 'm) SteamLioOdometry \<Rightarrow> ('v, 'm) SteamLioOdometry" where
  "initializeTimestamp index_frame cf s =
     (case cf of (t_eval, pts, imus) \<Rightarrow>
        case scan_timestamps pts (DBL_MAX, DBL_MIN) of (min_timestamp, max_timestamp) \<Rightarrow>
          update_frame index_frame
            (\<lambda>fr. fr\<lparr>begin_timestamp := min_timestamp, end_timestamp := max_timestamp,
                     eval_time := t_eval\<rparr>) s)"

definition initializeMotion ::
  "('v, 'm) Ext \<Rightarrow> nat \<Rightarrow> ('v, 'm) SteamLioOdometry \<Rightarrow> ('v, 'm) SteamLioOdometry" where
  "initializeMotion ext index_frame s =
     (if index_frame \<le> 1 then
        update_frame index_frame
          (\<lambda>fr. fr\<lparr>begin_R := fst (T_rs ext), begin_t := snd (T_rs ext),
                   end_R := fst (T_rs ext), end_t := snd (T_rs ext)\<rparr>) s
      else
        let p1 = trajectory s ! (index_frame - 1);
            p2 = trajectory s ! (index_frame - 2);
            R_next_end = mat_mul (mat_mul (end_R p1) (mat_inverse ext (end_R p2))) (end_R p1);
            t_next_end = vadd (end_t p1)
               (mat_vec (mat_mul (end_R p1) (mat_inverse ext (end_R p2)))
                  (vsub (end_t p1) (end_t p2)))
        in update_frame index_frame
             (\<lambda>fr. fr\<lparr>begin_R := end_R p1, begin_t := end_t p1,
                      end_R := R_next_end, end_t := t_next_end\<rparr>) s)"

definition initial_point :: "('v, 'm) Ext \<Rightarrow> TrajectoryFrame \<Rightarrow> Point3D \<Rightarrow> Point3D" where
  "initial_point ext fr point =
     (let alpha = alpha_timestamp point;
          R = slerp ext (begin_R fr) (end_R fr) alpha;
          t = vadd (vscale (1 - alpha) (begin_t fr)) (vscale alpha (end_t fr))
      in point\<lparr>pt := vadd (mat_vec R (raw_pt point)) t\<rparr>)"

definition initializeFrame ::
  "('v, 'm) Ext \<Rightarrow> Options \<Rightarrow> nat \<Rightarrow> Point3D list \<Rightarrow> ('v, 'm) SteamLioOdometry \<Rightarrow> Point3D list" where
  "initializeFrame ext opts index_frame pts s =
     (let sample_size = (if int index_frame < init_num_frames opts then init_voxel_size opts
                         else voxel_size opts);
          frame = shuffle ext 0 pts;
          frame = sub_sample_frame (hash_order ext) frame sample_size;
          frame = shuffle ext 1 frame
      in map (initial_point ext (trajectory s ! index_frame)) frame)"

text \<open>
  \<^verbatim>\<open>updateMap\<close>: the knots from \<^verbatim>\<open>to_marginalize_ - 1\<close> up to the one at the end time
  of the frame make the trajectory that places the points; then the points go into the
  map, the frame's points are cleared and far voxels are removed.
\<close>

fun update_knots :: "'v TrajectoryVar list \<Rightarrow> real \<Rightarrow> fault + 'v TrajectoryVar list" where
  "update_knots [] end_time = Inr []"
| "update_knots (var # rest) end_time =
     (if time var = end_time then Inr [var]
      else if time var > end_time then
        Inl (runtime_error ''var.time > end_steam_time, should not happen'')
      else case update_knots rest end_time of
             Inl e \<Rightarrow> Inl e
           | Inr vars \<Rightarrow> Inr (var # vars))"

definition place_point :: "('v, 'm) Ext \<Rightarrow> 'v TrajectoryVar list \<Rightarrow> Point3D \<Rightarrow> Point3D" where
  "place_point ext knots point =
     (case T_ms_of ext (interp_T_rm ext knots (Point3D.timestamp point)) of
        (R, t) \<Rightarrow> point\<lparr>pt := vadd (mat_vec R (raw_pt point)) t\<rparr>)"

definition updateMap ::
  "('v, 'm) Ext \<Rightarrow> Options \<Rightarrow> nat \<Rightarrow> int \<Rightarrow> ('v, 'm) SteamLioOdometry
     \<Rightarrow> fault + ('v, 'm) SteamLioOdometry" where
  "updateMap ext opts index_frame update_frame_index s =
     (case vec_index ''trajectory_'' (trajectory s) update_frame_index of
        Inl e \<Rightarrow> Inl e
      | Inr ufr \<Rightarrow>
         (case update_knots
                 (if to_marginalize s = 0 then [] else drop (to_marginalize s - 1) (trajectory_vars s))
                 (end_timestamp ufr) of
            Inl e \<Rightarrow> Inl e
          | Inr knots \<Rightarrow>
             let frame = map (place_point ext knots) (points ufr);
                 m = map_add ext frame (size_voxel_map opts) (max_num_points_in_voxel opts)
                       (min_distance_points opts) (map_m s);
                 s = update_frame (nat update_frame_index) (\<lambda>fr. fr\<lparr>points := []\<rparr>) s;
                 location = end_t (trajectory s ! index_frame)
             in Inr (s\<lparr>map_m := map_remove ext location (max_distance opts) m\<rparr>)))"

section \<open>ICP: state allocation\<close>

text \<open>The local flag of \<^verbatim>\<open>icp\<close>, with the value the code gives it.\<close>

definition use_T_mi_gt :: bool where
  "use_T_mi_gt = True"

text \<open>The locals of \<^verbatim>\<open>icp\<close> that outlive a phase. \<^verbatim>\<open>prior_cost_terms\<close> is never filled.\<close>

record icp_locals =
  steam_trajectory :: SteamTrajectory
  steam_state_vars :: "var_ref list"
  prior_cost_terms :: "cost_term list"
  meas_cost_terms :: "cost_term list"
  imu_cost_terms :: "cost_term list"
  imu_prior_cost_terms :: "cost_term list"
  T_mi_prior_cost_terms :: "cost_term list"
  prev_trajectory_var_index :: nat
  curr_trajectory_var_index :: nat
  number_keypoints_used :: int
  icp_success :: bool
  keypoints :: "Point3D list"

definition group3 :: "nat \<Rightarrow> var_ref list" where
  "group3 i = [(i, F_T_rm), (i, F_w_mr_inr), (i, F_dw_mr_inr)]"

text \<open>
  The previous scan's end knot: it must be the last knot; it starts the trajectory and
  the variable list. With the IMU in use and \<^verbatim>\<open>use_T_mi_gt\<close> set, its \<^verbatim>\<open>T_mi\<close>
  is updated with the transformation built from the ground-truth table and locked.
\<close>

definition icp_previous ::
  "('v, 'm) Ext \<Rightarrow> Options \<Rightarrow> nat \<Rightarrow> Point3D list \<Rightarrow> ('v, 'm) SteamLioOdometry
     \<Rightarrow> fault + (icp_locals \<times> ('v, 'm) SteamLioOdometry)" where
  "icp_previous ext opts index_frame kps s =
     (case vec_index ''trajectory_'' (trajectory s) (int index_frame - 1) of
        Inl e \<Rightarrow> Inl e
      | Inr prev_frame \<Rightarrow>
         if trajectory_vars s = [] then Inl (out_of_bounds ''trajectory_vars_'' (- 1))
         else
           let tv = trajectory_vars s;
               prev_i = length tv - 1;
               prev = last tv;
               prev_time = end_timestamp prev_frame
           in if time prev \<noteq> prev_time then
                Inl (runtime_error ''missing previous scan end variable'')
              else
                let T_mi_gt = T_mi_gt_of ext (T_i_r_gt_poses ext (int index_frame)) (T_rm prev);
                    vars = group3 prev_i;
                    vars = (if use_imu opts then
                              vars @ [(prev_i, F_imu_biases)] @
                              (if \<not> use_T_mi_gt \<and> (\<not> T_mi_init_only opts \<or> index_frame = 1)
                               then [(prev_i, F_T_mi)] else [])
                            else vars);
                    tv = (if use_imu opts \<and> use_T_mi_gt then
                            tv[prev_i := prev\<lparr>T_mi := se3_update ext T_mi_gt (T_mi prev),
                                               T_mi_locked := True\<rparr>]
                          else tv)
                in (case vec_index ''trajectory_'' (trajectory s) (int index_frame) of
                      Inl e \<Rightarrow> Inl e
                    | Inr curr_frame \<Rightarrow>
                       Inr (\<lparr>steam_trajectory =
                               trajectory_add prev_i \<lparr>knot_ids = [], state_priors = []\<rparr>,
                             steam_state_vars = vars,
                             prior_cost_terms = [], meas_cost_terms = [], imu_cost_terms = [],
                             imu_prior_cost_terms = [], T_mi_prior_cost_terms = [],
                             prev_trajectory_var_index = prev_i,
                             curr_trajectory_var_index = prev_i,
                             number_keypoints_used = 0, icp_success = True, keypoints = kps\<rparr>,
                           s\<lparr>trajectory_vars := tv\<rparr>)))"

text \<open>The times of the new knots: the extra states, evenly spaced, then the scan's end.\<close>

definition knot_times :: "Options \<Rightarrow> real \<Rightarrow> real \<Rightarrow> real list" where
  "knot_times opts prev_time curr_time =
     (let num_states = num_extra_states opts + 1;
          time_diff = (curr_time - prev_time) / real_of_int num_states
      in map (\<lambda>i. prev_time + (real i + 1) * time_diff) [0..<nat (num_extra_states opts)]
         @ [curr_time])"

definition trajectory_knots :: "SteamTrajectory \<Rightarrow> 'v TrajectoryVar list \<Rightarrow> 'v TrajectoryVar list" where
  "trajectory_knots st tv = map (\<lambda>i. tv ! i) (knot_ids st)"

text \<open>
  One new knot per knot time, initialised from the trajectory's interpolators, with the
  previous bias; \<open>prev_T_mi\<close> and \<open>prev_imu_biases\<close> are the values read from the
  previous knot on entry.
\<close>

fun add_knots ::
  "('v, 'm) Ext \<Rightarrow> Options \<Rightarrow> 'v \<Rightarrow> 'v \<Rightarrow> real list
     \<Rightarrow> icp_locals \<times> ('v, 'm) SteamLioOdometry \<Rightarrow> icp_locals \<times> ('v, 'm) SteamLioOdometry" where
  "add_knots ext opts prev_imu_biases prev_T_mi [] ls = ls"
| "add_knots ext opts prev_imu_biases prev_T_mi (knot_time # rest) (l, s) =
     (let tv = trajectory_vars s;
          knots = trajectory_knots (steam_trajectory l) tv;
          i = length tv;
          vars = steam_state_vars l @ group3 i
                 @ (if use_imu opts then [(i, F_imu_biases)] else [])
                 @ (if \<not> use_T_mi_gt \<and> use_imu opts \<and> \<not> T_mi_init_only opts
                    then [(i, F_T_mi)] else []);
          var = \<lparr>time = knot_time,
                 T_rm = interp_T_rm ext knots knot_time,
                 w_mr_inr = interp_w_mr_inr ext knots knot_time,
                 dw_mr_inr = interp_dw_mr_inr ext knots knot_time,
                 imu_biases = prev_imu_biases,
                 T_mi = (if use_T_mi_gt then T_identity ext else prev_T_mi),
                 T_mi_locked = (if use_T_mi_gt then True
                                else use_imu opts \<and> T_mi_init_only opts)\<rparr>
      in add_knots ext opts prev_imu_biases prev_T_mi rest
           (l\<lparr>steam_trajectory := trajectory_add i (steam_trajectory l),
              steam_state_vars := vars,
              curr_trajectory_var_index := curr_trajectory_var_index l + 1\<rparr>,
            s\<lparr>trajectory_vars := tv @ [var]\<rparr>))"

text \<open>
  For frame 1: the priors on the first optimised knot, the bias prior and (were
  \<^verbatim>\<open>use_T_mi_gt\<close> unset) the prior on \<^verbatim>\<open>T_mi\<close>.
\<close>

definition icp_priors ::
  "Options \<Rightarrow> nat \<Rightarrow> icp_locals \<times> ('v, 'm) SteamLioOdometry
     \<Rightarrow> fault + (icp_locals \<times> ('v, 'm) SteamLioOdometry)" where
  "icp_priors opts index_frame ls =
     (case ls of (l, s) \<Rightarrow>
      (case (if index_frame = 1 then
              (case vec_at ''trajectory_vars_'' (trajectory_vars s) (int (prev_trajectory_var_index l)) of
                 Inl e \<Rightarrow> Inl e
               | Inr prev_var \<Rightarrow>
                  (case vec_at ''trajectory_'' (trajectory s) 0 of
                     Inl e \<Rightarrow> Inl e
                   | Inr fr0 \<Rightarrow>
                      if time prev_var \<noteq> end_timestamp fr0 then
                        Inl (runtime_error ''inconsistent timestamp'')
                      else
                        Inr ((steam_trajectory l)
                               \<lparr>state_priors := state_priors (steam_trajectory l) @
                                  [PosePrior (time prev_var) (1 / 10 ^ 4),
                                   VelocityPrior (time prev_var) (1 / 10 ^ 4),
                                   AccelerationPrior (time prev_var) (1 / 10)]\<rparr>)))
            else Inr (steam_trajectory l)) of
        Inl e \<Rightarrow> Inl e
      | Inr st \<Rightarrow>
         let prev_i = prev_trajectory_var_index l;
             bias_prior =
               (if use_imu opts \<and> index_frame = 1 then
                  [WeightedLeastSqCostTerm (vspace_error (prev_i, F_imu_biases))
                     (Covariance_scaled (p0_imu opts)) L2LossFunc]
                else []);
             T_mi_prior =
               (if use_imu opts \<and> (\<not> T_mi_init_only opts \<or> index_frame = 1) \<and> \<not> use_T_mi_gt then
                  [WeightedLeastSqCostTerm (se3_error (prev_i, F_T_mi))
                     (Covariance_diag [1 / 10 ^ 3, 1 / 10 ^ 3, 1 / 10 ^ 3, 1 / 10, 1 / 10, 1 / 10 ^ 4])
                     L2LossFunc]
                else [])
         in Inr (l\<lparr>steam_trajectory := st,
                    imu_prior_cost_terms := imu_prior_cost_terms l @ bias_prior,
                    T_mi_prior_cost_terms := T_mi_prior_cost_terms l @ T_mi_prior\<rparr>, s)))"

section \<open>ICP: filter variables and marginalization\<close>

definition enroll_knot :: "Options \<Rightarrow> nat \<Rightarrow> SlidingWindowFilter \<Rightarrow> SlidingWindowFilter" where
  "enroll_knot opts i f =
     (let f = addStateVariable (group3 i) f
      in if use_imu opts then
           (let f = addStateVariable [(i, F_imu_biases)] f
            in if \<not> T_mi_init_only opts \<and> \<not> use_T_mi_gt
               then addStateVariable [(i, F_T_mi)] f else f)
         else f)"

text \<open>
  The reads \<^verbatim>\<open>trajectory_vars_.at(i)\<close> of this block are at indices between the
  previous and the current knot, which exist: they cannot throw and are plain reads.
\<close>

definition icp_filter_vars ::
  "Options \<Rightarrow> nat \<Rightarrow> icp_locals \<Rightarrow> SlidingWindowFilter \<Rightarrow> SlidingWindowFilter" where
  "icp_filter_vars opts index_frame l f =
     (let prev_i = prev_trajectory_var_index l;
          f = (if index_frame = 1 then
                 (let f = addStateVariable (group3 prev_i) f
                  in if use_imu opts then
                       (let f = addStateVariable [(prev_i, F_imu_biases)] f
                        in if \<not> use_T_mi_gt then addStateVariable [(prev_i, F_T_mi)] f else f)
                     else f)
               else f)
      in fold (enroll_knot opts) [prev_i + 1 ..< curr_trajectory_var_index l + 1] f)"

text \<open>
  The marginalization loop over the knot indices from \<^verbatim>\<open>to_marginalize_\<close> to the
  current knot: knots up to the marginalization time are collected; the first later one
  becomes the new \<^verbatim>\<open>to_marginalize_\<close> and ends the loop.
\<close>

fun marg_scan ::
  "Options \<Rightarrow> 'v TrajectoryVar list \<Rightarrow> real \<Rightarrow> nat list \<Rightarrow> var_ref list \<Rightarrow> nat
     \<Rightarrow> var_ref list \<times> nat" where
  "marg_scan opts tv marg_time [] marg_vars to_m = (marg_vars, to_m)"
| "marg_scan opts tv marg_time (i # rest) marg_vars to_m =
     (let var = tv ! i
      in if time var \<le> marg_time then
           marg_scan opts tv marg_time rest
             (marg_vars @ group3 i @
                (if use_imu opts then
                   [(i, F_imu_biases)] @ (if \<not> T_mi_locked var then [(i, F_T_mi)] else [])
                 else []))
             to_m
         else (marg_vars, i))"

definition icp_marginalize ::
  "('v, 'm) Ext \<Rightarrow> Options \<Rightarrow> nat \<Rightarrow> icp_locals \<Rightarrow> ('v, 'm) SteamLioOdometry
     \<Rightarrow> fault + ('v, 'm) SteamLioOdometry" where
  "icp_marginalize ext opts index_frame l s =
     (if int index_frame - delay_adding_points opts > 0 then
        (case vec_at ''trajectory_vars_'' (trajectory_vars s) (int (to_marginalize s)) of
           Inl e \<Rightarrow> Inl e
         | Inr first_var \<Rightarrow>
            (case vec_at ''trajectory_'' (trajectory s)
                    (int index_frame - delay_adding_points opts - 1) of
               Inl e \<Rightarrow> Inl e
             | Inr marg_frame \<Rightarrow>
                (case marg_scan opts (trajectory_vars s) (end_timestamp marg_frame)
                        [to_marginalize s ..< curr_trajectory_var_index l + 1] [] (to_marginalize s) of
                   (marg_vars, to_m) \<Rightarrow>
                     Inr (s\<lparr>to_marginalize := to_m,
                            sliding_window_filter :=
                              marginalizeVariable (involves ext) marg_vars
                                (sliding_window_filter s)\<rparr>))))
      else Inr s)"

section \<open>ICP: IMU cost terms\<close>

text \<open>
  The search for the knots that bracket a time stamp, as written twice in \<^verbatim>\<open>icp\<close>
  (for every IMU sample and for the mid time): the \<^verbatim>\<open>for\<close> loop from the previous
  knot, which stops at the first \<open>i\<close> with \<open>t\<^sub>i \<le> \<tau> < t\<^sub>i\<^sub>+\<^sub>1\<close> or at
  \<^verbatim>\<open>size() - 1\<close>, and the check after it, which reads \<^verbatim>\<open>trajectory_vars_[i]\<close> and,
  unless the first comparison already decides, \<^verbatim>\<open>trajectory_vars_[i + 1]\<close>.
\<close>

function bracket_loop :: "'v TrajectoryVar list \<Rightarrow> real \<Rightarrow> nat \<Rightarrow> nat" where
  "bracket_loop tv \<tau> i =
     (if i < length tv - 1 then
        (if \<tau> \<ge> time (tv ! i) \<and> \<tau> < time (tv ! (i + 1)) then i
         else bracket_loop tv \<tau> (i + 1))
      else i)"
  by pat_completeness auto
termination
  by (relation "measure (\<lambda>(tv, \<tau>, i). length tv - 1 - i)") auto

declare bracket_loop.simps [simp del]

definition knot_bracket :: "string \<Rightarrow> 'v TrajectoryVar list \<Rightarrow> nat \<Rightarrow> real \<Rightarrow> fault + nat" where
  "knot_bracket msg tv start \<tau> =
     (let i = bracket_loop tv \<tau> start
      in case vec_index ''trajectory_vars_'' tv (int i) of
           Inl e \<Rightarrow> Inl e
         | Inr var_i \<Rightarrow>
            if \<tau> < time var_i then Inl (runtime_error msg)
            else (case vec_index ''trajectory_vars_'' tv (int i + 1) of
                    Inl e \<Rightarrow> Inl e
                  | Inr var_j \<Rightarrow>
                     if \<tau> \<ge> time var_j then Inl (runtime_error msg) else Inr i))"

definition diag3 :: "vec3 \<Rightarrow> real list" where
  "diag3 v = (case v of (a, b, c) \<Rightarrow> [a, b, c])"

definition gyro_cost :: "Options \<Rightarrow> nat \<Rightarrow> IMUData \<Rightarrow> cost_term" where
  "gyro_cost opts i imu_data =
     WeightedLeastSqCostTerm
       (GyroError (IMUData.timestamp imu_data) (i, F_imu_biases) (ang_vel imu_data))
       (Covariance_diag (diag3 (r_imu_ang opts))) L1LossFunc"

text \<open>
  The loop over the IMU samples. The acceleration error is built but its cost term is
  commented out in the code: only the gyro cost term is appended.
\<close>

fun imu_terms ::
  "Options \<Rightarrow> 'v TrajectoryVar list \<Rightarrow> nat \<Rightarrow> IMUData list \<Rightarrow> fault + cost_term list" where
  "imu_terms opts tv prev_i [] = Inr []"
| "imu_terms opts tv prev_i (imu_data # rest) =
     (case knot_bracket ''imu stamp not within knot times'' tv prev_i (IMUData.timestamp imu_data) of
        Inl e \<Rightarrow> Inl e
      | Inr i \<Rightarrow>
         (case imu_terms opts tv prev_i rest of
            Inl e \<Rightarrow> Inl e
          | Inr cs \<Rightarrow> Inr (gyro_cost opts i imu_data # cs)))"

definition bias_walk_terms :: "Options \<Rightarrow> nat \<Rightarrow> nat \<Rightarrow> cost_term list" where
  "bias_walk_terms opts prev_i n =
     map (\<lambda>i. WeightedLeastSqCostTerm (bias_difference (i, F_imu_biases) (i + 1, F_imu_biases))
                 (Covariance_scaled (q_imu opts)) L2LossFunc)
         [prev_i ..< n - 1]"

definition T_mi_walk_terms :: "Options \<Rightarrow> nat \<Rightarrow> nat \<Rightarrow> cost_term list" where
  "T_mi_walk_terms opts prev_i n =
     map (\<lambda>i. WeightedLeastSqCostTerm (se3_error_compose_rinv (i + 1, F_T_mi) (i, F_T_mi))
                 (Covariance_diag (qg_diag opts)) L2LossFunc)
         [prev_i ..< n - 1]"

definition icp_imu ::
  "Options \<Rightarrow> IMUData list \<Rightarrow> icp_locals \<Rightarrow> 'v TrajectoryVar list \<Rightarrow> fault + icp_locals" where
  "icp_imu opts imu_data_vec l tv =
     (if use_imu opts then
        (case imu_terms opts tv (prev_trajectory_var_index l) imu_data_vec of
           Inl e \<Rightarrow> Inl e
         | Inr cs \<Rightarrow>
            Inr (l\<lparr>imu_cost_terms := imu_cost_terms l @ cs,
                   imu_prior_cost_terms := imu_prior_cost_terms l
                      @ bias_walk_terms opts (prev_trajectory_var_index l) (length tv),
                   T_mi_prior_cost_terms := T_mi_prior_cost_terms l
                      @ (if \<not> T_mi_init_only opts \<and> \<not> use_T_mi_gt
                         then T_mi_walk_terms opts (prev_trajectory_var_index l) (length tv)
                         else [])\<rparr>))
      else Inr l)"

section \<open>ICP: the outer loop\<close>

text \<open>
  A solve: the solver proposes values; they reach the variables that are active in the
  problem, except a locked one. The knot times are not variables.
\<close>

definition apply_solution ::
  "(var_ref \<Rightarrow> 'v) \<Rightarrow> var_ref list \<Rightarrow> 'v TrajectoryVar list \<Rightarrow> 'v TrajectoryVar list" where
  "apply_solution sol active tv =
     map (\<lambda>(i, var).
            var\<lparr>T_rm := (if (i, F_T_rm) \<in> set active then sol (i, F_T_rm) else T_rm var),
                w_mr_inr := (if (i, F_w_mr_inr) \<in> set active then sol (i, F_w_mr_inr)
                             else w_mr_inr var),
                dw_mr_inr := (if (i, F_dw_mr_inr) \<in> set active then sol (i, F_dw_mr_inr)
                              else dw_mr_inr var),
                imu_biases := (if (i, F_imu_biases) \<in> set active then sol (i, F_imu_biases)
                               else imu_biases var),
                T_mi := (if (i, F_T_mi) \<in> set active \<and> \<not> T_mi_locked var then sol (i, F_T_mi)
                         else T_mi var)\<rparr>)
         (enumerate 0 tv)"

definition optimize ::
  "('v, 'm) Ext \<Rightarrow> SlidingWindowFilter \<Rightarrow> int \<Rightarrow> 'v TrajectoryVar list \<Rightarrow> 'v TrajectoryVar list" where
  "optimize ext problem max_iter tv =
     apply_solution (gauss_newton ext (cost_terms problem) max_iter tv)
       (concat (variables problem)) tv"

definition transform_keypoints ::
  "('v, 'm) Ext \<Rightarrow> SteamTrajectory \<Rightarrow> 'v TrajectoryVar list \<Rightarrow> Point3D list \<Rightarrow> Point3D list" where
  "transform_keypoints ext st tv kps = map (place_point ext (trajectory_knots st tv)) kps"

definition outer :: "vec3 \<Rightarrow> vec3 \<Rightarrow> mat3" where
  "outer a b = (case a of (a0, a1, a2) \<Rightarrow> (vscale a0 b, vscale a1 b, vscale a2 b))"

definition mat_add :: "mat3 \<Rightarrow> mat3 \<Rightarrow> mat3" where
  "mat_add m n = (case m of (r0, r1, r2) \<Rightarrow> case n of (s0, s1, s2) \<Rightarrow>
                    (vadd r0 s0, vadd r1 s1, vadd r2 s2))"

definition mat_scale :: "real \<Rightarrow> mat3 \<Rightarrow> mat3" where
  "mat_scale c m = (case m of (r0, r1, r2) \<Rightarrow> (vscale c r0, vscale c r1, vscale c r2))"

definition p2p_loss :: "Options \<Rightarrow> loss_func" where
  "p2p_loss opts =
     (case p2p_loss_func opts of
        L2 \<Rightarrow> L2LossFunc
      | DCS \<Rightarrow> DcsLossFunc (p2p_loss_sigma opts)
      | CAUCHY \<Rightarrow> CauchyLossFunc (p2p_loss_sigma opts)
      | GM \<Rightarrow> GemanMcClureLossFunc (p2p_loss_sigma opts))"

text \<open>
  The association loop, keypoint by keypoint: too few neighbours skip the keypoint; the
  neighbourhood fit can raise; a keypoint close enough to the fitted plane yields a
  point-to-plane cost term.
\<close>

fun associate ::
  "('v, 'm) Ext \<Rightarrow> Options \<Rightarrow> 'm \<Rightarrow> int \<Rightarrow> Point3D list \<Rightarrow> fault + cost_term list" where
  "associate ext opts m nb_voxels_visited [] = Inr []"
| "associate ext opts m nb_voxels_visited (keypoint # rest) =
     (let vector_neighbors = searchNeighbors ext m (pt keypoint) nb_voxels_visited
                               (size_voxel_map opts) (max_number_neighbors opts)
      in if int (length vector_neighbors) < min_number_neighbors opts then
           associate ext opts m nb_voxels_visited rest
         else
           (case compute_neighborhood_distribution (SelfAdjointEigenSolver ext) vector_neighbors of
              Inl e \<Rightarrow> Inl e
            | Inr neighborhood \<Rightarrow>
               (case vec_index ''vector_neighbors'' vector_neighbors 0 of
                  Inl e \<Rightarrow> Inl e
                | Inr closest_pt \<Rightarrow>
                   let weight = pow ext (a2D neighborhood) (power_planarity opts);
                       dist_to_plane = \<bar>dot (vsub (pt keypoint) closest_pt) (normal neighborhood)\<bar>;
                       closest_normal = vscale weight (normal neighborhood);
                       W = mat_add (outer closest_normal closest_normal)
                             (mat_scale (1 / 10 ^ 5) mat_identity);
                       cost = WeightedLeastSqCostTerm
                                (p2pError (Point3D.timestamp keypoint) closest_pt (raw_pt keypoint))
                                (Information W) (p2p_loss opts)
                   in (case associate ext opts m nb_voxels_visited rest of
                         Inl e \<Rightarrow> Inl e
                       | Inr cs \<Rightarrow>
                          Inr (if dist_to_plane < p2p_max_dist opts then cost # cs else cs)))))"

definition pose_at ::
  "('v, 'm) Ext \<Rightarrow> SteamTrajectory \<Rightarrow> 'v TrajectoryVar list \<Rightarrow> real \<Rightarrow> mat3 \<times> vec3" where
  "pose_at ext st tv t = T_ms_of ext (interp_T_rm ext (trajectory_knots st tv) t)"

definition icp_problem :: "icp_locals \<Rightarrow> SlidingWindowFilter \<Rightarrow> SlidingWindowFilter" where
  "icp_problem l f =
     addCostTerms (T_mi_prior_cost_terms l)
       (addCostTerms (imu_prior_cost_terms l)
          (addCostTerms (imu_cost_terms l)
             (addCostTerms (meas_cost_terms l)
                (addCostTerms (prior_cost_terms l)
                   (addCostTerms (prior_cost_terms_of (steam_trajectory l)) f)))))"

text \<open>
  The outer loop, \<open>n\<close> iterations from \<open>iter\<close> on. Too few cost terms end it with
  \<^verbatim>\<open>icp_success = false\<close>. After the solve the frame's poses are refreshed and the
  iteration is recorded. The convergence test of the code guards a log message only:
  both of its branches continue with the next iteration.
\<close>

fun icp_loop ::
  "('v, 'm) Ext \<Rightarrow> Options \<Rightarrow> nat \<Rightarrow> nat \<Rightarrow> nat \<Rightarrow> icp_locals \<times> ('v, 'm) SteamLioOdometry
     \<Rightarrow> fault + (icp_locals \<times> ('v, 'm) SteamLioOdometry)" where
  "icp_loop ext opts index_frame 0 iter ls = Inr ls"
| "icp_loop ext opts index_frame (Suc n) iter (l, s) =
     (let kps = transform_keypoints ext (steam_trajectory l) (trajectory_vars s) (keypoints l);
          nb_voxels_visited = (if int index_frame < init_num_frames opts then 2 else 1)
      in case associate ext opts (map_m s) nb_voxels_visited kps of
           Inl e \<Rightarrow> Inl e
         | Inr meas \<Rightarrow>
            let l = l\<lparr>keypoints := kps, meas_cost_terms := meas,
                      number_keypoints_used := int (length meas)\<rparr>;
                problem = icp_problem l (sliding_window_filter s)
            in if number_keypoints_used l < min_number_keypoints opts then
                 Inr (l\<lparr>icp_success := False\<rparr>, s)
               else
                 let tv = optimize ext problem (max_iterations opts) (trajectory_vars s);
                     current_estimate = trajectory s ! index_frame;
                     begin_T_ms = pose_at ext (steam_trajectory l) tv (begin_timestamp current_estimate);
                     end_T_ms = pose_at ext (steam_trajectory l) tv (end_timestamp current_estimate);
                     mid_T_ms = pose_at ext (steam_trajectory l) tv (eval_time current_estimate);
                     diff_trans = vnorm (vsub (begin_t current_estimate) (snd begin_T_ms))
                                  + vnorm (vsub (end_t current_estimate) (snd end_T_ms));
                     diff_rot = AngularDistance (begin_R current_estimate) (fst begin_T_ms)
                                + AngularDistance (end_R current_estimate) (fst end_T_ms);
                     s = update_frame index_frame
                           (\<lambda>fr. fr\<lparr>mid_pose := mid_T_ms,
                                    begin_R := fst begin_T_ms, begin_t := snd begin_T_ms,
                                    end_R := fst end_T_ms, end_t := snd end_T_ms\<rparr>)
                           (s\<lparr>trajectory_vars := tv,
                              optimize_log := optimize_log s @ [icp_iteration iter diff_trans diff_rot],
                              solved_problems := solved_problems s @ [problem]\<rparr>)
                 in if index_frame > 1 \<and> diff_rot < threshold_orientation_norm opts
                         \<and> diff_trans < threshold_translation_norm opts
                    then icp_loop ext opts index_frame n (Suc iter) (l, s)
                    else icp_loop ext opts index_frame n (Suc iter) (l, s))"

section \<open>ICP: the sliding-window solve\<close>

text \<open>
  After the loop, whether it ended by itself or by too few keypoints: the cost terms go
  into the filter, its size is checked, and it is solved with 20 iterations.
\<close>

definition sliding_window_optimize ::
  "('v, 'm) Ext \<Rightarrow> icp_locals \<Rightarrow> ('v, 'm) SteamLioOdometry \<Rightarrow> fault + ('v, 'm) SteamLioOdometry" where
  "sliding_window_optimize ext l s =
     (let f = icp_problem l (sliding_window_filter s)
      in if getNumberOfVariables f > 100 then
           Inl (runtime_error ''too many variables in the filter!'')
         else if getNumberOfCostTerms f > 100000 then
           Inl (runtime_error ''too many cost terms in the filter!'')
         else
           Inr (s\<lparr>sliding_window_filter := f,
                  trajectory_vars := optimize ext f 20 (trajectory_vars s),
                  optimize_log := optimize_log s @ [sliding_window_solve],
                  solved_problems := solved_problems s @ [f]\<rparr>))"

text \<open>
  Then the frame's poses are refreshed; with the IMU in use the last IMU sample is
  printed (reading \<^verbatim>\<open>back()\<close> of the sample vector) and the knots around the mid
  time are looked up; the keypoints are transformed once more. The reassignment of the
  new knots' \<^verbatim>\<open>T_mi\<close> happens only with \<^verbatim>\<open>use_T_mi_gt\<close> unset.
\<close>

definition icp_report ::
  "('v, 'm) Ext \<Rightarrow> Options \<Rightarrow> nat \<Rightarrow> IMUData list \<Rightarrow> icp_locals \<Rightarrow> ('v, 'm) SteamLioOdometry
     \<Rightarrow> fault + (bool \<times> Point3D list \<times> ('v, 'm) SteamLioOdometry)" where
  "icp_report ext opts index_frame imu_data_vec l s =
     (let prev_i = prev_trajectory_var_index l;
          tv = trajectory_vars s;
          tv = (if T_mi_init_only opts \<and> \<not> use_T_mi_gt then
                  map (\<lambda>(i, var). if prev_i < i
                                   then var\<lparr>T_mi := T_mi (tv ! prev_i), T_mi_locked := True\<rparr>
                                   else var)
                      (enumerate 0 tv)
                else tv);
          current_estimate = trajectory s ! index_frame;
          st = steam_trajectory l;
          curr_begin_T_ms = pose_at ext st tv (begin_timestamp current_estimate);
          curr_end_T_ms = pose_at ext st tv (end_timestamp current_estimate);
          mid_T_ms = pose_at ext st tv (eval_time current_estimate);
          s = update_frame index_frame
                (\<lambda>fr. fr\<lparr>mid_pose := mid_T_ms,
                         begin_R := fst curr_begin_T_ms, begin_t := snd curr_begin_T_ms,
                         end_R := fst curr_end_T_ms, end_t := snd curr_end_T_ms\<rparr>)
                (s\<lparr>trajectory_vars := tv\<rparr>);
          result = (icp_success l, transform_keypoints ext st tv (keypoints l), s)
      in if use_imu opts then
           (if imu_data_vec = [] then Inl (out_of_bounds ''imu_data_vec'' (- 1))
            else (case knot_bracket ''mid time not within knot times'' tv prev_i
                          (eval_time current_estimate) of
                    Inl e \<Rightarrow> Inl e
                  | Inr i \<Rightarrow> Inr result))
         else Inr result)"

definition icp_finish ::
  "('v, 'm) Ext \<Rightarrow> Options \<Rightarrow> nat \<Rightarrow> IMUData list \<Rightarrow> icp_locals \<times> ('v, 'm) SteamLioOdometry
     \<Rightarrow> fault + (bool \<times> Point3D list \<times> ('v, 'm) SteamLioOdometry)" where
  "icp_finish ext opts index_frame imu_data_vec ls =
     (case ls of (l, s) \<Rightarrow>
        (case sliding_window_optimize ext l s of
           Inl e \<Rightarrow> Inl e
         | Inr s \<Rightarrow> icp_report ext opts index_frame imu_data_vec l s))"

section \<open>ICP\<close>

definition icp ::
  "('v, 'm) Ext \<Rightarrow> Options \<Rightarrow> nat \<Rightarrow> Point3D list \<Rightarrow> IMUData list \<Rightarrow> ('v, 'm) SteamLioOdometry
     \<Rightarrow> fault + (bool \<times> Point3D list \<times> ('v, 'm) SteamLioOdometry)" where
  "icp ext opts index_frame kps imu_data_vec s0 =
     (case icp_previous ext opts index_frame kps s0 of
        Inl e \<Rightarrow> Inl e
      | Inr ls1 \<Rightarrow>
         (let prev = last (trajectory_vars s0);
              ls2 = add_knots ext opts (imu_biases prev) (T_mi prev)
                      (knot_times opts (end_timestamp (trajectory s0 ! (index_frame - 1)))
                         (end_timestamp (trajectory s0 ! index_frame)))
                      ls1
          in case icp_priors opts index_frame ls2 of
               Inl e \<Rightarrow> Inl e
             | Inr (l, s) \<Rightarrow>
                (let s = s\<lparr>sliding_window_filter :=
                             icp_filter_vars opts index_frame l (sliding_window_filter s)\<rparr>
                 in case icp_marginalize ext opts index_frame l s of
                      Inl e \<Rightarrow> Inl e
                    | Inr s \<Rightarrow>
                       (case icp_imu opts imu_data_vec l (trajectory_vars s) of
                          Inl e \<Rightarrow> Inl e
                        | Inr l \<Rightarrow>
                           (case icp_loop ext opts index_frame (nat (num_iters_icp opts)) 0 (l, s) of
                              Inl e \<Rightarrow> Inl e
                            | Inr ls \<Rightarrow> icp_finish ext opts index_frame imu_data_vec ls)))))"

section \<open>registerFrame\<close>

record RegistrationSummary =
  success :: bool
  summary_keypoints :: "Point3D list"
  corrected_points :: "Point3D list"
  R_ms :: mat3
  t_ms :: vec3

text \<open>
  A frame as \<^verbatim>\<open>emplace_back()\<close> leaves it; every field that is read later is assigned
  first. A summary as its constructor leaves it.
\<close>

definition new_frame :: TrajectoryFrame where
  "new_frame = \<lparr>begin_timestamp = 0, end_timestamp = 0, eval_time = 0,
                 begin_R = mat_identity, begin_t = (0, 0, 0),
                 end_R = mat_identity, end_t = (0, 0, 0),
                 mid_pose = (mat_identity, (0, 0, 0)), points = []\<rparr>"

definition new_summary :: RegistrationSummary where
  "new_summary = \<lparr>success = False, summary_keypoints = [], corrected_points = [],
                   R_ms = mat_identity, t_ms = (0, 0, 0)\<rparr>"

text \<open>Frame 0: the two knots at the begin and the end of the first scan.\<close>

definition initial_knot :: "('v, 'm) Ext \<Rightarrow> real \<Rightarrow> 'v TrajectoryVar" where
  "initial_knot ext t =
     \<lparr>time = t, T_rm = T_identity ext, w_mr_inr = zero6 ext, dw_mr_inr = zero6 ext,
      imu_biases = zero6 ext, T_mi = T_identity ext, T_mi_locked = False\<rparr>"

definition first_frame_state ::
  "('v, 'm) Ext \<Rightarrow> nat \<Rightarrow> ('v, 'm) SteamLioOdometry \<Rightarrow> ('v, 'm) SteamLioOdometry" where
  "first_frame_state ext index_frame s =
     s\<lparr>trajectory_vars := trajectory_vars s
          @ [initial_knot ext (begin_timestamp (trajectory s ! index_frame)),
             initial_knot ext (end_timestamp (trajectory s ! index_frame))],
       to_marginalize := 1\<rparr>"

definition registerFrame ::
  "('v, 'm) Ext \<Rightarrow> Options \<Rightarrow> const_frame \<Rightarrow> ('v, 'm) SteamLioOdometry
     \<Rightarrow> fault + (RegistrationSummary \<times> ('v, 'm) SteamLioOdometry)" where
  "registerFrame ext opts cf s0 =
     (let index_frame = length (trajectory s0);
          s = s0\<lparr>trajectory := trajectory s0 @ [new_frame]\<rparr>;
          s = initializeTimestamp index_frame cf s;
          s = initializeMotion ext index_frame s;
          frame = initializeFrame ext opts index_frame (fst (snd cf)) s
      in case (if index_frame > 0 then
                 icp ext opts index_frame
                   (grid_sampling (hash_order ext) frame
                      (if int index_frame < init_num_frames opts then init_sample_voxel_size opts
                       else sample_voxel_size opts))
                   (snd (snd cf)) s
               else Inr (True, [], first_frame_state ext index_frame s)) of
           Inl e \<Rightarrow> Inl e
         | Inr (ok, kps, s) \<Rightarrow>
            let summary = new_summary\<lparr>success := ok, summary_keypoints := kps\<rparr>
            in if \<not> ok then Inr (summary, s)
               else
                 let s = update_frame index_frame (\<lambda>fr. fr\<lparr>points := frame\<rparr>) s
                 in (case (if index_frame = 0 then updateMap ext opts index_frame (int index_frame) s
                           else if int index_frame - delay_adding_points opts > 0 then
                             updateMap ext opts index_frame
                               (int index_frame - delay_adding_points opts) s
                           else Inr s) of
                       Inl e \<Rightarrow> Inl e
                     | Inr s \<Rightarrow>
                        Inr (summary\<lparr>corrected_points := frame,
                                     R_ms := end_R (trajectory s ! index_frame),
                                     t_ms := end_t (trajectory s ! index_frame)\<rparr>, s)))"

section \<open>Invariants and example inputs\<close>

text \<open>
  The grid built from a prefix \<open>xs\<close> of the frame: its keys are distinct, they are the
  keys of \<open>xs\<close>, and the bucket of a key holds the points of \<open>xs\<close> with that key, in
  the order of \<open>xs\<close>.
\<close>

definition grid_inv :: "('a \<Rightarrow> 'k) \<Rightarrow> 'a list \<Rightarrow> ('k \<times> 'a list) list \<Rightarrow> bool" where
  "grid_inv key xs g \<longleftrightarrow>
     distinct (map fst g) \<and> fst ` set g = key ` set xs \<and>
     (\<forall>(k, ps) \<in> set g. ps = filter (\<lambda>p. key p = k) xs \<and> ps \<noteq> [])"

text \<open>Three points in two unit voxels; the second one falls into the voxel of the first.\<close>

definition example_point :: "real \<Rightarrow> real \<Rightarrow> real \<Rightarrow> real \<Rightarrow> Point3D" where
  "example_point x y z t =
     \<lparr>raw_pt = (x, y, z), pt = (x, y, z), radial_velocity = 0, alpha_timestamp = 0,
      timestamp = t, beam_id = 0\<rparr>"

definition example_frame :: "Point3D list" where
  "example_frame =
     [example_point (1 / 2) (1 / 2) (1 / 2) 1, example_point (- (1 / 2)) (1 / 5) (1 / 10) 2,
      example_point (3 / 2) 0 0 3]"

text \<open>
  A stationary sensor for the examples: the external collaborators return fixed values
  (poses are the identity, the solver proposes 0 for every variable, every neighbour
  search finds the same twenty points of the plane \<open>z = 0\<close>, the origin first), the
  map is the list of the points added to it, and variable values are integers. The scatter matrix of the
  twenty points is diagonal with the entries 1, 4 and 0; the example's eigen solver
  gives its eigenvalues 0, 1 and 4 with the unit vectors of the z, x and y axes, and
  for the zero matrix the eigenvalue 0 three times.
\<close>

definition example_neighbors :: "vec3 list" where
  "example_neighbors =
     [(0, 0, 0), (0, 0, 0), (0, 0, 0), (0, 0, 0), (0, 0, 0), (0, 0, 0),
      (0, 0, 0), (0, 0, 0), (0, 0, 0), (0, 0, 0), (0, 0, 0), (0, 0, 0),
      (1 / 2, 0, 0), (1 / 2, 0, 0), (- (1 / 2), 0, 0), (- (1 / 2), 0, 0),
      (0, 1, 0), (0, 1, 0), (0, - 1, 0), (0, - 1, 0)]"

definition example_solver :: "mat3 \<Rightarrow> vec3 \<times> mat3" where
  "example_solver m =
     ((if m = mat_zero then (0, 0, 0) else (0, 1, 4)), ((0, 1, 0), (0, 0, 1), (1, 0, 0)))"

definition example_ext :: "(int, Point3D list) Ext" where
  "example_ext = \<lparr>hash_order = (\<lambda>g. g), shuffle = (\<lambda>n xs. xs),
     T_rs = (mat_identity, (0, 0, 0)), mat_inverse = (\<lambda>m. m), slerp = (\<lambda>a b t. a),
     T_identity = 0, zero6 = 0, T_i_r_gt_poses = (\<lambda>i. 0), T_mi_gt_of = (\<lambda>g t. 7),
     se3_update = (\<lambda>p old. p + old),
     interp_T_rm = (\<lambda>knots t. 0), interp_w_mr_inr = (\<lambda>knots t. 0),
     interp_dw_mr_inr = (\<lambda>knots t. 0), T_ms_of = (\<lambda>v. (mat_identity, (0, 0, 0))),
     searchNeighbors = (\<lambda>m p n sz k. example_neighbors),
     SelfAdjointEigenSolver = example_solver,
     pow = (\<lambda>x y. 1),
     gauss_newton = (\<lambda>cs n tv v. 0), involves = (\<lambda>c v. False),
     map_add = (\<lambda>pts sz k d m. m @ pts), map_remove = (\<lambda>c r m. m)\<rparr>"

definition example_opts :: Options where
  "example_opts = \<lparr>init_num_frames = 20, init_voxel_size = 1, voxel_size = 1,
     init_sample_voxel_size = 1, sample_voxel_size = 1, size_voxel_map = 1,
     min_distance_points = 1 / 10, max_num_points_in_voxel = 20, max_distance = 100,
     min_number_neighbors = 20, max_number_neighbors = 20, num_iters_icp = 3,
     max_iterations = 5, min_number_keypoints = 2,
     threshold_orientation_norm = 1 / 10, threshold_translation_norm = 1 / 100,
     power_planarity = 2, p2p_max_dist = 1 / 2, p2p_loss_func = CAUCHY, p2p_loss_sigma = 1 / 10,
     num_extra_states = 0, delay_adding_points = 0, use_imu = False, T_mi_init_only = True,
     r_imu_acc = (1, 1, 1), r_imu_ang = (1, 1, 1), q_imu = 1, p0_imu = 1,
     qg_diag = [1, 1, 1, 1, 1, 1], debug_print = False\<rparr>"

definition example_init :: "(int, Point3D list) SteamLioOdometry" where
  "example_init = \<lparr>trajectory = [], trajectory_vars = [], to_marginalize = 0,
     sliding_window_filter = \<lparr>variables = [], cost_terms = []\<rparr>, map_m = [],
     optimize_log = [], solved_problems = []\<rparr>"

definition example_knot :: "real \<Rightarrow> int TrajectoryVar" where
  "example_knot t = \<lparr>time = t, T_rm = 0, w_mr_inr = 0, dw_mr_inr = 0, imu_biases = 0,
     T_mi = 0, T_mi_locked = False\<rparr>"

text \<open>A scan whose time stamps are all negative.\<close>

definition negative_scan :: const_frame where
  "negative_scan = (- (3 / 2), [example_point 1 0 0 (- 2), example_point 2 0 0 (- 1)], [])"

text \<open>
  A first scan, the engine state after it, and a second scan with two IMU samples, the
  later one stamped with the time of the scan's last point.
\<close>

definition first_scan :: const_frame where
  "first_scan = (1 / 20, [example_point 1 0 0 0, example_point 2 0 0 (1 / 10)], [])"

definition example_state1 :: "(int, Point3D list) SteamLioOdometry" where
  "example_state1 = snd (projr (registerFrame example_ext example_opts first_scan example_init))"

definition imu_scan :: const_frame where
  "imu_scan = (3 / 20, [example_point 1 0 0 (3 / 20), example_point 2 0 0 (1 / 5)],
     [\<lparr>IMUData.timestamp = 3 / 20, lin_acc = (0, 0, 981 / 100), ang_vel = (0, 0, 0)\<rparr>,
      \<lparr>IMUData.timestamp = 1 / 5, lin_acc = (0, 0, 981 / 100), ang_vel = (0, 0, 0)\<rparr>])"

text \<open>Locals of \<^verbatim>\<open>icp\<close> with two knots and no cost terms; a filter with 101 variable groups.\<close>

definition example_locals :: icp_locals where
  "example_locals = \<lparr>steam_trajectory = \<lparr>knot_ids = [0, 1], state_priors = []\<rparr>,
     steam_state_vars = [], prior_cost_terms = [], meas_cost_terms = [], imu_cost_terms = [],
     imu_prior_cost_terms = [], T_mi_prior_cost_terms = [],
     prev_trajectory_var_index = 0, curr_trajectory_var_index = 1,
     number_keypoints_used = 0, icp_success = True, keypoints = []\<rparr>"

definition crowded_state :: "(int, Point3D list) SteamLioOdometry" where
  "crowded_state = example_state1\<lparr>sliding_window_filter :=
      \<lparr>variables = replicate 101 [(0, F_T_rm)], cost_terms = []\<rparr>\<rparr>"

text \<open>
  The cost terms on \<^verbatim>\<open>T_mi\<close>: the prior on it and the random walk between two of them.
\<close>

fun is_T_mi_cost :: "cost_term \<Rightarrow> bool" where
  "is_T_mi_cost (WeightedLeastSqCostTerm (se3_error v) n l) = True"
| "is_T_mi_cost (WeightedLeastSqCostTerm (se3_error_compose_rinv v w) n l) = True"
| "is_T_mi_cost c = False"

text \<open>
  What a solve leaves of the knots: their number, their times, the locks of the
  \<^verbatim>\<open>T_mi\<close> variables, and the value of a locked \<^verbatim>\<open>T_mi\<close>.
\<close>

definition knots_kept :: "'v TrajectoryVar list \<Rightarrow> 'v TrajectoryVar list \<Rightarrow> bool" where
  "knots_kept tv tv' \<longleftrightarrow>
     length tv' = length tv \<and>
     (\<forall>i < length tv. time (tv' ! i) = time (tv ! i) \<and>
        T_mi_locked (tv' ! i) = T_mi_locked (tv ! i) \<and>
        (T_mi_locked (tv ! i) \<longrightarrow> T_mi (tv' ! i) = T_mi (tv ! i)))"

text \<open>
  A filter \<open>f'\<close> that has, over \<open>f\<close>, no further \<^verbatim>\<open>T_mi\<close> variable and no further
  cost term on \<^verbatim>\<open>T_mi\<close>; locals of \<^verbatim>\<open>icp\<close> without a cost term on \<^verbatim>\<open>T_mi\<close>.
\<close>

definition no_new_T_mi :: "SlidingWindowFilter \<Rightarrow> SlidingWindowFilter \<Rightarrow> bool" where
  "no_new_T_mi f f' \<longleftrightarrow>
     (\<forall>v \<in> set (concat (variables f')). snd v = F_T_mi \<longrightarrow> v \<in> set (concat (variables f))) \<and>
     (\<forall>c \<in> set (cost_terms f'). is_T_mi_cost c \<longrightarrow> c \<in> set (cost_terms f))"

definition locals_clean :: "icp_locals \<Rightarrow> bool" where
  "locals_clean l \<longleftrightarrow>
     (\<forall>c \<in> set (state_priors (steam_trajectory l)) \<union> set (prior_cost_terms l)
            \<union> set (meas_cost_terms l) \<union> set (imu_cost_terms l)
            \<union> set (imu_prior_cost_terms l) \<union> set (T_mi_prior_cost_terms l).
        \<not> is_T_mi_cost c)"

text \<open>
  A second scan without and with an IMU sample inside the scan, a third scan, and the
  engine state after the first two.
\<close>

definition second_scan :: const_frame where
  "second_scan = (3 / 20, [example_point 1 0 0 (3 / 20), example_point 2 0 0 (1 / 5)], [])"

definition second_scan_imu :: const_frame where
  "second_scan_imu = (3 / 20, [example_point 1 0 0 (3 / 20), example_point 2 0 0 (1 / 5)],
     [\<lparr>IMUData.timestamp = 3 / 20, lin_acc = (0, 0, 981 / 100), ang_vel = (0, 0, 0)\<rparr>])"

definition third_scan :: const_frame where
  "third_scan = (1 / 4, [example_point 1 0 0 (1 / 4), example_point 2 0 0 (3 / 10)], [])"

definition example_state2 :: "(int, Point3D list) SteamLioOdometry" where
  "example_state2 = snd (projr (registerFrame example_ext example_opts second_scan example_state1))"


section \<open>Subsampling keeps the first point of every voxel\<close>

lemma grid_push_keys: "fst ` set (grid_push k p g) = insert k (fst ` set g)"
  by (induction g) force+

lemma grid_push_distinct: "distinct (map fst g) \<Longrightarrow> distinct (map fst (grid_push k p g))"
proof (induction g)
  case Nil
  then show ?case by simp
next
  case (Cons a g)
  obtain k' ps where a: "a = (k', ps)" by (cases a)
  have "fst ` set (grid_push k p g) = insert k (fst ` set g)" by (rule grid_push_keys)
  with Cons a show ?case by auto
qed

lemma grid_push_buckets:
  "distinct (map fst g) \<Longrightarrow> (k', ps') \<in> set (grid_push k p g) \<Longrightarrow>
     (k' = k \<and> (ps' = [p] \<and> k \<notin> fst ` set g \<or> (\<exists>ps. (k, ps) \<in> set g \<and> ps' = ps @ [p])))
     \<or> (k' \<noteq> k \<and> (k', ps') \<in> set g)"
proof (induction g)
  case Nil
  then show ?case by simp
next
  case (Cons a g)
  obtain ka psa where a: "a = (ka, psa)" by (cases a)
  show ?case
  proof (cases "ka = k")
    case True
    with Cons.prems a have "(k', ps') = (k, psa @ [p]) \<or> (k', ps') \<in> set g" by simp
    moreover from Cons.prems(1) a True have "k \<notin> fst ` set g" by simp
    ultimately show ?thesis using a True by force
  next
    case False
    with Cons.prems a have "(k', ps') = (ka, psa) \<or> (k', ps') \<in> set (grid_push k p g)" by simp
    then show ?thesis
    proof
      assume "(k', ps') = (ka, psa)"
      with False a show ?thesis by simp
    next
      assume m: "(k', ps') \<in> set (grid_push k p g)"
      from Cons.prems(1) have "distinct (map fst g)" by simp
      from this m have "(k' = k \<and> (ps' = [p] \<and> k \<notin> fst ` set g \<or> (\<exists>ps. (k, ps) \<in> set g \<and> ps' = ps @ [p])))
         \<or> (k' \<noteq> k \<and> (k', ps') \<in> set g)" by (rule Cons.IH)
      with False a show ?thesis by auto
    qed
  qed
qed

lemma grid_inv_push:
  assumes "grid_inv key xs g"
  shows "grid_inv key (xs @ [p]) (grid_push (key p) p g)"
proof -
  from assms have d: "distinct (map fst g)" and ks: "fst ` set g = key ` set xs"
    and b: "\<And>k ps. (k, ps) \<in> set g \<Longrightarrow> ps = filter (\<lambda>q. key q = k) xs \<and> ps \<noteq> []"
    by (auto simp: grid_inv_def)
  have "\<And>k' ps'. (k', ps') \<in> set (grid_push (key p) p g) \<Longrightarrow>
          ps' = filter (\<lambda>q. key q = k') (xs @ [p]) \<and> ps' \<noteq> []"
  proof -
    fix k' ps' assume "(k', ps') \<in> set (grid_push (key p) p g)"
    from grid_push_buckets [OF d this] show "ps' = filter (\<lambda>q. key q = k') (xs @ [p]) \<and> ps' \<noteq> []"
    proof (elim disjE conjE exE)
      assume "k' = key p" "ps' = [p]" "key p \<notin> fst ` set g"
      then have "key p \<notin> key ` set xs" using ks by simp
      then have "\<forall>x \<in> set xs. key x \<noteq> key p" by (metis imageI)
      with \<open>k' = key p\<close> have "filter (\<lambda>q. key q = k') xs = []" by (simp add: filter_empty_conv)
      with \<open>k' = key p\<close> \<open>ps' = [p]\<close> show ?thesis by simp
    next
      fix ps assume "k' = key p" "(key p, ps) \<in> set g" "ps' = ps @ [p]"
      with b [of "key p" ps] show ?thesis by simp
    next
      assume "k' \<noteq> key p" "(k', ps') \<in> set g"
      with b [of k' ps'] show ?thesis by auto
    qed
  qed
  then show ?thesis
    using grid_push_distinct [OF d] grid_push_keys [of "key p" p g] ks
    by (auto simp: grid_inv_def)
qed

lemma grid_inv_build:
  "grid_inv key xs g \<Longrightarrow> grid_inv key (xs @ ys) (build_grid key ys g)"
proof (induction ys arbitrary: xs g)
  case Nil
  then show ?case by simp
next
  case (Cons y ys)
  from Cons.IH [OF grid_inv_push [OF Cons.prems, of y]] show ?case by simp
qed

lemma grid_inv_empty: "grid_inv key [] []"
  by (simp add: grid_inv_def)

lemma grid_inv_frame: "grid_inv key frame (build_grid key frame [])"
  using grid_inv_build [OF grid_inv_empty, of key frame] by simp

lemma grid_inv_perm:
  assumes "grid_inv key xs g" "mset g' = mset g"
  shows "grid_inv key xs g'"
proof -
  from assms(2) have s: "set g' = set g" by (rule mset_eq_setD)
  from assms(2) have "mset (map fst g') = mset (map fst g)" by simp
  then have "distinct (map fst g') = distinct (map fst g)" by (rule mset_eq_imp_distinct_iff)
  with assms(1) s show ?thesis by (simp add: grid_inv_def)
qed

lemma emit_first_nonempty:
  "\<forall>(k, ps) \<in> set g. ps \<noteq> [] \<Longrightarrow> emit_first g = map (\<lambda>(k, ps). hd ps) g"
  by (induction g) (auto simp: hd_conv_nth)

lemma hd_filter_find: "filter P xs \<noteq> [] \<Longrightarrow> find P xs = Some (hd (filter P xs))"
  by (induction xs) auto

lemma hd_filter_key: "filter (\<lambda>q. key q = k) xs \<noteq> [] \<Longrightarrow> key (hd (filter (\<lambda>q. key q = k) xs)) = k"
  using hd_in_set [of "filter (\<lambda>q. key q = k) xs"] by auto

lemma emit_first_keys:
  assumes "grid_inv key xs g"
  shows "map key (emit_first g) = map fst g"
proof -
  from assms have b: "\<forall>(k, ps) \<in> set g. ps \<noteq> []" by (auto simp: grid_inv_def)
  have "map key (map (\<lambda>(k, ps). hd ps) g) = map fst g"
    using assms by (auto simp: grid_inv_def dest!: hd_filter_key bspec)
  with emit_first_nonempty [OF b] show ?thesis by simp
qed

lemma emit_first_find:
  assumes "grid_inv key xs g" "p \<in> set (emit_first g)"
  shows "find (\<lambda>q. key q = key p) xs = Some p"
proof -
  from assms have b: "\<forall>(k, ps) \<in> set g. ps \<noteq> []" by (auto simp: grid_inv_def)
  from assms(2) emit_first_nonempty [OF b] obtain k ps where
    kp: "(k, ps) \<in> set g" and p: "p = hd ps" by auto
  from assms(1) kp have ps: "ps = filter (\<lambda>q. key q = k) xs" "ps \<noteq> []"
    by (auto simp: grid_inv_def)
  then have "key p = k" using hd_filter_key [of key k xs] p by simp
  with hd_filter_find [of "\<lambda>q. key q = k" xs] ps p show ?thesis by simp
qed

lemma sub_sample_by_props:
  assumes "\<And>g. mset (iter_order g) = mset g"
  shows "distinct (map key (sub_sample_by iter_order key frame))"
    and "key ` set (sub_sample_by iter_order key frame) = key ` set frame"
    and "\<forall>p \<in> set (sub_sample_by iter_order key frame). find (\<lambda>q. key q = key p) frame = Some p"
    and "length (sub_sample_by iter_order key frame) = card (key ` set frame)"
proof -
  let ?g = "iter_order (build_grid key frame [])"
  have inv: "grid_inv key frame ?g"
    by (rule grid_inv_perm [OF grid_inv_frame assms])
  have keys: "map key (emit_first ?g) = map fst ?g" by (rule emit_first_keys [OF inv])
  from inv have d: "distinct (map fst ?g)" and ks: "fst ` set ?g = key ` set frame"
    by (auto simp: grid_inv_def)
  show "distinct (map key (sub_sample_by iter_order key frame))"
    using keys d by (simp add: sub_sample_by_def)
  have "key ` set (emit_first ?g) = set (map key (emit_first ?g))" by simp
  also have "\<dots> = fst ` set ?g" by (simp only: keys set_map)
  finally show "key ` set (sub_sample_by iter_order key frame) = key ` set frame"
    using ks by (simp add: sub_sample_by_def)
  show "\<forall>p \<in> set (sub_sample_by iter_order key frame). find (\<lambda>q. key q = key p) frame = Some p"
    using emit_first_find [OF inv] by (simp add: sub_sample_by_def)
  have "length (emit_first ?g) = length (map key (emit_first ?g))" by simp
  also have "\<dots> = length (map fst ?g)" by (simp only: keys)
  also have "\<dots> = card (set (map fst ?g))" using distinct_card [OF d] by simp
  finally show "length (sub_sample_by iter_order key frame) = card (key ` set frame)"
    using ks by (simp add: sub_sample_by_def)
qed

text \<open>
  C8: whatever the iteration order of the hash map (any rearrangement of the grid), and
  for a positive voxel size, the subsampled frame has pairwise distinct voxel keys, has
  exactly the voxel keys of the input, every point of it is the first point of the input
  with its key, and its size is the number of distinct voxel keys of the input.
\<close>

theorem sub_sample_frame_one_per_voxel:
  assumes "\<And>g. mset (iter_order g) = mset g" and "0 < size_voxel"
  shows "distinct (map (voxel_key size_voxel) (sub_sample_frame iter_order frame size_voxel)) \<and>
         voxel_key size_voxel ` set (sub_sample_frame iter_order frame size_voxel)
           = voxel_key size_voxel ` set frame \<and>
         (\<forall>p \<in> set (sub_sample_frame iter_order frame size_voxel).
            find (\<lambda>q. voxel_key size_voxel q = voxel_key size_voxel p) frame = Some p) \<and>
         length (sub_sample_frame iter_order frame size_voxel)
           = card (voxel_key size_voxel ` set frame)"
  unfolding sub_sample_frame_def
  using sub_sample_by_props [OF assms(1), of "voxel_key size_voxel" frame] by blast

theorem sub_sample_frame_one_per_voxel_witness:
  "distinct (map (voxel_key 1) (sub_sample_frame rev example_frame 1)) \<and>
   voxel_key 1 ` set (sub_sample_frame rev example_frame 1) = voxel_key 1 ` set example_frame \<and>
   find (\<lambda>q. voxel_key 1 q = voxel_key 1 (example_point (1 / 2) (1 / 2) (1 / 2) 1)) example_frame
     = Some (example_point (1 / 2) (1 / 2) (1 / 2) 1) \<and>
   find (\<lambda>q. voxel_key 1 q = voxel_key 1 (example_point (3 / 2) 0 0 3)) example_frame
     = Some (example_point (3 / 2) 0 0 3) \<and>
   length (sub_sample_frame rev example_frame 1) = card (voxel_key 1 ` set example_frame) \<and>
   sub_sample_frame rev example_frame 1
     = [example_point (3 / 2) 0 0 3, example_point (1 / 2) (1 / 2) (1 / 2) 1]"
proof -
  have perm: "\<And>g :: (Voxel \<times> Point3D list) list. mset (rev g) = mset g" by simp
  have pos: "(0::real) < 1" by simp
  have out: "sub_sample_frame rev example_frame 1
          = [example_point (3 / 2) 0 0 3, example_point (1 / 2) (1 / 2) (1 / 2) 1]"
    by (simp add: sub_sample_frame_def sub_sample_by_def voxel_key_def example_frame_def
        example_point_def cast_short_def trunc_def)
  note main = sub_sample_frame_one_per_voxel [OF perm pos, of example_frame]
  from main have first: "\<forall>p \<in> set (sub_sample_frame rev example_frame 1).
      find (\<lambda>q. voxel_key 1 q = voxel_key 1 p) example_frame = Some p" by blast
  have "example_point (1 / 2) (1 / 2) (1 / 2) 1 \<in> set (sub_sample_frame rev example_frame 1)"
    and "example_point (3 / 2) 0 0 3 \<in> set (sub_sample_frame rev example_frame 1)"
    by (simp_all only: out list.set insert_iff simp_thms)
  with first have
    "find (\<lambda>q. voxel_key 1 q = voxel_key 1 (example_point (1 / 2) (1 / 2) (1 / 2) 1)) example_frame
       = Some (example_point (1 / 2) (1 / 2) (1 / 2) 1)"
    "find (\<lambda>q. voxel_key 1 q = voxel_key 1 (example_point (3 / 2) 0 0 3)) example_frame
       = Some (example_point (3 / 2) 0 0 3)"
    by blast+
  with main out show ?thesis by blast
qed

section \<open>Center, normal and planarity of a neighbourhood\<close>

lemma barycenter_fold:
  "fold (\<lambda>point b. vadd b point) ps (a0, a1, a2)
     = (a0 + sum_list (map (coord 0) ps), a1 + sum_list (map (coord 1) ps),
        a2 + sum_list (map (coord 2) ps))"
  by (induction ps arbitrary: a0 a1 a2) (auto simp: vadd_def coord_def)

lemma barycenter_mean:
  "vdiv (fold (\<lambda>point b. vadd b point) ps (0, 0, 0)) (real (length ps)) = mean ps"
  by (simp add: barycenter_fold vdiv_def mean_def)

lemma scatter_fold:
  "fold (scatter_step c) ps ((m00, m01, m02), (m10, m11, m12), (m20, m21, m22))
     = ((m00 + scatter_entry c ps 0 0, m01 + scatter_entry c ps 0 1, m02 + scatter_entry c ps 0 2),
        (m10, m11 + scatter_entry c ps 1 1, m12 + scatter_entry c ps 1 2),
        (m20, m21, m22 + scatter_entry c ps 2 2))"
proof (induction ps arbitrary: m00 m01 m02 m10 m11 m12 m20 m21 m22)
  case Nil
  show ?case by (simp add: scatter_entry_def)
next
  case (Cons p ps)
  obtain x y z where p: "p = (x, y, z)" by (cases p) auto
  obtain c0 c1 c2 where c: "c = (c0, c1, c2)" by (cases c) auto
  have st: "scatter_step c p ((m00, m01, m02), (m10, m11, m12), (m20, m21, m22))
              = ((m00 + (x - c0) * (x - c0), m01 + (x - c0) * (y - c1), m02 + (x - c0) * (z - c2)),
                 (m10, m11 + (y - c1) * (y - c1), m12 + (y - c1) * (z - c2)),
                 (m20, m21, m22 + (z - c2) * (z - c2)))"
    by (simp add: scatter_step_def vsub_def p c)
  have en: "scatter_entry c (p # ps) k l
              = (coord k p - coord k c) * (coord l p - coord l c) + scatter_entry c ps k l" for k l
    by (simp add: scatter_entry_def)
  have "fold (scatter_step c) (p # ps) ((m00, m01, m02), (m10, m11, m12), (m20, m21, m22))
          = fold (scatter_step c) ps
              (scatter_step c p ((m00, m01, m02), (m10, m11, m12), (m20, m21, m22)))"
    by simp
  then show ?case
    unfolding st Cons.IH en by (simp add: coord_def p c)
qed

lemma scatter_entry_commute: "scatter_entry c ps k l = scatter_entry c ps l k"
  by (simp add: scatter_entry_def mult.commute)

lemma covariance_scatter:
  "mirror_upper (fold (scatter_step (mean ps)) ps mat_zero) = scatter_matrix ps"
proof -
  have "scatter_entry (mean ps) ps 1 0 = scatter_entry (mean ps) ps 0 1"
       "scatter_entry (mean ps) ps 2 0 = scatter_entry (mean ps) ps 0 2"
       "scatter_entry (mean ps) ps 2 1 = scatter_entry (mean ps) ps 1 2"
    by (rule scatter_entry_commute)+
  then show ?thesis
    by (simp add: mat_zero_def scatter_fold mirror_upper_def scatter_matrix_def Let_def)
qed

lemma scatter_quadratic_form:
  "dot v (mat_vec (scatter_matrix ps) v)
     = sum_list (map (\<lambda>p. (dot (vsub p (mean ps)) v)\<^sup>2) ps)"
proof -
  obtain v0 v1 v2 where v: "v = (v0, v1, v2)" by (cases v) auto
  obtain c0 c1 c2 where c: "mean ps = (c0, c1, c2)" by (cases "mean ps") auto
  have "v0 * (scatter_entry (c0, c1, c2) qs 0 0 * v0 + scatter_entry (c0, c1, c2) qs 0 1 * v1
               + scatter_entry (c0, c1, c2) qs 0 2 * v2)
        + v1 * (scatter_entry (c0, c1, c2) qs 1 0 * v0 + scatter_entry (c0, c1, c2) qs 1 1 * v1
               + scatter_entry (c0, c1, c2) qs 1 2 * v2)
        + v2 * (scatter_entry (c0, c1, c2) qs 2 0 * v0 + scatter_entry (c0, c1, c2) qs 2 1 * v1
               + scatter_entry (c0, c1, c2) qs 2 2 * v2)
        = sum_list (map (\<lambda>p. (dot (vsub p (c0, c1, c2)) (v0, v1, v2))\<^sup>2) qs)" for qs
  proof (induction qs)
    case Nil
    show ?case by (simp add: scatter_entry_def)
  next
    case (Cons q qs)
    obtain x y z where q: "q = (x, y, z)" by (cases q) auto
    have step: "scatter_entry (c0, c1, c2) (q # qs) k l
                  = (coord k q - coord k (c0, c1, c2)) * (coord l q - coord l (c0, c1, c2))
                    + scatter_entry (c0, c1, c2) qs k l" for k l
      by (simp add: scatter_entry_def)
    show ?case
      unfolding step list.map sum_list.Cons Cons.IH [symmetric]
      by (simp add: q coord_def dot_def vsub_def power2_eq_square algebra_simps)
  qed
  then show ?thesis
    by (simp add: v scatter_matrix_def Let_def c mat_vec_def dot_def)
qed

lemma dot_vscale: "dot v (vscale l v) = l * dot v v"
  by (cases v) (simp add: dot_def vscale_def algebra_simps)

lemma unit_eigenvalue_nonneg:
  assumes "unit_eigenvector (scatter_matrix ps) l v"
  shows "0 \<le> l"
proof -
  from assms have e: "mat_vec (scatter_matrix ps) v = vscale l v" and n: "vnorm v = 1"
    by (simp_all add: unit_eigenvector_def)
  from n have "dot v v = 1" by (simp add: vnorm_def)
  then have "l = dot v (mat_vec (scatter_matrix ps) v)" by (simp add: e dot_vscale)
  also have "\<dots> = sum_list (map (\<lambda>p. (dot (vsub p (mean ps)) v)\<^sup>2) ps)"
    by (rule scatter_quadratic_form)
  also have "0 \<le> \<dots>" by (rule sum_list_nonneg) auto
  finally show ?thesis .
qed

lemma normalized_unit: "vnorm v = 1 \<Longrightarrow> normalized v = v"
  by (cases v) (simp add: normalized_def vdiv_def)

lemma zero_eigenvalue: "unit_eigenvector mat_zero l v \<Longrightarrow> l = 0"
  by (cases v) (auto simp: unit_eigenvector_def mat_zero_def mat_vec_def dot_def vscale_def vnorm_def)

text \<open>On an empty list the fit raises, when the solver keeps its contract.\<close>

lemma compute_neighborhood_distribution_empty:
  assumes "eigen_contract eigen_solver mat_zero"
  shows "compute_neighborhood_distribution eigen_solver [] = Inl (runtime_error ''error'')"
proof -
  obtain l0 l1 l2 V where s: "eigen_solver mat_zero = ((l0, l1, l2), V)"
    by (metis prod.exhaust)
  from assms s have "l0 = 0" "l1 = 0" "l2 = 0"
    by (auto simp: eigen_contract_def dest: zero_eigenvalue)
  with s show ?thesis
    by (simp add: compute_neighborhood_distribution_def mirror_upper_def mat_zero_def
          double_div_def Let_def)
qed

text \<open>
  C9. Let the points be a non-empty list, and let Eigen's solver keep its contract on
  their centred scatter matrix, giving the eigenvalues \<open>l0 \<le> l1 \<le> l2\<close> and the
  eigenvector matrix \<open>V\<close>. Then the eigenvalues are not negative, so that
  \<open>sigma_1 = sqrt l2 \<ge> sigma_2 = sqrt l1 \<ge> sigma_3 = sqrt l0\<close> are their square roots; the
  columns of \<open>V\<close> are unit eigenvectors of the scatter matrix; and
  \<^verbatim>\<open>compute_neighborhood_distribution\<close> returns the arithmetic mean of the points as
  the center, the first column of \<open>V\<close> (a unit eigenvector for the smallest eigenvalue)
  as the normal, the scatter matrix as the covariance and
  \<open>(sigma_2 - sigma_3) / sigma_1\<close> as the planarity, unless that quotient is NaN, which
  is exactly when the largest eigenvalue is zero (all points are equal): then it raises
  \<^verbatim>\<open>std::runtime_error("error")\<close> instead of returning.
\<close>

theorem compute_neighborhood_distribution_fit:
  assumes "pts \<noteq> []"
    and "eigen_contract eigen_solver (scatter_matrix pts)"
    and "eigen_solver (scatter_matrix pts) = ((l0, l1, l2), V)"
  shows "0 \<le> l0 \<and> l0 \<le> l1 \<and> l1 \<le> l2 \<and>
         unit_eigenvector (scatter_matrix pts) l0 (mat_col 0 V) \<and>
         unit_eigenvector (scatter_matrix pts) l1 (mat_col 1 V) \<and>
         unit_eigenvector (scatter_matrix pts) l2 (mat_col 2 V) \<and>
         compute_neighborhood_distribution eigen_solver pts
           = (if l2 = 0 then Inl (runtime_error ''error'')
              else Inr \<lparr>center = mean pts, normal = mat_col 0 V,
                        covariance = scatter_matrix pts,
                        a2D = Finite ((sqrt l1 - sqrt l0) / sqrt l2)\<rparr>) \<and>
         (double_div (sqrt l1 - sqrt l0) (sqrt l2) = None) = (l2 = 0)"
proof -
  from assms(2,3) have ord: "l0 \<le> l1" "l1 \<le> l2"
    and e0: "unit_eigenvector (scatter_matrix pts) l0 (mat_col 0 V)"
    and e1: "unit_eigenvector (scatter_matrix pts) l1 (mat_col 1 V)"
    and e2: "unit_eigenvector (scatter_matrix pts) l2 (mat_col 2 V)"
    by (simp_all add: eigen_contract_def)
  from e0 have nn: "0 \<le> l0" by (rule unit_eigenvalue_nonneg)
  from e0 have n: "normalized (mat_col 0 V) = mat_col 0 V"
    by (simp add: unit_eigenvector_def normalized_unit)
  have abs: "\<bar>l0\<bar> = l0" "\<bar>l1\<bar> = l1" "\<bar>l2\<bar> = l2" using nn ord by simp_all
  have zero: "l2 = 0 \<Longrightarrow> l0 = 0 \<and> l1 = 0" using nn ord by simp
  have res: "compute_neighborhood_distribution eigen_solver pts
           = (if l2 = 0 then Inl (runtime_error ''error'')
              else Inr \<lparr>center = mean pts, normal = mat_col 0 V,
                        covariance = scatter_matrix pts,
                        a2D = Finite ((sqrt l1 - sqrt l0) / sqrt l2)\<rparr>)"
    using zero
    by (simp add: compute_neighborhood_distribution_def barycenter_mean covariance_scatter
          assms(3) n abs double_div_def Let_def)
  have nan: "(double_div (sqrt l1 - sqrt l0) (sqrt l2) = None) = (l2 = 0)"
    using zero by (auto simp: double_div_def)
  from nn ord e0 e1 e2 res nan show ?thesis by simp
qed


text \<open>
  The theorem on the twenty points of the example, which lie on a plane, and on a
  single point, where the planarity is NaN.
\<close>

theorem compute_neighborhood_distribution_fit_witness:
  "example_neighbors \<noteq> [] \<and>
   eigen_contract example_solver (scatter_matrix example_neighbors) \<and>
   example_solver (scatter_matrix example_neighbors)
     = ((0, 1, 4), ((0, 1, 0), (0, 0, 1), (1, 0, 0))) \<and>
   compute_neighborhood_distribution example_solver example_neighbors
     = Inr \<lparr>center = (0, 0, 0), normal = (0, 0, 1),
            covariance = ((1, 0, 0), (0, 4, 0), (0, 0, 0)), a2D = Finite (1 / 2)\<rparr> \<and>
   eigen_contract example_solver (scatter_matrix [(1, 2, 3)]) \<and>
   example_solver (scatter_matrix [(1, 2, 3)])
     = ((0, 0, 0), ((0, 1, 0), (0, 0, 1), (1, 0, 0))) \<and>
   compute_neighborhood_distribution example_solver [(1, 2, 3)] = Inl (runtime_error ''error'')"
proof -
  have m: "mean example_neighbors = (0, 0, 0)"
    by (simp add: mean_def example_neighbors_def coord_def)
  have sm: "scatter_matrix example_neighbors = ((1, 0, 0), (0, 4, 0), (0, 0, 0))"
    by (simp add: scatter_matrix_def mean_def scatter_entry_def example_neighbors_def
          coord_def Let_def)
  have ne: "example_neighbors \<noteq> []" by (simp add: example_neighbors_def)
  have s: "example_solver (scatter_matrix example_neighbors)
             = ((0, 1, 4), ((0, 1, 0), (0, 0, 1), (1, 0, 0)))"
    by (simp add: sm example_solver_def mat_zero_def)
  have c: "eigen_contract example_solver (scatter_matrix example_neighbors)"
    unfolding eigen_contract_def s
    by (simp add: unit_eigenvector_def sm mat_col_def mat_vec_def dot_def vscale_def vnorm_def)
  have r: "compute_neighborhood_distribution example_solver example_neighbors
             = Inr \<lparr>center = (0, 0, 0), normal = (0, 0, 1),
                    covariance = ((1, 0, 0), (0, 4, 0), (0, 0, 0)), a2D = Finite (1 / 2)\<rparr>"
    using compute_neighborhood_distribution_fit [OF ne c s] by (simp add: m sm mat_col_def)
  have sm1: "scatter_matrix [(1, 2, 3)] = mat_zero"
    by (simp add: scatter_matrix_def mean_def scatter_entry_def coord_def Let_def mat_zero_def)
  have s1: "example_solver (scatter_matrix [(1, 2, 3)])
              = ((0, 0, 0), ((0, 1, 0), (0, 0, 1), (1, 0, 0)))"
    by (simp add: sm1 example_solver_def)
  have c1: "eigen_contract example_solver (scatter_matrix [(1, 2, 3)])"
    unfolding eigen_contract_def s1
    by (simp add: unit_eigenvector_def sm1 mat_zero_def mat_col_def mat_vec_def dot_def
          vscale_def vnorm_def)
  have r1: "compute_neighborhood_distribution example_solver [(1, 2, 3)]
              = Inl (runtime_error ''error'')"
    using compute_neighborhood_distribution_fit [OF _ c1 s1] by simp
  from ne c s r c1 s1 r1 show ?thesis by simp
qed

section \<open>Evaluation on the examples\<close>

lemmas fit_defs = compute_neighborhood_distribution_def vdiv_def vadd_def vsub_def scatter_step_def
  mirror_upper_def mat_zero_def mat_col_def normalized_def vnorm_def dot_def double_div_def Let_def

lemma example_fit:
  "compute_neighborhood_distribution example_solver example_neighbors
     = Inr \<lparr>center = (0, 0, 0), normal = (0, 0, 1),
            covariance = ((1, 0, 0), (0, 4, 0), (0, 0, 0)), a2D = Finite (1 / 2)\<rparr>"
  by (simp add: fit_defs example_neighbors_def example_solver_def)

lemma example_neighbors_length: "length example_neighbors = 20"
  by (simp add: example_neighbors_def)

lemma example_neighbors_first: "example_neighbors ! 0 = (0, 0, 0)"
  by (simp add: example_neighbors_def)

lemmas example_defs = example_ext_def example_opts_def example_point_def example_init_def
  example_fit example_neighbors_length example_neighbors_first

lemmas eval_defs = registerFrame_def initializeTimestamp_def initializeMotion_def initializeFrame_def
      update_frame_def first_frame_state_def updateMap_def vec_index_def vec_at_def new_frame_def new_summary_def
      initial_knot_def place_point_def initial_point_def sub_sample_frame_def sub_sample_by_def
      grid_sampling_def DBL_MAX_def DBL_MIN_def Let_def

lemmas vec_defs = vadd_def vsub_def vscale_def dot_def vnorm_def mat_vec_def mat_mul_def
  mat_transpose_def mat_trace_def mat_identity_def mat_add_def mat_scale_def outer_def

lemmas icp_defs = icp_def icp_previous_def knot_times_def trajectory_knots_def trajectory_add_def
  icp_priors_def icp_filter_vars_def enroll_knot_def icp_marginalize_def icp_imu_def
  icp_finish_def sliding_window_optimize_def icp_report_def icp_problem_def
  addCostTerms_def addCostTerm_def addStateVariable_def marginalizeVariable_def
  getNumberOfVariables_def getNumberOfCostTerms_def prior_cost_terms_of_def
  optimize_def apply_solution_def transform_keypoints_def pose_at_def p2p_loss_def
  group3_def use_T_mi_gt_def knot_bracket_def gyro_cost_def diag3_def bias_walk_terms_def
  T_mi_walk_terms_def AngularDistance_def

lemma example_state1_value:
  "example_state1 =
     \<lparr>trajectory = [\<lparr>begin_timestamp = 0, end_timestamp = 1 / 10, eval_time = 1 / 20,
          begin_R = mat_identity, begin_t = (0, 0, 0), end_R = mat_identity, end_t = (0, 0, 0),
          mid_pose = (mat_identity, (0, 0, 0)), points = []\<rparr>],
      trajectory_vars = [example_knot 0, example_knot (1 / 10)],
      to_marginalize = 1,
      sliding_window_filter = \<lparr>variables = [], cost_terms = []\<rparr>,
      map_m = [example_point 1 0 0 0, example_point 2 0 0 (1 / 10)],
      optimize_log = [], solved_problems = []\<rparr>"
  by (simp add: example_state1_def eval_defs example_defs first_scan_def voxel_key_def
      cast_short_def trunc_def example_knot_def vec_defs)

section \<open>Frame time stamps\<close>

text \<open>
  What the loop of \<^verbatim>\<open>initializeTimestamp\<close> computes from its start values: the
  minimum and the maximum of the start value and the points' time stamps.
\<close>

lemma scan_timestamps_min_max:
  "scan_timestamps pts (mn, mx) =
     (Min (insert mn (Point3D.timestamp ` set pts)), Max (insert mx (Point3D.timestamp ` set pts)))"
proof (induction pts arbitrary: mn mx)
  case Nil
  then show ?case by simp
next
  case (Cons p pts)
  let ?S = "Point3D.timestamp ` set pts"
  have f: "finite ?S" by simp
  have mn: "Min (insert (if Point3D.timestamp p < mn then Point3D.timestamp p else mn) ?S)
          = Min (insert mn (insert (Point3D.timestamp p) ?S))"
    using f by (cases "?S = {}") (auto simp: min_def)
  have mx: "Max (insert (if Point3D.timestamp p > mx then Point3D.timestamp p else mx) ?S)
          = Max (insert mx (insert (Point3D.timestamp p) ?S))"
    using f by (cases "?S = {}") (auto simp: max_def)
  show ?case using Cons.IH mn mx by simp
qed



text \<open>
  C6: the maximum starts at \<^verbatim>\<open>std::numeric_limits<double>::min()\<close>, the smallest
  positive double, not at the lowest one. Registering, as the first frame, a scan
  with the time stamps \<open>-2\<close> and \<open>-1\<close> succeeds and gives the frame the begin time
  \<open>-2\<close> and the evaluation time handed in, but the end time \<open>DBL_MIN\<close>, which is not
  the maximum \<open>-1\<close> of the time stamps.
\<close>

theorem registerFrame_negative_timestamps:
  "\<not> isl (registerFrame example_ext example_opts negative_scan example_init) \<and>
   map (\<lambda>fr. (begin_timestamp fr, end_timestamp fr, eval_time fr))
     (trajectory (snd (projr (registerFrame example_ext example_opts negative_scan example_init))))
     = [(- 2, DBL_MIN, - (3 / 2))] \<and>
   Max (Point3D.timestamp ` set (fst (snd negative_scan))) = - 1 \<and>
   DBL_MIN \<noteq> - 1"
  by (simp add: eval_defs example_defs negative_scan_def voxel_key_def cast_short_def trunc_def)

section \<open>The bracket search\<close>

lemma vec_index_nat: "i < length xs \<Longrightarrow> vec_index name xs (int i) = Inr (xs ! i)"
  by (simp add: vec_index_def)

lemma bracket_loop_none:
  assumes "\<And>j. i \<le> j \<Longrightarrow> j + 1 < length tv \<Longrightarrow> \<not> (time (tv ! j) \<le> \<tau> \<and> \<tau> < time (tv ! (j + 1)))"
    and "i \<le> length tv - 1"
  shows "bracket_loop tv \<tau> i = length tv - 1"
  using assms
proof (induction tv \<tau> i rule: bracket_loop.induct)
  case (1 tv \<tau> i)
  show ?case
  proof (cases "i < length tv - 1")
    case True
    then have "i + 1 < length tv" by simp
    with "1.prems"(1) [of i] have nb: "\<not> (time (tv ! i) \<le> \<tau> \<and> \<tau> < time (tv ! (i + 1)))" by simp
    have "bracket_loop tv \<tau> (i + 1) = length tv - 1"
    proof (rule "1.IH" [OF True])
      show "\<not> (time (tv ! i) \<le> \<tau> \<and> \<tau> < time (tv ! (i + 1)))" by (rule nb)
      show "\<And>j. i + 1 \<le> j \<Longrightarrow> j + 1 < length tv \<Longrightarrow>
              \<not> (time (tv ! j) \<le> \<tau> \<and> \<tau> < time (tv ! (j + 1)))"
        using "1.prems"(1) by simp
      show "i + 1 \<le> length tv - 1" using True by simp
    qed
    with True nb show ?thesis by (subst bracket_loop.simps) auto
  next
    case False
    with "1.prems"(2) show ?thesis by (subst bracket_loop.simps) simp
  qed
qed

lemma bracket_loop_range:
  "i \<le> length tv - 1 \<Longrightarrow> i \<le> bracket_loop tv \<tau> i \<and> bracket_loop tv \<tau> i \<le> length tv - 1"
proof (induction tv \<tau> i rule: bracket_loop.induct)
  case (1 tv \<tau> i)
  show ?case
  proof (cases "i < length tv - 1 \<and> \<not> (time (tv ! i) \<le> \<tau> \<and> \<tau> < time (tv ! (i + 1)))")
    case True
    then have "i + 1 \<le> bracket_loop tv \<tau> (i + 1) \<and> bracket_loop tv \<tau> (i + 1) \<le> length tv - 1"
      using "1.IH" by simp
    with True show ?thesis by (subst bracket_loop.simps, subst (2) bracket_loop.simps) auto
  next
    case False
    with "1.prems" show ?thesis by (subst bracket_loop.simps, subst (2) bracket_loop.simps) auto
  qed
qed

lemma bracket_loop_found:
  "i \<le> length tv - 1 \<Longrightarrow> bracket_loop tv \<tau> i < length tv - 1 \<Longrightarrow>
     time (tv ! bracket_loop tv \<tau> i) \<le> \<tau> \<and> \<tau> < time (tv ! (bracket_loop tv \<tau> i + 1))"
proof (induction tv \<tau> i rule: bracket_loop.induct)
  case (1 tv \<tau> i)
  show ?case
  proof (cases "i < length tv - 1")
    case True
    show ?thesis
    proof (cases "time (tv ! i) \<le> \<tau> \<and> \<tau> < time (tv ! (i + 1))")
      case b: True
      with True have "bracket_loop tv \<tau> i = i" by (subst bracket_loop.simps) simp
      with b show ?thesis by simp
    next
      case nb: False
      with True have eq: "bracket_loop tv \<tau> i = bracket_loop tv \<tau> (i + 1)"
        by (subst bracket_loop.simps) auto
      from True have "i + 1 \<le> length tv - 1" by simp
      with "1.IH" [OF True] nb "1.prems"(2) eq show ?thesis by auto
    qed
  next
    case False
    then have "bracket_loop tv \<tau> i = i" by (subst bracket_loop.simps) simp
    with False "1.prems" show ?thesis by simp
  qed
qed

text \<open>
  C5: with the knot times of the window (from the start index on) in ascending order
  and a queried time at or after the last knot's time, the loop of the bracket search
  ends with \<open>i = size - 1\<close>, and the check after it reads
  \<^verbatim>\<open>trajectory_vars_[i + 1]\<close> at the index \<open>size\<close>, which is not in range. This is
  so for the search of the IMU samples and for the one of the mid time; neither gets to
  throw its exception.
\<close>

theorem knot_bracket_reads_past_end:
  assumes "start < length tv"
    and "sorted (map time (drop start tv))"
    and "time (last tv) \<le> \<tau>"
  shows "bracket_loop tv \<tau> start = length tv - 1 \<and>
         vec_index ''trajectory_vars_'' tv (int (bracket_loop tv \<tau> start) + 1)
           = Inl (out_of_bounds ''trajectory_vars_'' (int (length tv))) \<and>
         knot_bracket ''imu stamp not within knot times'' tv start \<tau>
           = Inl (out_of_bounds ''trajectory_vars_'' (int (length tv))) \<and>
         knot_bracket ''mid time not within knot times'' tv start \<tau>
           = Inl (out_of_bounds ''trajectory_vars_'' (int (length tv)))"
proof -
  from assms(1) have ne: "tv \<noteq> []" by auto
  have le_last: "time (tv ! j) \<le> time (last tv)" if "start \<le> j" "j < length tv" for j
  proof -
    let ?w = "map time (drop start tv)"
    from that have a: "j - start < length ?w" by simp
    from assms(1) have b: "length tv - 1 - start < length ?w" by simp
    from that have c: "j - start \<le> length tv - 1 - start" by simp
    have "?w ! (j - start) \<le> ?w ! (length tv - 1 - start)"
      by (rule sorted_nth_mono [OF assms(2) c b])
    moreover from that have "?w ! (j - start) = time (tv ! j)" by simp
    moreover from assms(1) have "?w ! (length tv - 1 - start) = time (tv ! (length tv - 1))" by simp
    ultimately show ?thesis using ne by (simp add: last_conv_nth)
  qed
  have loop: "bracket_loop tv \<tau> start = length tv - 1"
  proof (rule bracket_loop_none)
    fix j assume "start \<le> j" "j + 1 < length tv"
    then have "time (tv ! (j + 1)) \<le> time (last tv)" using le_last [of "j + 1"] by simp
    with assms(3) show "\<not> (time (tv ! j) \<le> \<tau> \<and> \<tau> < time (tv ! (j + 1)))" by simp
  next
    from assms(1) show "start \<le> length tv - 1" by simp
  qed
  have i: "vec_index ''trajectory_vars_'' tv (int (length tv - 1)) = Inr (last tv)"
    using ne by (simp add: vec_index_def last_conv_nth)
  have len: "int (length tv - 1) + 1 = int (length tv)"
    using ne by (cases tv) auto
  have j: "vec_index ''trajectory_vars_'' tv (int (length tv - 1) + 1)
             = Inl (out_of_bounds ''trajectory_vars_'' (int (length tv)))"
    by (simp only: len) (simp add: vec_index_def)
  have "knot_bracket msg tv start \<tau> = Inl (out_of_bounds ''trajectory_vars_'' (int (length tv)))" for msg
    using loop i j assms(3) by (simp add: knot_bracket_def)
  with loop j show ?thesis by simp
qed

lemma bracket_loop_example: "bracket_loop [example_knot 0, example_knot 1] 1 0 = 1"
  by (simp add: bracket_loop.simps example_knot_def)


theorem knot_bracket_reads_past_end_witness:
  "bracket_loop [example_knot 0, example_knot 1] 1 0 = 1 \<and>
   vec_index ''trajectory_vars_'' [example_knot 0, example_knot 1] 2
     = Inl (out_of_bounds ''trajectory_vars_'' 2) \<and>
   knot_bracket ''imu stamp not within knot times'' [example_knot 0, example_knot 1] 0 1
     = Inl (out_of_bounds ''trajectory_vars_'' 2) \<and>
   knot_bracket ''mid time not within knot times'' [example_knot 0, example_knot 1] 0 1
     = Inl (out_of_bounds ''trajectory_vars_'' 2)"
  using knot_bracket_reads_past_end [of 0 "[example_knot 0, example_knot 1]" 1]
  by (simp add: example_knot_def vec_index_def)

lemma knot_bracket_before_window:
  assumes "start < length tv" and "sorted (map time (drop start tv))" and "\<tau> < time (tv ! start)"
  shows "knot_bracket msg tv start \<tau> = Inl (runtime_error msg)"
proof -
  have ge: "time (tv ! start) \<le> time (tv ! j)" if "start \<le> j" "j < length tv" for j
  proof -
    let ?w = "map time (drop start tv)"
    from that have a: "j - start < length ?w" by simp
    have "?w ! 0 \<le> ?w ! (j - start)" by (rule sorted_nth_mono [OF assms(2) _ a]) simp
    with that assms(1) show ?thesis by simp
  qed
  have loop: "bracket_loop tv \<tau> start = length tv - 1"
  proof (rule bracket_loop_none)
    fix j assume "start \<le> j" "j + 1 < length tv"
    with ge [of j] assms(3) show "\<not> (time (tv ! j) \<le> \<tau> \<and> \<tau> < time (tv ! (j + 1)))" by simp
  next
    from assms(1) show "start \<le> length tv - 1" by simp
  qed
  from assms(1) have "time (tv ! start) \<le> time (tv ! (length tv - 1))" by (intro ge) auto
  with assms(3) have "\<tau> < time (tv ! (length tv - 1))" by linarith
  moreover from assms(1) have "length tv - 1 < length tv" by simp
  then have "vec_index ''trajectory_vars_'' tv (int (length tv - 1))
      = Inr (tv ! (length tv - 1))" by (rule vec_index_nat)
  ultimately show ?thesis using loop by (simp add: knot_bracket_def Let_def)
qed

lemma nat_int_Suc: "nat (int n + 1) = Suc n"
  by arith

lemma knot_bracket_Inr:
  assumes "knot_bracket msg tv start \<tau> = Inr i"
  shows "i = bracket_loop tv \<tau> start \<and> i + 1 < length tv \<and>
         time (tv ! i) \<le> \<tau> \<and> \<tau> < time (tv ! (i + 1))"
  using assms
  by (auto simp: knot_bracket_def vec_index_def Let_def nat_int_Suc split: if_splits sum.splits)

lemma imu_terms_Inr:
  "imu_terms opts tv prev_i imu_data_vec = Inr cs \<Longrightarrow>
     length cs = length imu_data_vec \<and>
     (\<forall>k < length imu_data_vec.
        \<exists>i. knot_bracket ''imu stamp not within knot times'' tv prev_i
               (IMUData.timestamp (imu_data_vec ! k)) = Inr i \<and>
            cs ! k = WeightedLeastSqCostTerm
                       (GyroError (IMUData.timestamp (imu_data_vec ! k)) (i, F_imu_biases)
                          (ang_vel (imu_data_vec ! k)))
                       (Covariance_diag (diag3 (r_imu_ang opts))) L1LossFunc)"
proof (induction imu_data_vec arbitrary: cs)
  case Nil
  then show ?case by simp
next
  case (Cons a rest)
  from Cons.prems obtain i cs' where
    b: "knot_bracket ''imu stamp not within knot times'' tv prev_i (IMUData.timestamp a) = Inr i"
    and r: "imu_terms opts tv prev_i rest = Inr cs'" and cs: "cs = gyro_cost opts i a # cs'"
    by (auto split: sum.splits)
  from Cons.IH [OF r] b cs show ?case
    by (auto simp: gyro_cost_def nth_Cons split: nat.splits)
qed

text \<open>
  C4: an IMU sample stamped with the time of the scan's last point is at the last
  knot's time, so in no interval \<open>[t\<^sub>i, t\<^sub>i\<^sub>+\<^sub>1)\<close> of the window. Registering
  the second scan with the IMU in use does not raise the exception "imu stamp not
  within knot times": the check reads \<^verbatim>\<open>trajectory_vars_[3]\<close> of the three knots.
\<close>

theorem registerFrame_imu_at_scan_end:
  "registerFrame example_ext (example_opts\<lparr>use_imu := True\<rparr>) imu_scan example_state1
     = Inl (out_of_bounds ''trajectory_vars_'' 3)"
  by (simp add: example_state1_value eval_defs icp_defs example_defs imu_scan_def voxel_key_def
      cast_short_def trunc_def example_knot_def vec_defs bracket_loop.simps)

section \<open>The size guard of the sliding window\<close>

text \<open>
  C7: with the cost terms of the frame added to the filter, more than 100 active
  variable groups raise "too many variables in the filter!", otherwise more than 100000
  active cost terms raise "too many cost terms in the filter!", and otherwise the
  sliding-window solve happens, on the filter with the frame's cost terms. A result of
  the phase after the loop comes from a filter within both bounds, after that solve.
\<close>

theorem sliding_window_size_guard:
  "(100 < getNumberOfVariables (icp_problem l (sliding_window_filter s)) \<longrightarrow>
      sliding_window_optimize ext l s = Inl (runtime_error ''too many variables in the filter!'')) \<and>
   (getNumberOfVariables (icp_problem l (sliding_window_filter s)) \<le> 100 \<and>
    100000 < getNumberOfCostTerms (icp_problem l (sliding_window_filter s)) \<longrightarrow>
      sliding_window_optimize ext l s = Inl (runtime_error ''too many cost terms in the filter!'')) \<and>
   (getNumberOfVariables (icp_problem l (sliding_window_filter s)) \<le> 100 \<and>
    getNumberOfCostTerms (icp_problem l (sliding_window_filter s)) \<le> 100000 \<longrightarrow>
      \<not> isl (sliding_window_optimize ext l s) \<and>
      optimize_log (projr (sliding_window_optimize ext l s)) = optimize_log s @ [sliding_window_solve] \<and>
      sliding_window_filter (projr (sliding_window_optimize ext l s))
        = icp_problem l (sliding_window_filter s)) \<and>
   (icp_finish ext opts index_frame imu_data_vec (l, s) = Inr (ok, kps, s') \<longrightarrow>
      getNumberOfVariables (sliding_window_filter s') \<le> 100 \<and>
      getNumberOfCostTerms (sliding_window_filter s') \<le> 100000 \<and>
      last (optimize_log s') = sliding_window_solve)"
proof -
  have "icp_finish ext opts index_frame imu_data_vec (l, s) = Inr (ok, kps, s') \<Longrightarrow>
      getNumberOfVariables (sliding_window_filter s') \<le> 100 \<and>
      getNumberOfCostTerms (sliding_window_filter s') \<le> 100000 \<and>
      last (optimize_log s') = sliding_window_solve"
    by (auto simp: icp_finish_def sliding_window_optimize_def icp_report_def update_frame_def Let_def
        split: sum.splits if_splits)
  then show ?thesis
    by (simp add: sliding_window_optimize_def Let_def)
qed


theorem sliding_window_size_guard_witness:
  "sliding_window_optimize example_ext example_locals crowded_state
     = Inl (runtime_error ''too many variables in the filter!'') \<and>
   \<not> isl (sliding_window_optimize example_ext example_locals example_state1) \<and>
   optimize_log (projr (sliding_window_optimize example_ext example_locals example_state1))
     = [sliding_window_solve] \<and>
   cost_terms (sliding_window_filter
      (projr (sliding_window_optimize example_ext example_locals example_state1)))
     = [KnotPrior 0 1] \<and>
   getNumberOfVariables (sliding_window_filter (snd (snd (projr
      (icp_finish example_ext example_opts 0 [] (example_locals, example_state1)))))) \<le> 100"
proof -
  have many: "100 < getNumberOfVariables (icp_problem example_locals (sliding_window_filter crowded_state))"
    by (simp add: crowded_state_def icp_problem_def example_locals_def addCostTerms_def
        addCostTerm_def getNumberOfVariables_def prior_cost_terms_of_def)
  have few: "getNumberOfVariables (icp_problem example_locals (sliding_window_filter example_state1)) \<le> 100 \<and>
      getNumberOfCostTerms (icp_problem example_locals (sliding_window_filter example_state1)) \<le> 100000"
    and prob: "icp_problem example_locals (sliding_window_filter example_state1)
      = \<lparr>variables = [], cost_terms = [KnotPrior 0 1]\<rparr>"
    by (simp_all add: example_state1_value icp_problem_def example_locals_def addCostTerms_def
        addCostTerm_def getNumberOfVariables_def getNumberOfCostTerms_def prior_cost_terms_of_def)
  define X where "X = icp_finish example_ext example_opts 0 [] (example_locals, example_state1)"
  have fin: "X = Inr (fst (projr X), fst (snd (projr X)), snd (snd (projr X)))"
    unfolding X_def
    by (simp add: example_state1_value icp_defs update_frame_def example_locals_def
        example_ext_def example_opts_def example_knot_def Let_def)
  note g1 = sliding_window_size_guard [of example_locals crowded_state example_ext]
  note g2 = sliding_window_size_guard [of example_locals example_state1 example_ext example_opts 0 "[]"
      "fst (projr X)" "fst (snd (projr X))" "snd (snd (projr X))"]
  from g1 many have a: "sliding_window_optimize example_ext example_locals crowded_state
     = Inl (runtime_error ''too many variables in the filter!'')" by blast
  from g2 few have b: "\<not> isl (sliding_window_optimize example_ext example_locals example_state1)"
    and c: "optimize_log (projr (sliding_window_optimize example_ext example_locals example_state1))
      = optimize_log example_state1 @ [sliding_window_solve]"
    and d: "sliding_window_filter (projr (sliding_window_optimize example_ext example_locals example_state1))
      = icp_problem example_locals (sliding_window_filter example_state1)"
    by blast+
  from g2 fin have e: "getNumberOfVariables (sliding_window_filter (snd (snd (projr X)))) \<le> 100"
    unfolding X_def by blast
  from a b c d e show ?thesis
    unfolding X_def by (simp add: prob) (simp add: example_state1_value)
qed


section \<open>The knots of a window\<close>

text \<open>
  The knot times that icp gives a frame ascend from the previous scan's end time when
  the frame does not end before it: the windows icp searches are in ascending order.
\<close>

lemma knot_times_sorted:
  assumes "prev_time \<le> curr_time"
  shows "sorted (prev_time # knot_times opts prev_time curr_time)"
proof -
  define n where "n = nat (num_extra_states opts)"
  define d where "d = (curr_time - prev_time) / real_of_int (num_extra_states opts + 1)"
  define f where "f = (\<lambda>i::nat. prev_time + (real i + 1) * d)"
  have kt: "knot_times opts prev_time curr_time = map f [0..<n] @ [curr_time]"
    by (simp add: knot_times_def Let_def n_def d_def f_def)
  show ?thesis
  proof (cases "n = 0")
    case True
    with kt assms show ?thesis by simp
  next
    case False
    then have pos: "0 < num_extra_states opts" by (simp add: n_def)
    then have dn: "d * (real n + 1) = curr_time - prev_time"
      by (simp add: d_def n_def)
    from pos assms have d0: "0 \<le> d" by (simp add: d_def)
    have lo: "prev_time \<le> f i" for i using d0 by (simp add: f_def)
    have hi: "f i \<le> curr_time" if "i < n" for i
    proof -
      from that have "real i + 1 \<le> real n + 1" by simp
      with d0 have "(real i + 1) * d \<le> (real n + 1) * d" by (simp add: mult_right_mono)
      with dn show ?thesis by (simp add: f_def mult.commute)
    qed
    have mono: "f i \<le> f j" if "i \<le> j" for i j
    proof -
      from that have "real i + 1 \<le> real j + 1" by simp
      with d0 have "(real i + 1) * d \<le> (real j + 1) * d" by (simp add: mult_right_mono)
      then show ?thesis by (simp add: f_def)
    qed
    have "sorted (map f [0..<n])"
      unfolding sorted_iff_nth_mono using mono by simp
    with lo hi assms show ?thesis
      by (auto simp: kt sorted_append)
  qed
qed

section \<open>Runs of the example\<close>

lemmas run_defs = example_state1_value eval_defs icp_defs example_defs voxel_key_def
      cast_short_def trunc_def example_knot_def vec_defs bracket_loop.simps numeral_3_eq_3

lemma second_scan_strict:
  "\<not> isl (registerFrame example_ext (example_opts\<lparr>min_number_keypoints := 100\<rparr>) second_scan example_state1) \<and>
   \<not> success (fst (projr (registerFrame example_ext (example_opts\<lparr>min_number_keypoints := 100\<rparr>)
        second_scan example_state1))) \<and>
   map time (trajectory_vars (snd (projr (registerFrame example_ext
        (example_opts\<lparr>min_number_keypoints := 100\<rparr>) second_scan example_state1)))) = [0, 1 / 10, 1 / 5] \<and>
   to_marginalize (snd (projr (registerFrame example_ext
        (example_opts\<lparr>min_number_keypoints := 100\<rparr>) second_scan example_state1))) = 2 \<and>
   map_m (snd (projr (registerFrame example_ext
        (example_opts\<lparr>min_number_keypoints := 100\<rparr>) second_scan example_state1)))
     = [example_point 1 0 0 0, example_point 2 0 0 (1 / 10)]"
  by (simp add: run_defs second_scan_def)


lemma second_scan_no_imu:
  "\<not> isl (registerFrame example_ext example_opts second_scan example_state1) \<and>
   success (fst (projr (registerFrame example_ext example_opts second_scan example_state1))) \<and>
   map (\<lambda>k. (T_mi k, T_mi_locked k)) (trajectory_vars (snd (projr
        (registerFrame example_ext example_opts second_scan example_state1))))
     = [(0, False), (0, False), (0, True)]"
  by (simp add: run_defs second_scan_def)

lemma second_scan_with_imu:
  "\<not> isl (registerFrame example_ext (example_opts\<lparr>use_imu := True\<rparr>) second_scan_imu example_state1) \<and>
   map (\<lambda>k. (T_mi k, T_mi_locked k)) (trajectory_vars (snd (projr
        (registerFrame example_ext (example_opts\<lparr>use_imu := True\<rparr>) second_scan_imu example_state1))))
     = [(0, False), (7, True), (0, True)] \<and>
   variables (sliding_window_filter (snd (projr
        (registerFrame example_ext (example_opts\<lparr>use_imu := True\<rparr>) second_scan_imu example_state1))))
     = [[(2, F_T_rm), (2, F_w_mr_inr), (2, F_dw_mr_inr)], [(2, F_imu_biases)]]"
  by (simp add: run_defs second_scan_imu_def)

section \<open>The outer loop and its convergence test\<close>

text \<open>The outer loop does not depend on the two convergence thresholds at all.\<close>

lemma p2p_loss_thresholds:
  "p2p_loss (opts\<lparr>threshold_orientation_norm := a, threshold_translation_norm := b\<rparr>) = p2p_loss opts"
  by (simp add: p2p_loss_def split: STEAM_LOSS_FUNC.splits)

lemma associate_thresholds:
  "associate ext (opts\<lparr>threshold_orientation_norm := a, threshold_translation_norm := b\<rparr>) m nb kps
     = associate ext opts m nb kps"
  by (induction kps) (simp_all add: Let_def p2p_loss_thresholds split: sum.splits)

lemma icp_loop_ignores_thresholds:
  "icp_loop ext (opts\<lparr>threshold_orientation_norm := a, threshold_translation_norm := b\<rparr>)
       index_frame n iter ls
     = icp_loop ext opts index_frame n iter ls"
proof (induction n arbitrary: iter ls)
  case 0
  show ?case by simp
next
  case (Suc n)
  obtain l s where ls: "ls = (l, s)" by (cases ls)
  show ?case
    unfolding ls by (simp add: Let_def associate_thresholds Suc.IH split: sum.splits)
qed

text \<open>
  C1: the third frame (index 2) of the stationary example, with three outer iterations
  configured and the thresholds 0.01 m and 0.1 degrees. The first iteration already
  ends with both differences 0, below the thresholds, yet the iterations 1 and 2 are
  executed as well before the sliding-window solve: the convergence test of the code
  only guards its log message "Finished with N=... ICP iterations" and has no
  \<^verbatim>\<open>break\<close>.
\<close>

theorem registerFrame_converged_iterations:
  "\<not> isl (registerFrame example_ext example_opts third_scan example_state2) \<and>
   success (fst (projr (registerFrame example_ext example_opts third_scan example_state2))) \<and>
   length (trajectory example_state2) = 2 \<and>
   num_iters_icp example_opts = 3 \<and>
   threshold_translation_norm example_opts = 1 / 100 \<and>
   threshold_orientation_norm example_opts = 1 / 10 \<and>
   drop (length (optimize_log example_state2))
     (optimize_log (snd (projr (registerFrame example_ext example_opts third_scan example_state2))))
     = [icp_iteration 0 0 0, icp_iteration 1 0 0, icp_iteration 2 0 0, sliding_window_solve]"
  by (simp add: example_state2_def run_defs second_scan_def third_scan_def)

section \<open>What a registration keeps\<close>

lemma knots_kept_refl: "knots_kept tv tv"
  by (simp add: knots_kept_def)

lemma knots_kept_trans: "knots_kept a b \<Longrightarrow> knots_kept b c \<Longrightarrow> knots_kept a c"
  by (auto simp: knots_kept_def)

lemma no_new_T_mi_refl: "no_new_T_mi f f"
  by (simp add: no_new_T_mi_def)

lemma no_new_T_mi_trans: "no_new_T_mi a b \<Longrightarrow> no_new_T_mi b c \<Longrightarrow> no_new_T_mi a c"
  unfolding no_new_T_mi_def by blast

lemma apply_solution_length: "length (apply_solution sol active tv) = length tv"
  by (simp add: apply_solution_def)

lemma apply_solution_kept: "knots_kept tv (apply_solution sol active tv)"
  by (simp add: knots_kept_def apply_solution_def nth_enumerate_eq)

lemma optimize_kept: "knots_kept tv (optimize ext f n tv)"
  by (simp add: optimize_def apply_solution_kept)

text \<open>A solve leaves a \<^verbatim>\<open>T_mi\<close> that is locked, or is no variable of the problem.\<close>

lemma apply_solution_T_mi:
  "i < length tv \<Longrightarrow> T_mi_locked (tv ! i) \<or> (i, F_T_mi) \<notin> set active \<Longrightarrow>
     T_mi (apply_solution sol active tv ! i) = T_mi (tv ! i)"
  by (auto simp: apply_solution_def nth_enumerate_eq)

lemma optimize_T_mi:
  "i < length tv \<Longrightarrow> T_mi_locked (tv ! i) \<or> (i, F_T_mi) \<notin> set (concat (variables f)) \<Longrightarrow>
     T_mi (optimize ext f n tv ! i) = T_mi (tv ! i)"
  by (simp add: optimize_def apply_solution_T_mi)

subsection \<open>Filter\<close>

lemma addCostTerms_fields:
  "variables (addCostTerms cs f) = variables f \<and> cost_terms (addCostTerms cs f) = cost_terms f @ cs"
  unfolding addCostTerms_def
  by (induction cs arbitrary: f) (simp_all add: addCostTerm_def)

lemma icp_problem_fields:
  "variables (icp_problem l f) = variables f \<and>
   cost_terms (icp_problem l f) = cost_terms f @ prior_cost_terms_of (steam_trajectory l)
      @ prior_cost_terms l @ meas_cost_terms l @ imu_cost_terms l @ imu_prior_cost_terms l
      @ T_mi_prior_cost_terms l"
  by (simp add: icp_problem_def addCostTerms_fields)

lemma prior_cost_terms_of_clean:
  "c \<in> set (prior_cost_terms_of st) \<Longrightarrow> is_T_mi_cost c \<Longrightarrow> c \<in> set (state_priors st)"
  by (auto simp: prior_cost_terms_of_def)

lemma icp_problem_no_new: "locals_clean l \<Longrightarrow> no_new_T_mi f (icp_problem l f)"
  by (auto simp: no_new_T_mi_def icp_problem_fields locals_clean_def dest: prior_cost_terms_of_clean)

lemma enroll_knot_no_new: "no_new_T_mi f (enroll_knot opts i f)"
  by (auto simp: no_new_T_mi_def enroll_knot_def addStateVariable_def group3_def use_T_mi_gt_def Let_def)

lemma fold_enroll_no_new: "no_new_T_mi f (fold (enroll_knot opts) is f)"
proof (induction "is" arbitrary: f)
  case Nil
  show ?case by (simp add: no_new_T_mi_refl)
next
  case (Cons i "is")
  from no_new_T_mi_trans [OF enroll_knot_no_new Cons.IH] show ?case by simp
qed

lemma icp_filter_vars_no_new: "no_new_T_mi f (icp_filter_vars opts index_frame l f)"
proof -
  let ?f1 = "if index_frame = 1 then
               (let f = addStateVariable (group3 (prev_trajectory_var_index l)) f
                in if use_imu opts then
                     (let f = addStateVariable [(prev_trajectory_var_index l, F_imu_biases)] f
                      in if \<not> use_T_mi_gt then addStateVariable [(prev_trajectory_var_index l, F_T_mi)] f else f)
                   else f)
             else f"
  have "no_new_T_mi f ?f1"
    by (auto simp: no_new_T_mi_def addStateVariable_def group3_def use_T_mi_gt_def Let_def)
  from no_new_T_mi_trans [OF this fold_enroll_no_new] show ?thesis
    by (simp add: icp_filter_vars_def Let_def)
qed

lemma marginalizeVariable_no_new: "no_new_T_mi f (marginalizeVariable inv_fn vars f)"
  by (auto simp: no_new_T_mi_def marginalizeVariable_def)


subsection \<open>Phases\<close>

lemma icp_previous_problems:
  "icp_previous ext opts index_frame kps s = Inr (l, s1) \<Longrightarrow> solved_problems s1 = solved_problems s"
  by (auto simp: icp_previous_def Let_def split: sum.splits if_splits)

lemma add_knots_problems:
  "add_knots ext opts b t kts (l, s) = (l', s') \<Longrightarrow> solved_problems s' = solved_problems s"
proof (induction kts arbitrary: l s)
  case Nil
  then show ?case by simp
next
  case (Cons kt kts)
  from Cons.prems obtain l1 s1 where
    "add_knots ext opts b t kts (l1, s1) = (l', s')" "solved_problems s1 = solved_problems s"
    by (auto simp: Let_def)
  with Cons.IH show ?case by simp
qed

lemma icp_marginalize_problems:
  "icp_marginalize ext opts index_frame l s = Inr s' \<Longrightarrow> solved_problems s' = solved_problems s"
  by (auto simp: icp_marginalize_def Let_def split: sum.splits prod.splits if_splits)

lemma icp_previous_Inr:
  assumes "icp_previous ext opts index_frame kps s = Inr (l, s1)"
  shows "locals_clean l"
    and "map_m s1 = map_m s"
    and "to_marginalize s1 = to_marginalize s"
    and "sliding_window_filter s1 = sliding_window_filter s"
    and "trajectory_vars s \<noteq> []"
    and "length (trajectory_vars s1) = length (trajectory_vars s)"
    and "\<forall>i < length (trajectory_vars s). time (trajectory_vars s1 ! i) = time (trajectory_vars s ! i)"
    and "use_imu opts \<longrightarrow>
           T_mi_locked (trajectory_vars s1 ! (length (trajectory_vars s) - 1)) \<and>
           T_mi (trajectory_vars s1 ! (length (trajectory_vars s) - 1))
             = se3_update ext
                 (T_mi_gt_of ext (T_i_r_gt_poses ext (int index_frame)) (T_rm (last (trajectory_vars s))))
                 (T_mi (last (trajectory_vars s)))"
    and "\<not> use_imu opts \<longrightarrow> trajectory_vars s1 = trajectory_vars s"
proof -
  from assms have ne: "trajectory_vars s \<noteq> []"
    by (auto simp: icp_previous_def Let_def split: sum.splits if_splits)
  let ?tv = "trajectory_vars s"
  let ?p = "length ?tv - 1"
  let ?new = "(last ?tv)\<lparr>T_mi := se3_update ext
                 (T_mi_gt_of ext (T_i_r_gt_poses ext (int index_frame)) (T_rm (last ?tv)))
                 (T_mi (last ?tv)), T_mi_locked := True\<rparr>"
  from assms have s1: "s1 = s\<lparr>trajectory_vars := (if use_imu opts then ?tv[?p := ?new] else ?tv)\<rparr>"
    and l: "state_priors (steam_trajectory l) = [] \<and> prior_cost_terms l = [] \<and>
            meas_cost_terms l = [] \<and> imu_cost_terms l = [] \<and> imu_prior_cost_terms l = [] \<and>
            T_mi_prior_cost_terms l = []"
    by (auto simp: icp_previous_def Let_def use_T_mi_gt_def trajectory_add_def
        split: sum.splits if_splits)
  from l show "locals_clean l" by (simp add: locals_clean_def)
  from s1 show "map_m s1 = map_m s" "to_marginalize s1 = to_marginalize s"
    "sliding_window_filter s1 = sliding_window_filter s" by simp_all
  show "trajectory_vars s \<noteq> []" by (rule ne)
  from s1 show "length (trajectory_vars s1) = length (trajectory_vars s)" by simp
  from ne have p: "?p < length ?tv" by (cases ?tv) auto
  from ne have lastp: "last ?tv = ?tv ! ?p" by (simp add: last_conv_nth)
  from s1 lastp show "\<forall>i < length (trajectory_vars s). time (trajectory_vars s1 ! i) = time (trajectory_vars s ! i)"
    by (auto simp: nth_list_update)
  from s1 p show "use_imu opts \<longrightarrow>
           T_mi_locked (trajectory_vars s1 ! (length (trajectory_vars s) - 1)) \<and>
           T_mi (trajectory_vars s1 ! (length (trajectory_vars s) - 1))
             = se3_update ext
                 (T_mi_gt_of ext (T_i_r_gt_poses ext (int index_frame)) (T_rm (last (trajectory_vars s))))
                 (T_mi (last (trajectory_vars s)))"
    by simp
  from s1 show "\<not> use_imu opts \<longrightarrow> trajectory_vars s1 = trajectory_vars s" by simp
qed

lemma add_knots_effect:
  assumes "add_knots ext opts b t kts (l, s) = (l', s')"
  shows "(locals_clean l \<longrightarrow> locals_clean l') \<and>
         map_m s' = map_m s \<and> to_marginalize s' = to_marginalize s \<and>
         sliding_window_filter s' = sliding_window_filter s \<and>
         (\<exists>new. trajectory_vars s' = trajectory_vars s @ new \<and> length new = length kts \<and>
            (\<forall>k \<in> set new. T_mi_locked k \<and> T_mi k = T_identity ext))"
  using assms
proof (induction kts arbitrary: l s)
  case Nil
  then show ?case by simp
next
  case (Cons kt kts)
  let ?tv = "trajectory_vars s"
  let ?knots = "trajectory_knots (steam_trajectory l) ?tv"
  let ?var = "\<lparr>time = kt, T_rm = interp_T_rm ext ?knots kt,
                 w_mr_inr = interp_w_mr_inr ext ?knots kt,
                 dw_mr_inr = interp_dw_mr_inr ext ?knots kt,
                 imu_biases = b, T_mi = T_identity ext, T_mi_locked = True\<rparr>"
  obtain l1 where l1: "add_knots ext opts b t kts (l1, s\<lparr>trajectory_vars := ?tv @ [?var]\<rparr>) = (l', s')"
    and cl: "locals_clean l \<longrightarrow> locals_clean l1"
    using Cons.prems
    by (auto simp: Let_def use_T_mi_gt_def locals_clean_def trajectory_add_def)
  from Cons.IH [OF l1] obtain new where
    a: "locals_clean l1 \<longrightarrow> locals_clean l'"
    and b: "map_m s' = map_m s" "to_marginalize s' = to_marginalize s"
       "sliding_window_filter s' = sliding_window_filter s"
    and c: "trajectory_vars s' = (?tv @ [?var]) @ new" "length new = length kts"
       "\<forall>k \<in> set new. T_mi_locked k \<and> T_mi k = T_identity ext"
    by auto
  have "trajectory_vars s' = ?tv @ (?var # new) \<and> length (?var # new) = length (kt # kts) \<and>
        (\<forall>k \<in> set (?var # new). T_mi_locked k \<and> T_mi k = T_identity ext)"
    using c by simp
  then have "\<exists>new. trajectory_vars s' = ?tv @ new \<and> length new = length (kt # kts) \<and>
        (\<forall>k \<in> set new. T_mi_locked k \<and> T_mi k = T_identity ext)" by blast
  with a b cl show ?case by blast
qed

lemma icp_priors_Inr:
  assumes "icp_priors opts index_frame (l, s) = Inr (l', s')"
  shows "s' = s \<and> (locals_clean l \<longrightarrow> locals_clean l')"
  using assms
  by (auto simp: icp_priors_def Let_def use_T_mi_gt_def locals_clean_def
      split: sum.splits if_splits)

lemma marg_scan_pointer:
  "marg_scan opts tv mt idxs vars tm = (vars', tm') \<Longrightarrow> tm' = tm \<or> tm' \<in> set idxs"
  by (induction idxs arbitrary: vars) (auto simp: Let_def split: if_splits)

lemma icp_marginalize_Inr:
  assumes "icp_marginalize ext opts index_frame l s = Inr s'"
  shows "trajectory_vars s' = trajectory_vars s \<and> map_m s' = map_m s \<and>
         to_marginalize s \<le> to_marginalize s' \<and>
         no_new_T_mi (sliding_window_filter s) (sliding_window_filter s')"
proof (cases "int index_frame - delay_adding_points opts > 0")
  case False
  with assms show ?thesis by (simp add: icp_marginalize_def no_new_T_mi_refl)
next
  case True
  with assms show ?thesis
    by (auto simp: icp_marginalize_def marginalizeVariable_no_new
        split: sum.splits prod.splits if_splits dest!: marg_scan_pointer)
qed

lemma imu_terms_clean:
  "imu_terms opts tv prev_i imu_data_vec = Inr cs \<Longrightarrow> \<forall>c \<in> set cs. \<not> is_T_mi_cost c"
  by (induction imu_data_vec arbitrary: cs) (auto simp: gyro_cost_def split: sum.splits)

lemma icp_imu_Inr:
  assumes "icp_imu opts imu_data_vec l tv = Inr l'" and "locals_clean l"
  shows "locals_clean l'"
proof (cases "use_imu opts")
  case False
  with assms show ?thesis by (simp add: icp_imu_def)
next
  case True
  with assms(1) obtain cs where
    cs: "imu_terms opts tv (prev_trajectory_var_index l) imu_data_vec = Inr cs"
    and l': "l' = l\<lparr>imu_cost_terms := imu_cost_terms l @ cs,
                 imu_prior_cost_terms := imu_prior_cost_terms l
                    @ bias_walk_terms opts (prev_trajectory_var_index l) (length tv),
                 T_mi_prior_cost_terms := T_mi_prior_cost_terms l\<rparr>"
    by (auto simp: icp_imu_def use_T_mi_gt_def split: sum.splits)
  from imu_terms_clean [OF cs] have a: "\<forall>c \<in> set cs. \<not> is_T_mi_cost c" .
  have b: "\<forall>c \<in> set (bias_walk_terms opts (prev_trajectory_var_index l) (length tv)). \<not> is_T_mi_cost c"
    by (auto simp: bias_walk_terms_def)
  from assms(2) a b show ?thesis
    unfolding l' locals_clean_def by auto
qed

lemma associate_clean:
  "associate ext opts m nb kps = Inr cs \<Longrightarrow> \<forall>c \<in> set cs. \<not> is_T_mi_cost c"
  by (induction kps arbitrary: cs) (auto simp: Let_def split: sum.splits if_splits)

lemma update_frame_fields:
  "trajectory_vars (update_frame i f s) = trajectory_vars s"
  "map_m (update_frame i f s) = map_m s"
  "to_marginalize (update_frame i f s) = to_marginalize s"
  "sliding_window_filter (update_frame i f s) = sliding_window_filter s"
  "optimize_log (update_frame i f s) = optimize_log s"
  "solved_problems (update_frame i f s) = solved_problems s"
  by (simp_all add: update_frame_def)

lemma icp_loop_Inr:
  "icp_loop ext opts index_frame n iter (l, s) = Inr (l', s') \<Longrightarrow> locals_clean l \<Longrightarrow>
     locals_clean l' \<and> knots_kept (trajectory_vars s) (trajectory_vars s') \<and>
     map_m s' = map_m s \<and> to_marginalize s' = to_marginalize s \<and>
     sliding_window_filter s' = sliding_window_filter s"
proof (induction n arbitrary: iter l s)
  case 0
  then show ?case by (simp add: knots_kept_refl)
next
  case (Suc n)
  let ?kps = "transform_keypoints ext (steam_trajectory l) (trajectory_vars s) (keypoints l)"
  let ?nb = "if int index_frame < init_num_frames opts then 2 else (1::int)"
  from Suc.prems(1) obtain meas where meas: "associate ext opts (map_m s) ?nb ?kps = Inr meas"
    by (auto simp: Let_def split: sum.splits)
  let ?l1 = "l\<lparr>keypoints := ?kps, meas_cost_terms := meas,
                number_keypoints_used := int (length meas)\<rparr>"
  from associate_clean [OF meas] Suc.prems(2) have cl1: "locals_clean ?l1"
    by (auto simp: locals_clean_def)
  show ?case
  proof (cases "int (length meas) < min_number_keypoints opts")
    case True
    with Suc.prems(1) meas have "l' = ?l1\<lparr>icp_success := False\<rparr>" "s' = s"
      by (auto simp: Let_def)
    with cl1 show ?thesis by (simp add: locals_clean_def knots_kept_refl)
  next
    case False
    let ?tv = "optimize ext (icp_problem ?l1 (sliding_window_filter s)) (max_iterations opts)
                 (trajectory_vars s)"
    from Suc.prems(1) meas False obtain s1 where
      rec: "icp_loop ext opts index_frame n (Suc iter) (?l1, s1) = Inr (l', s')"
      and s1: "trajectory_vars s1 = ?tv" "map_m s1 = map_m s"
        "to_marginalize s1 = to_marginalize s"
        "sliding_window_filter s1 = sliding_window_filter s"
      by (auto simp: Let_def update_frame_fields)
    from Suc.IH [OF rec cl1] s1 optimize_kept [of "trajectory_vars s"] show ?thesis
      by (auto intro: knots_kept_trans)
  qed
qed

text \<open>
  The problems that the outer loop solves have the variables of the filter and, over
  it, no cost term on \<^verbatim>\<open>T_mi\<close>; a \<^verbatim>\<open>T_mi\<close> that is locked, or is no variable of the
  filter, keeps its value.
\<close>

lemma icp_loop_problems:
  "icp_loop ext opts index_frame n iter (l, s) = Inr (l', s') \<Longrightarrow> locals_clean l \<Longrightarrow>
     (\<exists>new. solved_problems s' = solved_problems s @ new \<and>
        (\<forall>p \<in> set new. no_new_T_mi (sliding_window_filter s) p)) \<and>
     (\<forall>i < length (trajectory_vars s).
        T_mi_locked (trajectory_vars s ! i)
          \<or> (i, F_T_mi) \<notin> set (concat (variables (sliding_window_filter s))) \<longrightarrow>
        T_mi (trajectory_vars s' ! i) = T_mi (trajectory_vars s ! i))"
proof (induction n arbitrary: iter l s)
  case 0
  then show ?case by simp
next
  case (Suc n)
  let ?kps = "transform_keypoints ext (steam_trajectory l) (trajectory_vars s) (keypoints l)"
  let ?nb = "if int index_frame < init_num_frames opts then 2 else (1::int)"
  from Suc.prems(1) obtain meas where meas: "associate ext opts (map_m s) ?nb ?kps = Inr meas"
    by (auto simp: Let_def split: sum.splits)
  let ?l1 = "l\<lparr>keypoints := ?kps, meas_cost_terms := meas,
                number_keypoints_used := int (length meas)\<rparr>"
  from associate_clean [OF meas] Suc.prems(2) have cl1: "locals_clean ?l1"
    by (auto simp: locals_clean_def)
  show ?case
  proof (cases "int (length meas) < min_number_keypoints opts")
    case True
    with Suc.prems(1) meas have "s' = s"
      by (auto simp: Let_def)
    then show ?thesis by simp
  next
    case False
    let ?f = "sliding_window_filter s"
    let ?p = "icp_problem ?l1 ?f"
    let ?tv = "optimize ext ?p (max_iterations opts) (trajectory_vars s)"
    from Suc.prems(1) meas False obtain s1 where
      rec: "icp_loop ext opts index_frame n (Suc iter) (?l1, s1) = Inr (l', s')"
      and s1: "trajectory_vars s1 = ?tv" "sliding_window_filter s1 = ?f"
        "solved_problems s1 = solved_problems s @ [?p]"
      by (auto simp: Let_def update_frame_fields)
    from Suc.IH [OF rec cl1] s1 obtain new where
      new: "solved_problems s' = (solved_problems s @ [?p]) @ new"
        "\<forall>p \<in> set new. no_new_T_mi ?f p"
      and keep: "\<forall>i < length ?tv. T_mi_locked (?tv ! i) \<or> (i, F_T_mi) \<notin> set (concat (variables ?f)) \<longrightarrow>
                   T_mi (trajectory_vars s' ! i) = T_mi (?tv ! i)"
      by auto
    from icp_problem_no_new [OF cl1] new have
      a: "solved_problems s' = solved_problems s @ (?p # new) \<and>
          (\<forall>p \<in> set (?p # new). no_new_T_mi ?f p)"
      by simp
    have vars: "variables ?p = variables ?f" by (simp add: icp_problem_fields)
    have kk: "knots_kept (trajectory_vars s) ?tv" by (rule optimize_kept)
    have b: "\<forall>i < length (trajectory_vars s).
        T_mi_locked (trajectory_vars s ! i) \<or> (i, F_T_mi) \<notin> set (concat (variables ?f)) \<longrightarrow>
        T_mi (trajectory_vars s' ! i) = T_mi (trajectory_vars s ! i)"
    proof (intro allI impI)
      fix i assume i: "i < length (trajectory_vars s)"
        and c: "T_mi_locked (trajectory_vars s ! i) \<or> (i, F_T_mi) \<notin> set (concat (variables ?f))"
      from kk i have i': "i < length ?tv" and lk: "T_mi_locked (?tv ! i) = T_mi_locked (trajectory_vars s ! i)"
        by (simp_all add: knots_kept_def)
      from c vars have "T_mi_locked (trajectory_vars s ! i) \<or> (i, F_T_mi) \<notin> set (concat (variables ?p))"
        by simp
      from optimize_T_mi [OF i this] have "T_mi (?tv ! i) = T_mi (trajectory_vars s ! i)" .
      moreover from keep i' c lk have "T_mi (trajectory_vars s' ! i) = T_mi (?tv ! i)" by blast
      ultimately show "T_mi (trajectory_vars s' ! i) = T_mi (trajectory_vars s ! i)" by simp
    qed
    from a b show ?thesis by blast
  qed
qed

lemma icp_finish_problems:
  assumes "icp_finish ext opts index_frame imu_data_vec (l, s) = Inr (ok, kps, s')"
  shows "solved_problems s' = solved_problems s @ [sliding_window_filter s']"
    and "\<forall>i < length (trajectory_vars s).
           T_mi_locked (trajectory_vars s ! i)
             \<or> (i, F_T_mi) \<notin> set (concat (variables (sliding_window_filter s))) \<longrightarrow>
           T_mi (trajectory_vars s' ! i) = T_mi (trajectory_vars s ! i)"
proof -
  let ?f = "icp_problem l (sliding_window_filter s)"
  from assms(1) have e:
    "trajectory_vars s' = optimize ext ?f 20 (trajectory_vars s)" "sliding_window_filter s' = ?f"
    "solved_problems s' = solved_problems s @ [?f]"
    by (auto simp: icp_finish_def sliding_window_optimize_def icp_report_def Let_def
        use_T_mi_gt_def update_frame_fields split: sum.splits if_splits)
  from e show "solved_problems s' = solved_problems s @ [sliding_window_filter s']" by simp
  have vars: "variables ?f = variables (sliding_window_filter s)" by (simp add: icp_problem_fields)
  show "\<forall>i < length (trajectory_vars s).
           T_mi_locked (trajectory_vars s ! i)
             \<or> (i, F_T_mi) \<notin> set (concat (variables (sliding_window_filter s))) \<longrightarrow>
           T_mi (trajectory_vars s' ! i) = T_mi (trajectory_vars s ! i)"
    unfolding e(1) using optimize_T_mi [of _ "trajectory_vars s" ?f ext 20] vars by simp
qed

lemma icp_finish_Inr:
  assumes "icp_finish ext opts index_frame imu_data_vec (l, s) = Inr (ok, kps, s')"
    and "locals_clean l"
  shows "knots_kept (trajectory_vars s) (trajectory_vars s') \<and>
         map_m s' = map_m s \<and> to_marginalize s' = to_marginalize s \<and>
         no_new_T_mi (sliding_window_filter s) (sliding_window_filter s') \<and>
         ok = icp_success l"
proof -
  let ?f = "icp_problem l (sliding_window_filter s)"
  from assms(1) have
    "trajectory_vars s' = optimize ext ?f 20 (trajectory_vars s) \<and> map_m s' = map_m s \<and>
     to_marginalize s' = to_marginalize s \<and> sliding_window_filter s' = ?f \<and> ok = icp_success l"
    by (auto simp: icp_finish_def sliding_window_optimize_def icp_report_def Let_def
        use_T_mi_gt_def update_frame_fields split: sum.splits if_splits)
  with optimize_kept [of "trajectory_vars s" ext ?f 20] icp_problem_no_new [OF assms(2)]
  show ?thesis by simp
qed

text \<open>What icp does to the map, the knots, the marginalization pointer and the filter.\<close>

lemma icp_effect:
  assumes "icp ext opts index_frame kps imu_data_vec s = Inr (ok, kps', s')"
  shows "map_m s' = map_m s"
    and "to_marginalize s \<le> to_marginalize s'"
    and "trajectory_vars s \<noteq> []"
    and "length (trajectory_vars s')
           = length (trajectory_vars s) + nat (num_extra_states opts) + 1"
    and "\<forall>i < length (trajectory_vars s). time (trajectory_vars s' ! i) = time (trajectory_vars s ! i)"
    and "use_imu opts \<longrightarrow>
           T_mi_locked (trajectory_vars s' ! (length (trajectory_vars s) - 1)) \<and>
           T_mi (trajectory_vars s' ! (length (trajectory_vars s) - 1))
             = se3_update ext
                 (T_mi_gt_of ext (T_i_r_gt_poses ext (int index_frame)) (T_rm (last (trajectory_vars s))))
                 (T_mi (last (trajectory_vars s)))"
    and "\<forall>i. length (trajectory_vars s) \<le> i \<and> i < length (trajectory_vars s') \<longrightarrow>
           T_mi_locked (trajectory_vars s' ! i) \<and> T_mi (trajectory_vars s' ! i) = T_identity ext"
    and "no_new_T_mi (sliding_window_filter s) (sliding_window_filter s')"
proof -
  let ?tv = "trajectory_vars s"
  let ?kts = "knot_times opts (end_timestamp (trajectory s ! (index_frame - 1)))
                (end_timestamp (trajectory s ! index_frame))"
  from assms obtain l1 s1 where p1: "icp_previous ext opts index_frame kps s = Inr (l1, s1)"
    by (auto simp: icp_def split: sum.splits)
  obtain l2 s2 where p2: "add_knots ext opts (imu_biases (last ?tv)) (T_mi (last ?tv)) ?kts (l1, s1) = (l2, s2)"
    by (cases "add_knots ext opts (imu_biases (last ?tv)) (T_mi (last ?tv)) ?kts (l1, s1)")
  from assms p1 p2 obtain l3 s3 where p3: "icp_priors opts index_frame (l2, s2) = Inr (l3, s3)"
    by (auto simp: icp_def Let_def split: sum.splits)
  let ?s4 = "s3\<lparr>sliding_window_filter := icp_filter_vars opts index_frame l3 (sliding_window_filter s3)\<rparr>"
  from assms p1 p2 p3 obtain s5 where p5: "icp_marginalize ext opts index_frame l3 ?s4 = Inr s5"
    by (auto simp: icp_def Let_def split: sum.splits)
  from assms p1 p2 p3 p5 obtain l6 where p6: "icp_imu opts imu_data_vec l3 (trajectory_vars s5) = Inr l6"
    by (auto simp: icp_def Let_def split: sum.splits)
  from assms p1 p2 p3 p5 p6 obtain l7 s7 where
    p7: "icp_loop ext opts index_frame (nat (num_iters_icp opts)) 0 (l6, s5) = Inr (l7, s7)"
    by (auto simp: icp_def Let_def split: sum.splits)
  from assms p1 p2 p3 p5 p6 p7 have
    p8: "icp_finish ext opts index_frame imu_data_vec (l7, s7) = Inr (ok, kps', s')"
    by (auto simp: icp_def Let_def split: sum.splits)
  note e1 = icp_previous_Inr [OF p1]
  from add_knots_effect [OF p2] e1(1) obtain new where
    c2: "locals_clean l2" and m2: "map_m s2 = map_m s1" "to_marginalize s2 = to_marginalize s1"
      "sliding_window_filter s2 = sliding_window_filter s1"
    and tv2: "trajectory_vars s2 = trajectory_vars s1 @ new" "length new = length ?kts"
      "\<forall>k \<in> set new. T_mi_locked k \<and> T_mi k = T_identity ext"
    by blast
  from icp_priors_Inr [OF p3] c2 have s3: "s3 = s2" and c3: "locals_clean l3" by simp_all
  from icp_marginalize_Inr [OF p5] have
    e5: "trajectory_vars s5 = trajectory_vars s3" "map_m s5 = map_m s3"
      "to_marginalize s3 \<le> to_marginalize s5"
      "no_new_T_mi (icp_filter_vars opts index_frame l3 (sliding_window_filter s3)) (sliding_window_filter s5)"
    by simp_all
  from icp_imu_Inr [OF p6 c3] have c6: "locals_clean l6" .
  from icp_loop_Inr [OF p7 c6] have c7: "locals_clean l7"
    and e7: "knots_kept (trajectory_vars s5) (trajectory_vars s7)" "map_m s7 = map_m s5"
      "to_marginalize s7 = to_marginalize s5" "sliding_window_filter s7 = sliding_window_filter s5"
    by simp_all
  from icp_finish_Inr [OF p8 c7] have
    e8: "knots_kept (trajectory_vars s7) (trajectory_vars s')" "map_m s' = map_m s7"
      "to_marginalize s' = to_marginalize s7"
      "no_new_T_mi (sliding_window_filter s7) (sliding_window_filter s')"
    by simp_all
  have kept: "knots_kept (trajectory_vars s1 @ new) (trajectory_vars s')"
    using knots_kept_trans [OF e7(1) e8(1)] e5(1) s3 tv2(1) by simp
  have len_kts: "length ?kts = nat (num_extra_states opts) + 1"
    by (simp add: knot_times_def Let_def)
  show "map_m s' = map_m s" using e8(2) e7(2) e5(2) s3 m2(1) e1(2) by simp
  show "to_marginalize s \<le> to_marginalize s'" using e8(3) e7(3) e5(3) s3 m2(2) e1(3) by simp
  show "trajectory_vars s \<noteq> []" by (rule e1(5))
  show "length (trajectory_vars s') = length ?tv + nat (num_extra_states opts) + 1"
    using kept tv2(2) len_kts e1(6) by (simp add: knots_kept_def)
  show "\<forall>i < length ?tv. time (trajectory_vars s' ! i) = time (?tv ! i)"
  proof (intro allI impI)
    fix i assume i: "i < length ?tv"
    with e1(6) have "i < length (trajectory_vars s1 @ new)" by simp
    with kept have "time (trajectory_vars s' ! i) = time ((trajectory_vars s1 @ new) ! i)"
      by (simp add: knots_kept_def)
    with i e1(6) e1(7) show "time (trajectory_vars s' ! i) = time (?tv ! i)"
      by (simp add: nth_append)
  qed
  show "use_imu opts \<longrightarrow>
           T_mi_locked (trajectory_vars s' ! (length ?tv - 1)) \<and>
           T_mi (trajectory_vars s' ! (length ?tv - 1))
             = se3_update ext
                 (T_mi_gt_of ext (T_i_r_gt_poses ext (int index_frame)) (T_rm (last ?tv)))
                 (T_mi (last ?tv))"
  proof
    assume u: "use_imu opts"
    let ?p = "length ?tv - 1"
    from e1(5) have p: "?p < length ?tv" by (cases ?tv) auto
    with e1(6) have p': "?p < length (trajectory_vars s1 @ new)" by simp
    from p e1(6) have nth: "(trajectory_vars s1 @ new) ! ?p = trajectory_vars s1 ! ?p"
      by (simp add: nth_append)
    from e1(8) u have lk: "T_mi_locked (trajectory_vars s1 ! ?p)"
      and v: "T_mi (trajectory_vars s1 ! ?p) = se3_update ext
                 (T_mi_gt_of ext (T_i_r_gt_poses ext (int index_frame)) (T_rm (last ?tv)))
                 (T_mi (last ?tv))" by simp_all
    from kept p' have "T_mi_locked (trajectory_vars s' ! ?p) = T_mi_locked ((trajectory_vars s1 @ new) ! ?p)"
      and "T_mi_locked ((trajectory_vars s1 @ new) ! ?p) \<longrightarrow>
           T_mi (trajectory_vars s' ! ?p) = T_mi ((trajectory_vars s1 @ new) ! ?p)"
      by (simp_all add: knots_kept_def)
    with nth lk v show "T_mi_locked (trajectory_vars s' ! ?p) \<and>
           T_mi (trajectory_vars s' ! ?p) = se3_update ext
                 (T_mi_gt_of ext (T_i_r_gt_poses ext (int index_frame)) (T_rm (last ?tv)))
                 (T_mi (last ?tv))" by simp
  qed
  show "\<forall>i. length ?tv \<le> i \<and> i < length (trajectory_vars s') \<longrightarrow>
           T_mi_locked (trajectory_vars s' ! i) \<and> T_mi (trajectory_vars s' ! i) = T_identity ext"
  proof (intro allI impI)
    fix i assume i: "length ?tv \<le> i \<and> i < length (trajectory_vars s')"
    with kept have i': "i < length (trajectory_vars s1 @ new)" by (simp add: knots_kept_def)
    with i e1(6) have nth: "(trajectory_vars s1 @ new) ! i = new ! (i - length ?tv)"
      and in_new: "i - length ?tv < length new"
      by (auto simp: nth_append)
    from in_new tv2(3) have n: "T_mi_locked (new ! (i - length ?tv))"
      "T_mi (new ! (i - length ?tv)) = T_identity ext" by simp_all
    from kept i' have "T_mi_locked (trajectory_vars s' ! i) = T_mi_locked ((trajectory_vars s1 @ new) ! i)"
      and "T_mi_locked ((trajectory_vars s1 @ new) ! i) \<longrightarrow>
           T_mi (trajectory_vars s' ! i) = T_mi ((trajectory_vars s1 @ new) ! i)"
      by (simp_all add: knots_kept_def)
    with nth n show "T_mi_locked (trajectory_vars s' ! i) \<and> T_mi (trajectory_vars s' ! i) = T_identity ext"
      by simp
  qed
  have "no_new_T_mi (sliding_window_filter s3) (sliding_window_filter s5)"
    by (rule no_new_T_mi_trans [OF icp_filter_vars_no_new e5(4)])
  with e7(4) have "no_new_T_mi (sliding_window_filter s3) (sliding_window_filter s7)" by simp
  from no_new_T_mi_trans [OF this e8(4)] s3 m2(3) e1(4)
  show "no_new_T_mi (sliding_window_filter s) (sliding_window_filter s')" by simp
qed

text \<open>
  The problems that icp solves, and what it does to the \<^verbatim>\<open>T_mi\<close> of an earlier knot
  when it does not overwrite it.
\<close>

lemma icp_problems:
  assumes "icp ext opts index_frame kps imu_data_vec s = Inr (ok, kps', s')"
  shows "\<exists>new. solved_problems s' = solved_problems s @ new \<and> new \<noteq> [] \<and>
           last new = sliding_window_filter s' \<and>
           (\<forall>p \<in> set new. no_new_T_mi (sliding_window_filter s) p)"
    and "\<not> use_imu opts \<longrightarrow>
           (\<forall>i < length (trajectory_vars s).
              T_mi_locked (trajectory_vars s' ! i) = T_mi_locked (trajectory_vars s ! i) \<and>
              (T_mi_locked (trajectory_vars s ! i)
                 \<or> (i, F_T_mi) \<notin> set (concat (variables (sliding_window_filter s))) \<longrightarrow>
               T_mi (trajectory_vars s' ! i) = T_mi (trajectory_vars s ! i)))"
proof -
  let ?tv = "trajectory_vars s"
  let ?kts = "knot_times opts (end_timestamp (trajectory s ! (index_frame - 1)))
                (end_timestamp (trajectory s ! index_frame))"
  from assms obtain l1 s1 where p1: "icp_previous ext opts index_frame kps s = Inr (l1, s1)"
    by (auto simp: icp_def split: sum.splits)
  obtain l2 s2 where p2: "add_knots ext opts (imu_biases (last ?tv)) (T_mi (last ?tv)) ?kts (l1, s1) = (l2, s2)"
    by (cases "add_knots ext opts (imu_biases (last ?tv)) (T_mi (last ?tv)) ?kts (l1, s1)")
  from assms p1 p2 obtain l3 s3 where p3: "icp_priors opts index_frame (l2, s2) = Inr (l3, s3)"
    by (auto simp: icp_def Let_def split: sum.splits)
  let ?s4 = "s3\<lparr>sliding_window_filter := icp_filter_vars opts index_frame l3 (sliding_window_filter s3)\<rparr>"
  from assms p1 p2 p3 obtain s5 where p5: "icp_marginalize ext opts index_frame l3 ?s4 = Inr s5"
    by (auto simp: icp_def Let_def split: sum.splits)
  from assms p1 p2 p3 p5 obtain l6 where p6: "icp_imu opts imu_data_vec l3 (trajectory_vars s5) = Inr l6"
    by (auto simp: icp_def Let_def split: sum.splits)
  from assms p1 p2 p3 p5 p6 obtain l7 s7 where
    p7: "icp_loop ext opts index_frame (nat (num_iters_icp opts)) 0 (l6, s5) = Inr (l7, s7)"
    by (auto simp: icp_def Let_def split: sum.splits)
  from assms p1 p2 p3 p5 p6 p7 have
    p8: "icp_finish ext opts index_frame imu_data_vec (l7, s7) = Inr (ok, kps', s')"
    by (auto simp: icp_def Let_def split: sum.splits)
  note e1 = icp_previous_Inr [OF p1]
  from add_knots_effect [OF p2] e1(1) obtain new where
    c2: "locals_clean l2" and f2: "sliding_window_filter s2 = sliding_window_filter s1"
    and tv2: "trajectory_vars s2 = trajectory_vars s1 @ new"
    by blast
  from icp_priors_Inr [OF p3] c2 have s3: "s3 = s2" and c3: "locals_clean l3" by simp_all
  from icp_marginalize_Inr [OF p5] have
    e5: "trajectory_vars s5 = trajectory_vars s3"
      "no_new_T_mi (icp_filter_vars opts index_frame l3 (sliding_window_filter s3)) (sliding_window_filter s5)"
    by simp_all
  from icp_imu_Inr [OF p6 c3] have c6: "locals_clean l6" .
  from icp_loop_Inr [OF p7 c6] have c7: "locals_clean l7"
    and e7: "knots_kept (trajectory_vars s5) (trajectory_vars s7)"
      "sliding_window_filter s7 = sliding_window_filter s5"
    by simp_all
  from icp_finish_Inr [OF p8 c7] have
    e8: "knots_kept (trajectory_vars s7) (trajectory_vars s')"
      "no_new_T_mi (sliding_window_filter s7) (sliding_window_filter s')"
    by simp_all
  have f5: "no_new_T_mi (sliding_window_filter s) (sliding_window_filter s5)"
    using no_new_T_mi_trans [OF icp_filter_vars_no_new e5(2)] s3 f2 e1(4) by simp
  have q5: "solved_problems s5 = solved_problems s"
    using icp_marginalize_problems [OF p5] s3 add_knots_problems [OF p2]
      icp_previous_problems [OF p1] by simp
  from icp_loop_problems [OF p7 c6] obtain new7 where
    q7: "solved_problems s7 = solved_problems s5 @ new7"
      "\<forall>p \<in> set new7. no_new_T_mi (sliding_window_filter s5) p"
    and k7: "\<forall>i < length (trajectory_vars s5).
        T_mi_locked (trajectory_vars s5 ! i)
          \<or> (i, F_T_mi) \<notin> set (concat (variables (sliding_window_filter s5))) \<longrightarrow>
        T_mi (trajectory_vars s7 ! i) = T_mi (trajectory_vars s5 ! i)"
    by blast
  note e8' = icp_finish_problems [OF p8]
  from q7(2) f5 have n7: "\<forall>p \<in> set new7. no_new_T_mi (sliding_window_filter s) p"
    by (blast intro: no_new_T_mi_trans)
  from f5 e7(2) e8(2) have n8: "no_new_T_mi (sliding_window_filter s) (sliding_window_filter s')"
    by (metis no_new_T_mi_trans)
  have "solved_problems s' = solved_problems s @ (new7 @ [sliding_window_filter s']) \<and>
        new7 @ [sliding_window_filter s'] \<noteq> [] \<and>
        last (new7 @ [sliding_window_filter s']) = sliding_window_filter s' \<and>
        (\<forall>p \<in> set (new7 @ [sliding_window_filter s']). no_new_T_mi (sliding_window_filter s) p)"
    using e8'(1) q7(1) q5 n7 n8 by simp
  then show "\<exists>new. solved_problems s' = solved_problems s @ new \<and> new \<noteq> [] \<and>
           last new = sliding_window_filter s' \<and>
           (\<forall>p \<in> set new. no_new_T_mi (sliding_window_filter s) p)" by blast
  show "\<not> use_imu opts \<longrightarrow>
           (\<forall>i < length ?tv.
              T_mi_locked (trajectory_vars s' ! i) = T_mi_locked (?tv ! i) \<and>
              (T_mi_locked (?tv ! i)
                 \<or> (i, F_T_mi) \<notin> set (concat (variables (sliding_window_filter s))) \<longrightarrow>
               T_mi (trajectory_vars s' ! i) = T_mi (?tv ! i)))"
  proof (intro impI allI)
    fix i assume u: "\<not> use_imu opts" and i: "i < length ?tv"
    from e1(9) u have tv1: "trajectory_vars s1 = ?tv" by simp
    with tv2 s3 e5(1) have tv5: "trajectory_vars s5 = ?tv @ new" by simp
    with i have i5: "i < length (trajectory_vars s5)" and nth5: "trajectory_vars s5 ! i = ?tv ! i"
      by (simp_all add: nth_append)
    from e7(1) i5 have i7: "i < length (trajectory_vars s7)"
      and l7: "T_mi_locked (trajectory_vars s7 ! i) = T_mi_locked (trajectory_vars s5 ! i)"
      by (simp_all add: knots_kept_def)
    from e8(1) i7 have l8: "T_mi_locked (trajectory_vars s' ! i) = T_mi_locked (trajectory_vars s7 ! i)"
      by (simp add: knots_kept_def)
    have val: "T_mi (trajectory_vars s' ! i) = T_mi (?tv ! i)"
      if c: "T_mi_locked (?tv ! i) \<or> (i, F_T_mi) \<notin> set (concat (variables (sliding_window_filter s)))"
    proof -
      from f5 have "(i, F_T_mi) \<in> set (concat (variables (sliding_window_filter s5))) \<Longrightarrow>
                    (i, F_T_mi) \<in> set (concat (variables (sliding_window_filter s)))"
        unfolding no_new_T_mi_def by auto
      with c nth5 have c5: "T_mi_locked (trajectory_vars s5 ! i)
          \<or> (i, F_T_mi) \<notin> set (concat (variables (sliding_window_filter s5)))" by auto
      with k7 i5 have v7: "T_mi (trajectory_vars s7 ! i) = T_mi (trajectory_vars s5 ! i)" by blast
      from c5 l7 e7(2) have "T_mi_locked (trajectory_vars s7 ! i)
          \<or> (i, F_T_mi) \<notin> set (concat (variables (sliding_window_filter s7)))" by simp
      with e8'(2) i7 have "T_mi (trajectory_vars s' ! i) = T_mi (trajectory_vars s7 ! i)" by blast
      with v7 nth5 show ?thesis by simp
    qed
    from l8 l7 nth5 val
    show "T_mi_locked (trajectory_vars s' ! i) = T_mi_locked (?tv ! i) \<and>
              (T_mi_locked (?tv ! i)
                 \<or> (i, F_T_mi) \<notin> set (concat (variables (sliding_window_filter s))) \<longrightarrow>
               T_mi (trajectory_vars s' ! i) = T_mi (?tv ! i))" by simp
  qed
qed

lemma initialize_fields:
  "trajectory_vars (initializeMotion ext i (initializeTimestamp i cf s)) = trajectory_vars s"
  "map_m (initializeMotion ext i (initializeTimestamp i cf s)) = map_m s"
  "to_marginalize (initializeMotion ext i (initializeTimestamp i cf s)) = to_marginalize s"
  "sliding_window_filter (initializeMotion ext i (initializeTimestamp i cf s)) = sliding_window_filter s"
  "solved_problems (initializeMotion ext i (initializeTimestamp i cf s)) = solved_problems s"
  by (simp_all add: initializeMotion_def initializeTimestamp_def update_frame_fields Let_def
      split: prod.splits)

lemma updateMap_Inr:
  "updateMap ext opts i u s = Inr s' \<Longrightarrow>
     trajectory_vars s' = trajectory_vars s \<and> to_marginalize s' = to_marginalize s \<and>
     sliding_window_filter s' = sliding_window_filter s \<and>
     solved_problems s' = solved_problems s"
  by (auto simp: updateMap_def Let_def update_frame_def split: sum.splits)

text \<open>A later frame's registration is a run of icp, then at most a map update.\<close>

lemma registerFrame_later:
  assumes "registerFrame ext opts cf s = Inr (summary, s')" and "trajectory s \<noteq> []"
  shows "\<exists>kps kps' s1 s2.
           trajectory_vars s1 = trajectory_vars s \<and> map_m s1 = map_m s \<and>
           to_marginalize s1 = to_marginalize s \<and>
           sliding_window_filter s1 = sliding_window_filter s \<and>
           solved_problems s1 = solved_problems s \<and>
           icp ext opts (length (trajectory s)) kps (snd (snd cf)) s1
             = Inr (success summary, kps', s2) \<and>
           trajectory_vars s' = trajectory_vars s2 \<and> to_marginalize s' = to_marginalize s2 \<and>
           sliding_window_filter s' = sliding_window_filter s2 \<and>
           solved_problems s' = solved_problems s2 \<and>
           (\<not> success summary \<longrightarrow> s' = s2)"
proof -
  let ?i = "length (trajectory s)"
  let ?s1 = "initializeMotion ext ?i (initializeTimestamp ?i cf (s\<lparr>trajectory := trajectory s @ [new_frame]\<rparr>))"
  let ?frame = "initializeFrame ext opts ?i (fst (snd cf)) ?s1"
  let ?kps = "grid_sampling (hash_order ext) ?frame
                (if int ?i < init_num_frames opts then init_sample_voxel_size opts
                 else sample_voxel_size opts)"
  from assms(2) have pos: "?i > 0" by simp
  from assms(1) pos obtain ok kps' s2 where
    icp: "icp ext opts ?i ?kps (snd (snd cf)) ?s1 = Inr (ok, kps', s2)"
    by (auto simp: registerFrame_def Let_def split: sum.splits)
  have f: "trajectory_vars ?s1 = trajectory_vars s \<and> map_m ?s1 = map_m s \<and>
           to_marginalize ?s1 = to_marginalize s \<and>
           sliding_window_filter ?s1 = sliding_window_filter s \<and>
           solved_problems ?s1 = solved_problems s"
    by (simp add: initialize_fields)
  show ?thesis
  proof (cases ok)
    case False
    with assms(1) pos icp have "s' = s2" "success summary = ok"
      by (auto simp: registerFrame_def Let_def)
    with icp f False show ?thesis by blast
  next
    case True
    let ?s3 = "update_frame ?i (\<lambda>fr. fr\<lparr>points := ?frame\<rparr>) s2"
    from assms(1) pos icp True have ok: "success summary = ok"
      and s': "updateMap ext opts ?i (int ?i - delay_adding_points opts) ?s3 = Inr s' \<or> s' = ?s3"
      by (auto simp: registerFrame_def Let_def split: sum.splits if_splits)
    from s' have "trajectory_vars s' = trajectory_vars s2 \<and> to_marginalize s' = to_marginalize s2 \<and>
           sliding_window_filter s' = sliding_window_filter s2 \<and>
           solved_problems s' = solved_problems s2"
      by (auto dest: updateMap_Inr simp: update_frame_fields)
    with icp f ok True show ?thesis by blast
  qed
qed

lemma registerFrame_first_success:
  "registerFrame ext opts cf s = Inr (summary, s') \<Longrightarrow> trajectory s = [] \<Longrightarrow> success summary"
  by (auto simp: registerFrame_def Let_def new_summary_def split: sum.splits if_splits)


section \<open>An aborted registration\<close>

lemma not_isl_Inr: "\<not> isl r \<Longrightarrow> r = Inr (fst (projr r), snd (projr r))"
  by (cases r) auto

text \<open>
  C2, as amended: when registerFrame returns a summary with \<open>success = false\<close>, the
  voxel map is as before the call; the knot list is not restored: it has the
  \<open>num_extra_states + 1\<close> knots of the frame appended to the earlier knots, whose times
  are as before; and the marginalization pointer is not restored either: it never
  moves back (and can have advanced, as the example below shows).
\<close>

theorem registerFrame_abort_effect:
  assumes "registerFrame ext opts cf s = Inr (summary, s')" and "\<not> success summary"
  shows "map_m s' = map_m s \<and>
         length (trajectory_vars s') = length (trajectory_vars s) + nat (num_extra_states opts) + 1 \<and>
         map time (take (length (trajectory_vars s)) (trajectory_vars s')) = map time (trajectory_vars s) \<and>
         to_marginalize s \<le> to_marginalize s'"
proof -
  from assms have ne: "trajectory s \<noteq> []"
    using registerFrame_first_success [of ext opts cf s summary s'] by blast
  from registerFrame_later [OF assms(1) ne] assms(2) obtain kps kps' s1 where
    s1: "trajectory_vars s1 = trajectory_vars s" "map_m s1 = map_m s"
      "to_marginalize s1 = to_marginalize s"
    and icp: "icp ext opts (length (trajectory s)) kps (snd (snd cf)) s1 = Inr (success summary, kps', s')"
    by auto
  note e = icp_effect [OF icp]
  have "map time (take (length (trajectory_vars s)) (trajectory_vars s')) = map time (trajectory_vars s)"
  proof (rule nth_equalityI)
    show "length (map time (take (length (trajectory_vars s)) (trajectory_vars s')))
            = length (map time (trajectory_vars s))"
      using e(4) s1(1) by simp
  next
    fix i assume "i < length (map time (take (length (trajectory_vars s)) (trajectory_vars s')))"
    then have i: "i < length (trajectory_vars s)" by simp
    with e(4) s1(1) have "i < length (trajectory_vars s')" by simp
    with i e(5) s1(1) show "map time (take (length (trajectory_vars s)) (trajectory_vars s')) ! i
            = map time (trajectory_vars s) ! i"
      by simp
  qed
  with e(1) e(2) e(4) s1 show ?thesis by simp
qed

theorem registerFrame_abort_effect_witness:
  "map_m (snd (projr (registerFrame example_ext (example_opts\<lparr>min_number_keypoints := 100\<rparr>)
        second_scan example_state1))) = map_m example_state1 \<and>
   length (trajectory_vars (snd (projr (registerFrame example_ext
        (example_opts\<lparr>min_number_keypoints := 100\<rparr>) second_scan example_state1)))) = 3 \<and>
   map time (take 2 (trajectory_vars (snd (projr (registerFrame example_ext
        (example_opts\<lparr>min_number_keypoints := 100\<rparr>) second_scan example_state1))))) = [0, 1 / 10] \<and>
   1 \<le> to_marginalize (snd (projr (registerFrame example_ext
        (example_opts\<lparr>min_number_keypoints := 100\<rparr>) second_scan example_state1)))"
proof -
  define R where "R = registerFrame example_ext (example_opts\<lparr>min_number_keypoints := 100\<rparr>)
        second_scan example_state1"
  from second_scan_strict have r: "R = Inr (fst (projr R), snd (projr R))"
    and f: "\<not> success (fst (projr R))"
    unfolding R_def by (simp_all add: not_isl_Inr)
  have o: "num_extra_states (example_opts\<lparr>min_number_keypoints := 100\<rparr>) = 0"
    by (simp add: example_opts_def)
  have v: "length (trajectory_vars example_state1) = 2"
    "map time (trajectory_vars example_state1) = [0, 1 / 10]"
    "to_marginalize example_state1 = 1"
    by (simp_all add: example_state1_value example_knot_def)
  from registerFrame_abort_effect [OF r [unfolded R_def] f [unfolded R_def]] o v
  show ?thesis by simp
qed

text \<open>
  C2 as stated fails: the second scan of the example with \<open>min_number_keypoints = 100\<close>
  finds two keypoints, so the registration returns \<open>success = false\<close>; the knot list
  has grown from the times \<open>[0, 0.1]\<close> to \<open>[0, 0.1, 0.2]\<close> and the marginalization
  pointer has advanced from 1 to 2.
\<close>

theorem registerFrame_abort_changes_knots:
  "\<not> isl (registerFrame example_ext (example_opts\<lparr>min_number_keypoints := 100\<rparr>) second_scan example_state1) \<and>
   \<not> success (fst (projr (registerFrame example_ext (example_opts\<lparr>min_number_keypoints := 100\<rparr>)
        second_scan example_state1))) \<and>
   map time (trajectory_vars example_state1) = [0, 1 / 10] \<and>
   map time (trajectory_vars (snd (projr (registerFrame example_ext
        (example_opts\<lparr>min_number_keypoints := 100\<rparr>) second_scan example_state1)))) = [0, 1 / 10, 1 / 5] \<and>
   to_marginalize example_state1 = 1 \<and>
   to_marginalize (snd (projr (registerFrame example_ext
        (example_opts\<lparr>min_number_keypoints := 100\<rparr>) second_scan example_state1))) = 2"
proof -
  have "map time (trajectory_vars example_state1) = [0, 1 / 10]"
    "to_marginalize example_state1 = 1"
    by (simp_all add: example_state1_value example_knot_def)
  with second_scan_strict show ?thesis by simp
qed

section \<open>The gravity frame variables\<close>

text \<open>
  C3, as amended: for every frame after the first whose registration returns, whatever
  \<open>use_imu\<close> and \<open>T_mi_init_only\<close> are: if the IMU is in use, the previous knot's
  \<^verbatim>\<open>T_mi\<close> is locked and holds the update of its old value by the transformation
  built from the ground-truth table; if the IMU is not in use, the previous knot's
  \<^verbatim>\<open>T_mi\<close> is left as it was: its lock is as before the call, and so is its value
  when it was locked or was no variable of the filter; the frame's
  \<open>num_extra_states + 1\<close> new knots have the identity as \<^verbatim>\<open>T_mi\<close>, locked; and no
  optimization problem that the call solves (the problem of each iteration of the
  outer loop and, last, the sliding-window filter, which the call solves at least
  once) has a \<^verbatim>\<open>T_mi\<close> variable or a prior or random-walk cost term on \<^verbatim>\<open>T_mi\<close> that
  the filter did not have before the call, nor has the filter after it.
\<close>

theorem registerFrame_T_mi_ground_truth:
  assumes "registerFrame ext opts cf s = Inr (summary, s')" and "trajectory s \<noteq> []"
  shows "(use_imu opts \<longrightarrow>
           T_mi_locked (trajectory_vars s' ! (length (trajectory_vars s) - 1)) \<and>
           T_mi (trajectory_vars s' ! (length (trajectory_vars s) - 1))
             = se3_update ext
                 (T_mi_gt_of ext (T_i_r_gt_poses ext (int (length (trajectory s))))
                    (T_rm (last (trajectory_vars s))))
                 (T_mi (last (trajectory_vars s)))) \<and>
         (\<not> use_imu opts \<longrightarrow>
           T_mi_locked (trajectory_vars s' ! (length (trajectory_vars s) - 1))
             = T_mi_locked (last (trajectory_vars s)) \<and>
           (T_mi_locked (last (trajectory_vars s))
              \<or> (length (trajectory_vars s) - 1, F_T_mi)
                   \<notin> set (concat (variables (sliding_window_filter s))) \<longrightarrow>
            T_mi (trajectory_vars s' ! (length (trajectory_vars s) - 1))
              = T_mi (last (trajectory_vars s)))) \<and>
         length (trajectory_vars s') = length (trajectory_vars s) + nat (num_extra_states opts) + 1 \<and>
         (\<forall>i. length (trajectory_vars s) \<le> i \<and> i < length (trajectory_vars s') \<longrightarrow>
            T_mi_locked (trajectory_vars s' ! i) \<and> T_mi (trajectory_vars s' ! i) = T_identity ext) \<and>
         take (length (solved_problems s)) (solved_problems s') = solved_problems s \<and>
         length (solved_problems s) < length (solved_problems s') \<and>
         (\<forall>p \<in> set (drop (length (solved_problems s)) (solved_problems s')).
            no_new_T_mi (sliding_window_filter s) p) \<and>
         last (solved_problems s') = sliding_window_filter s' \<and>
         no_new_T_mi (sliding_window_filter s) (sliding_window_filter s')"
proof -
  from registerFrame_later [OF assms] obtain kps kps' s1 s2 where
    s1: "trajectory_vars s1 = trajectory_vars s" "sliding_window_filter s1 = sliding_window_filter s"
      "solved_problems s1 = solved_problems s"
    and icp: "icp ext opts (length (trajectory s)) kps (snd (snd cf)) s1 = Inr (success summary, kps', s2)"
    and s2: "trajectory_vars s' = trajectory_vars s2" "sliding_window_filter s' = sliding_window_filter s2"
      "solved_problems s' = solved_problems s2"
    by auto
  note e = icp_effect [OF icp]
  note q = icp_problems [OF icp]
  let ?p = "length (trajectory_vars s) - 1"
  from e(3) s1(1) have p: "?p < length (trajectory_vars s)" by (cases "trajectory_vars s") auto
  from e(3) s1(1) have lastp: "last (trajectory_vars s) = trajectory_vars s ! ?p"
    by (simp add: last_conv_nth)
  from q(2) p s1 s2 lastp have a: "\<not> use_imu opts \<longrightarrow>
           T_mi_locked (trajectory_vars s' ! ?p) = T_mi_locked (last (trajectory_vars s)) \<and>
           (T_mi_locked (last (trajectory_vars s))
              \<or> (?p, F_T_mi) \<notin> set (concat (variables (sliding_window_filter s))) \<longrightarrow>
            T_mi (trajectory_vars s' ! ?p) = T_mi (last (trajectory_vars s)))"
    by simp
  from q(1) s1 s2 obtain new where new: "solved_problems s' = solved_problems s @ new" "new \<noteq> []"
    "last new = sliding_window_filter s'"
    "\<forall>p \<in> set new. no_new_T_mi (sliding_window_filter s) p" by auto
  then have b: "take (length (solved_problems s)) (solved_problems s') = solved_problems s"
    "length (solved_problems s) < length (solved_problems s')"
    "\<forall>p \<in> set (drop (length (solved_problems s)) (solved_problems s')).
            no_new_T_mi (sliding_window_filter s) p"
    "last (solved_problems s') = sliding_window_filter s'"
    by simp_all
  from e(4) e(6) e(7) e(8) s1 s2 a b show ?thesis by simp
qed


text \<open>
  The theorem on the second scan of the example, once with the IMU in use and once
  without it.
\<close>

theorem registerFrame_T_mi_ground_truth_witness:
  "T_mi_locked (trajectory_vars (snd (projr (registerFrame example_ext
        (example_opts\<lparr>use_imu := True\<rparr>) second_scan_imu example_state1))) ! 1) \<and>
   T_mi (trajectory_vars (snd (projr (registerFrame example_ext
        (example_opts\<lparr>use_imu := True\<rparr>) second_scan_imu example_state1))) ! 1) = 7 \<and>
   length (trajectory_vars (snd (projr (registerFrame example_ext
        (example_opts\<lparr>use_imu := True\<rparr>) second_scan_imu example_state1)))) = 3 \<and>
   T_mi_locked (trajectory_vars (snd (projr (registerFrame example_ext
        (example_opts\<lparr>use_imu := True\<rparr>) second_scan_imu example_state1))) ! 2) \<and>
   T_mi (trajectory_vars (snd (projr (registerFrame example_ext
        (example_opts\<lparr>use_imu := True\<rparr>) second_scan_imu example_state1))) ! 2) = 0 \<and>
   last (solved_problems (snd (projr (registerFrame example_ext
        (example_opts\<lparr>use_imu := True\<rparr>) second_scan_imu example_state1))))
     = sliding_window_filter (snd (projr (registerFrame example_ext
        (example_opts\<lparr>use_imu := True\<rparr>) second_scan_imu example_state1))) \<and>
   \<not> use_imu example_opts \<and>
   (1, F_T_mi) \<notin> set (concat (variables (sliding_window_filter example_state1))) \<and>
   \<not> T_mi_locked (trajectory_vars (snd (projr
        (registerFrame example_ext example_opts second_scan example_state1))) ! 1) \<and>
   T_mi (trajectory_vars (snd (projr
        (registerFrame example_ext example_opts second_scan example_state1))) ! 1)
     = T_mi (last (trajectory_vars example_state1)) \<and>
   solved_problems example_state1 = [] \<and>
   solved_problems (snd (projr
        (registerFrame example_ext example_opts second_scan example_state1))) \<noteq> []"
proof -
  define R where "R = registerFrame example_ext (example_opts\<lparr>use_imu := True\<rparr>)
        second_scan_imu example_state1"
  define Q where "Q = registerFrame example_ext example_opts second_scan example_state1"
  from second_scan_with_imu have r: "R = Inr (fst (projr R), snd (projr R))"
    unfolding R_def by (simp add: not_isl_Inr)
  from second_scan_no_imu have q: "Q = Inr (fst (projr Q), snd (projr Q))"
    unfolding Q_def by (simp add: not_isl_Inr)
  have ne: "trajectory example_state1 \<noteq> []" by (simp add: example_state1_value)
  have o: "num_extra_states (example_opts\<lparr>use_imu := True\<rparr>) = 0"
    "use_imu (example_opts\<lparr>use_imu := True\<rparr>)"
    "\<not> use_imu example_opts"
    by (simp_all add: example_opts_def)
  have v: "length (trajectory_vars example_state1) = 2"
    "se3_update example_ext
       (T_mi_gt_of example_ext (T_i_r_gt_poses example_ext (int (length (trajectory example_state1))))
          (T_rm (last (trajectory_vars example_state1))))
       (T_mi (last (trajectory_vars example_state1))) = 7"
    "T_identity example_ext = 0"
    "\<not> T_mi_locked (last (trajectory_vars example_state1))"
    "(1, F_T_mi) \<notin> set (concat (variables (sliding_window_filter example_state1)))"
    "solved_problems example_state1 = []"
    by (simp_all add: example_state1_value example_knot_def example_ext_def)
  note t = registerFrame_T_mi_ground_truth [OF r [unfolded R_def] ne]
  note u = registerFrame_T_mi_ground_truth [OF q [unfolded Q_def] ne]
  from t o v have a: "T_mi_locked (trajectory_vars (snd (projr R)) ! 1) \<and>
      T_mi (trajectory_vars (snd (projr R)) ! 1) = 7"
    and len: "length (trajectory_vars (snd (projr R))) = 3"
    unfolding R_def by simp_all
  from t have "\<forall>i. length (trajectory_vars example_state1) \<le> i \<and> i < length (trajectory_vars (snd (projr R))) \<longrightarrow>
            T_mi_locked (trajectory_vars (snd (projr R)) ! i) \<and>
            T_mi (trajectory_vars (snd (projr R)) ! i) = T_identity example_ext"
    unfolding R_def by blast
  with v len have b: "T_mi_locked (trajectory_vars (snd (projr R)) ! 2) \<and>
      T_mi (trajectory_vars (snd (projr R)) ! 2) = 0" by simp
  from t have c: "last (solved_problems (snd (projr R))) = sliding_window_filter (snd (projr R))"
    unfolding R_def by blast
  from u o(3) have "T_mi_locked (trajectory_vars (snd (projr Q)) ! (length (trajectory_vars example_state1) - 1))
             = T_mi_locked (last (trajectory_vars example_state1)) \<and>
           (T_mi_locked (last (trajectory_vars example_state1))
              \<or> (length (trajectory_vars example_state1) - 1, F_T_mi)
                   \<notin> set (concat (variables (sliding_window_filter example_state1))) \<longrightarrow>
            T_mi (trajectory_vars (snd (projr Q)) ! (length (trajectory_vars example_state1) - 1))
              = T_mi (last (trajectory_vars example_state1)))"
    unfolding Q_def by blast
  with v have d: "\<not> T_mi_locked (trajectory_vars (snd (projr Q)) ! 1) \<and>
      T_mi (trajectory_vars (snd (projr Q)) ! 1) = T_mi (last (trajectory_vars example_state1))"
    by simp
  from u have "length (solved_problems example_state1) < length (solved_problems (snd (projr Q)))"
    unfolding Q_def by blast
  then have e: "solved_problems (snd (projr Q)) \<noteq> []" by auto
  from a b len c o(3) v(5) v(6) d e show ?thesis unfolding R_def Q_def by simp
qed

text \<open>
  C3 as stated fails without the IMU: registering the second scan of the example with
  \<open>use_imu = false\<close> (frame index 1) leaves the previous knot, at index 1, unlocked,
  with its old \<^verbatim>\<open>T_mi\<close> value 0 and not the value 7 that the update from the ground
  truth would give.
\<close>

theorem registerFrame_without_imu_keeps_T_mi:
  "\<not> isl (registerFrame example_ext example_opts second_scan example_state1) \<and>
   \<not> use_imu example_opts \<and>
   length (trajectory example_state1) = 1 \<and>
   length (trajectory_vars example_state1) = 2 \<and>
   \<not> T_mi_locked (trajectory_vars (snd (projr
        (registerFrame example_ext example_opts second_scan example_state1))) ! 1) \<and>
   T_mi (trajectory_vars (snd (projr
        (registerFrame example_ext example_opts second_scan example_state1))) ! 1) = 0 \<and>
   se3_update example_ext
       (T_mi_gt_of example_ext (T_i_r_gt_poses example_ext 1)
          (T_rm (last (trajectory_vars example_state1))))
       (T_mi (last (trajectory_vars example_state1))) = 7"
proof -
  define tv where "tv = trajectory_vars (snd (projr
        (registerFrame example_ext example_opts second_scan example_state1)))"
  from second_scan_no_imu have m: "map (\<lambda>k. (T_mi k, T_mi_locked k)) tv = [(0, False), (0, False), (0, True)]"
    unfolding tv_def by simp
  then have "length tv = 3" by (metis length_map length_Cons list.size(3) numeral_3_eq_3)
  with m have "(T_mi (tv ! 1), T_mi_locked (tv ! 1)) = (0, False)"
    by (metis (no_types, lifting) nth_map nth_Cons_0 nth_Cons_Suc One_nat_def lessI Suc_lessD numeral_3_eq_3)
  then have "\<not> T_mi_locked (tv ! 1)" "T_mi (tv ! 1) = 0" by simp_all
  moreover have "\<not> use_imu example_opts" "length (trajectory example_state1) = 1"
    "length (trajectory_vars example_state1) = 2"
    "se3_update example_ext
       (T_mi_gt_of example_ext (T_i_r_gt_poses example_ext 1)
          (T_rm (last (trajectory_vars example_state1))))
       (T_mi (last (trajectory_vars example_state1))) = 7"
    by (simp_all add: example_state1_value example_knot_def example_ext_def example_opts_def)
  ultimately show ?thesis using second_scan_no_imu unfolding tv_def by simp
qed

end
